theory Spec2Isabelle
  imports Complex_Main
begin

section \<open>Data model of the protein category/type viewer\<close>

text \<open>
  The development follows \<^verbatim>\<open>pftv-aux-proteinCategoryFTViewer\<close> (the class
  \<^verbatim>\<open>ProteinCategoryFTViewer\<close>) and \<^verbatim>\<open>FeaturesViewer.js\<close>.

  Conventions of the embedding.
  \<^item> A JavaScript number is a \<^typ>\<open>real\<close> (a finite double). An arithmetic
    operation of the program computes the exact result and rounds it to a double; the
    rounding is a parameter of the model (\<open>rounding\<close>), so that what is proved for every
    rounding holds for the doubles of the program (\<open>double\<close> below) and for exact
    arithmetic (the identity). NaN and the infinities are not numbers of the model of
    the track viewer: its inputs are finite, and the cap that \<^verbatim>\<open>_translate\<close> divides by
    is not 0 where the quotient is used.
  \<^item> \<^verbatim>\<open>undefined\<close> is \<^term>\<open>None\<close>.
  \<^item> An instance object is named by its index in the class-level array
    \<^verbatim>\<open>_instanceArray\<close>, into which the constructor pushes every instance.
  \<^item> A feature object is named by its address in a heap of features, since the same
    feature object is reached from the category model, from the data bound to an SVG
    path and from \<^verbatim>\<open>_currentSelectedFeature\<close>.
  \<^item> A private function \<^verbatim>\<open>_f\<close> of the source is the constant \<open>p_f\<close>; a public
    or protected method keeps its name.
\<close>

subsection \<open>Features, locations, types and categories\<close>

record feature =
  ftId :: string
  selected :: bool
  ft_start :: real
  ft_end :: real
  categoryIndex_ft :: "nat option"
  typeIndex_ft :: "nat option"
  locationIndex :: "nat option"
  featureIndex :: "nat option"
  x :: "real option"
  y :: "real option"
  width_ft :: "real option"
  height_ft :: "real option"
  xLine :: "real option"
  yLine :: "real option"
  hLine :: "real option"

type_synonym addr = nat

record location =
  locationType :: string
  features :: "addr list"

record ftype =
  type_id :: string
  label :: string
  locations :: "location list"

text \<open>
  The option \<^verbatim>\<open>category\<close> is a category with a label and an array \<^verbatim>\<open>types\<close>,
  a variants category with a label and an array \<^verbatim>\<open>variants\<close>, or a single type
  with \<^verbatim>\<open>type\<close>, \<^verbatim>\<open>label\<close> and \<^verbatim>\<open>locations\<close> (header comment of the class).
\<close>

datatype category =
  Category string "ftype list"
| Variants string "addr list"
| Type ftype

datatype trackMode = category_mode | type_mode

datatype styleView = centered | nonOverlapping | variants

subsection \<open>The modules that are used but not part of the sources\<close>

text \<open>
  \<^verbatim>\<open>pftv-aux-utils\<close> (\<^verbatim>\<open>FTVUtils\<close>) and \<^verbatim>\<open>pftv-aux-categoryPaintingHelper\<close> are
  required by the class but are not among the sources. Every constant and function of
  them that the class reads is a field of the following record, a parameter of the model.
  The last field is the rounding of the arithmetic of the platform.
\<close>

record ftvutils =
  getMaxPixelAA :: real
  getTitlesWidth :: "bool option \<Rightarrow> real"
  getMarginLeft :: real
  getMarginRight :: real
  getTitlesPadding :: real
  getMinimumTitlesHeight :: real
  getMaxShapeSize :: real
  ARROW_RIGHT :: string
  ARROW_DOWN :: string
  calculateTextHeightDIV :: "string \<Rightarrow> bool \<Rightarrow> real \<Rightarrow> real"
  getTrackMode :: "category \<Rightarrow> nat option \<Rightarrow> trackMode"
  isVariantsTrack :: "category \<Rightarrow> bool"
  getTrackTitle :: "category \<Rightarrow> bool option \<Rightarrow> string"
  getTrackTypes :: "category \<Rightarrow> ftype list"
  getTypes :: "category \<Rightarrow> category list"
  ftLocation_position :: string
  ftLocation_continuous :: string
  ftLocation_bridge :: string
  equalsNoCase :: "string \<Rightarrow> string \<Rightarrow> bool"
  getStart :: "feature \<Rightarrow> real"
  getEnd :: "feature \<Rightarrow> real"
  rounding :: "real \<Rightarrow> real"

text \<open>The four arithmetic operations of the program: the exact result, rounded.\<close>

definition n_add :: "ftvutils \<Rightarrow> real \<Rightarrow> real \<Rightarrow> real" where
  "n_add env a b = rounding env (a + b)"

definition n_sub :: "ftvutils \<Rightarrow> real \<Rightarrow> real \<Rightarrow> real" where
  "n_sub env a b = rounding env (a - b)"

definition n_mul :: "ftvutils \<Rightarrow> real \<Rightarrow> real \<Rightarrow> real" where
  "n_mul env a b = rounding env (a * b)"

definition n_div :: "ftvutils \<Rightarrow> real \<Rightarrow> real \<Rightarrow> real" where
  "n_div env a b = rounding env (a / b)"

subsection \<open>Doubles\<close>

text \<open>
  The rounding of IEEE 754 binary64 arithmetic, to nearest with ties to even: a number
  \<open>v\<close> with \<open>2 ^ e \<le> |v| < 2 ^ (e + 1)\<close> is rounded to a multiple of \<open>2 ^ (e - 52)\<close>,
  and below \<open>2 ^ (- 1022)\<close> to a multiple of \<open>2 ^ (- 1074)\<close>. Overflow to an infinity
  is not modelled.
\<close>

function ilog2 :: "int \<Rightarrow> int" where
  "ilog2 n = (if n < 2 then 0 else 1 + ilog2 (n div 2))"
  by pat_completeness auto
termination by (relation "measure nat") auto

definition exponent :: "real \<Rightarrow> int" where
  "exponent v =
     (let a = \<bar>v\<bar>
      in if 1 \<le> a then ilog2 \<lfloor>a\<rfloor>
         else - (ilog2 (\<lceil>1 / a\<rceil> - 1) + 1))"

definition pow2 :: "int \<Rightarrow> real" where
  "pow2 k = (if 0 \<le> k then 2 ^ nat k else 1 / 2 ^ nat (- k))"

definition roundEven :: "real \<Rightarrow> int" where
  "roundEven v =
     (let f = \<lfloor>v\<rfloor>; d = v - of_int f
      in if d < 1 / 2 then f else if d > 1 / 2 then f + 1 else if even f then f else f + 1)"

definition double :: "real \<Rightarrow> real" where
  "double v =
     (if v = 0 then 0
      else (let q = pow2 (max (exponent v) (- 1022) - 52)
            in of_int (roundEven (v / q)) * q))"

subsection \<open>The linear scale of d3\<close>

text \<open>
  \<^verbatim>\<open>d3.scale.linear().domain([d0, d1]).range([r0, r1])\<close> of the d3 library (version 3):
  the argument is normalised to \<open>t = (x - d0) / (d1 - d0)\<close> and interpolated as
  \<open>r0 * (1 - t) + r1 * t\<close>, every operation rounded; it is not clamped. For a domain of
  width zero d3 divides by infinity, so \<open>t = 0\<close>. The first argument is the rounding.
\<close>

record linear_scale =
  dom0 :: real
  dom1 :: real
  rng0 :: real
  rng1 :: real

definition scale_linear :: "real \<Rightarrow> real \<Rightarrow> real \<Rightarrow> real \<Rightarrow> linear_scale" where
  "scale_linear d0 d1 r0 r1 = \<lparr>dom0 = d0, dom1 = d1, rng0 = r0, rng1 = r1\<rparr>"

definition scale_apply :: "(real \<Rightarrow> real) \<Rightarrow> linear_scale \<Rightarrow> real \<Rightarrow> real" where
  "scale_apply rd sc v =
     (let b = rd (dom1 sc - dom0 sc);
          t = (if b = 0 then 0 else rd (rd (v - dom0 sc) / b))
      in rd (rd (rng0 sc * rd (1 - t)) + rd (rng1 sc * t)))"

subsection \<open>Instances\<close>

datatype container = BodyDiv nat | Given nat | UncollapsedOf nat

datatype svgElem = SvgPath string nat

datatype event =
  zoomIn | zoomOut | categoryOpen | categoryClose
| featureSelected addr "svgElem option"
| featureUnselected addr "svgElem option"
| featureClicked addr "svgElem option"

datatype effect = Trigger event | PaintFeatures

record margin =
  m_top :: real
  m_right :: real
  m_bottom :: real
  m_left :: real

record ftPosAndHeight =
  position_yLine :: real
  position_hLine :: real
  position_y :: real
  position_h :: "real option"
  bridge_y :: real
  bridge_h :: real
  continuous_y :: real
  continuous_h :: real

record options =
  element :: "container option"
  width :: real
  darkBackground :: bool
  useShapes :: bool
  useTooltips :: bool
  clickable :: bool
  clickableStyle :: bool
  collapsible :: bool
  ftHeight :: real
  transparency :: real
  sequence_opt :: string
  category_opt :: category
  categoryIndex :: "nat option"
  typeIndex :: "nat option"
  myArrayIndex :: nat
  sequenceLength :: nat

text \<open>
  The fields of an instance. The last block is the part of the document the instance
  owns: the text of the title, the display style and the hidden class of its row
  (\<^verbatim>\<open>div.category\<close>) and of its features division (\<^verbatim>\<open>div.categoryFeatures\<close>),
  the heights and widths set on them, and the transform of the SVG group. The fill
  opacity of single SVG paths and the tooltip are presentation only and are left out.
  \<open>effects\<close> logs, latest last, the events the instance triggers and the calls of
  \<^verbatim>\<open>_paintFeatures\<close> (whose drawing is done by the painting helper).
  \<open>listener\<close> is the category that registered handlers on this instance in
  \<^verbatim>\<open>_buildTypeInstances\<close>. A container is a division of the document: one given by
  the caller, the one appended to the body for an instance that was given none, or the
  division \<^verbatim>\<open>_myTypes\<close> a collapsible category creates for its type tracks.
\<close>

record viewer =
  opt :: options
  ftPosAndHeight :: ftPosAndHeight
  styleView :: styleView
  zoomed :: bool
  currentFirstVisibleAA :: real
  currentSelectedFeature :: "addr option"
  currentSelectedSVG :: "svgElem option"
  svgWidthWithMargin :: real
  height :: real
  sequenceLine :: real
  gapToBridge :: real
  gapToShape :: real
  svgBottomGap :: real
  margin :: margin
  xScale :: linear_scale
  pixelPerAA :: real
  titleHeight :: real
  hasBeenOpen :: bool
  categoryDivDisplay :: "string option"
  uncollapsedElement :: "container option"
  listener :: "nat option"
  effects :: "effect list"
  titleText :: string
  rowDisplay :: "string option"
  rowHidden :: bool
  featuresDisplay :: "string option"
  featuresHidden :: bool
  rowHeight :: real
  titleDivHeight :: real
  featuresDivHeight :: real
  svgHeight :: real
  featuresDivWidth :: real
  svgWidth :: real
  groupTransform :: "real \<times> real"

text \<open>
  The state of the class: \<^verbatim>\<open>_instanceArray\<close>, the array \<^verbatim>\<open>_instances\<close>, and the
  feature objects. \<^verbatim>\<open>_instances\<close> is declared once, on the prototype, and the code
  only pushes to it and reads it, so all instances share the one array.
\<close>

record store =
  instanceArray :: "viewer list"
  instances :: "nat list"
  heap :: "feature list"

definition inst :: "store \<Rightarrow> nat \<Rightarrow> viewer" where
  "inst st i = instanceArray st ! i"

definition upd :: "store \<Rightarrow> nat \<Rightarrow> (viewer \<Rightarrow> viewer) \<Rightarrow> store" where
  "upd st i f = st\<lparr>instanceArray := (instanceArray st)[i := f (instanceArray st ! i)]\<rparr>"

definition trigger :: "event \<Rightarrow> viewer \<Rightarrow> viewer" where
  "trigger e self = self\<lparr>effects := effects self @ [Trigger e]\<rparr>"

section \<open>Scale, zoom and translation\<close>

text \<open>\<^verbatim>\<open>_initScale\<close> (lines 200-213).\<close>

definition p_initScale :: "ftvutils \<Rightarrow> viewer \<Rightarrow> viewer" where
  "p_initScale env self =
     (let s1 = self\<lparr>xScale := scale_linear 1 (n_add env (real (sequenceLength (opt self))) 1)
                          (m_left (margin self))
                          (n_sub env (svgWidthWithMargin self) (m_right (margin self)))\<rparr>;
          s2 = s1\<lparr>pixelPerAA := n_sub env (scale_apply (rounding env) (xScale s1) 2)
                                           (scale_apply (rounding env) (xScale s1) 1)\<rparr>;
          s3 = (if pixelPerAA s2 > getMaxPixelAA env
                then (let s2a = s2\<lparr>svgWidthWithMargin :=
                                   n_add env
                                     (n_add env (m_left (margin s2))
                                        (n_mul env (real (sequenceLength (opt s2))) (getMaxPixelAA env)))
                                     (m_right (margin s2))\<rparr>
                      in s2a\<lparr>xScale := scale_linear 1 (n_add env (real (sequenceLength (opt s2a))) 1)
                                 (m_left (margin s2a))
                                 (n_sub env (svgWidthWithMargin s2a) (m_right (margin s2a)))\<rparr>)
                else s2)
      in s3\<lparr>pixelPerAA := n_sub env (scale_apply (rounding env) (xScale s3) 2)
                                      (scale_apply (rounding env) (xScale s3) 1)\<rparr>)"

text \<open>
  \<^verbatim>\<open>_translate\<close> (lines 540-567) without the propagation to the type instances:
  what the function does to \<open>self\<close> after the loop. The three-way choice of the
  horizontal offset is the function \<open>panOffset\<close>.
\<close>

definition firstMaxVisiblePixel :: "ftvutils \<Rightarrow> viewer \<Rightarrow> real" where
  "firstMaxVisiblePixel env self =
     (let usablePixels =
            n_sub env
              (n_sub env (n_sub env (svgWidthWithMargin self) (m_left (margin self)))
                 (m_right (margin self)))
              (getMaxPixelAA env);
          visibleAA = n_div env usablePixels (getMaxPixelAA env);
          firstMaxVisibleAA = n_sub env (real (length (sequence_opt (opt self)))) visibleAA
      in - (scale_apply (rounding env) (xScale self) firstMaxVisibleAA))"

definition xPan :: "ftvutils \<Rightarrow> viewer \<Rightarrow> real \<Rightarrow> real" where
  "xPan env self moveToAA =
     - (n_sub env (scale_apply (rounding env) (xScale self) moveToAA) (m_left (margin self)))"

definition panOffset :: "ftvutils \<Rightarrow> viewer \<Rightarrow> real \<Rightarrow> real" where
  "panOffset env self moveToAA =
     (if firstMaxVisiblePixel env self \<le> xPan env self moveToAA \<and> xPan env self moveToAA \<le> 0
      then xPan env self moveToAA
      else if firstMaxVisiblePixel env self > xPan env self moveToAA
      then firstMaxVisiblePixel env self
      else 0)"

definition translate_self :: "ftvutils \<Rightarrow> real option \<Rightarrow> viewer \<Rightarrow> viewer" where
  "translate_self env moveToAA self =
     (if zoomed self = False
      then self\<lparr>groupTransform := (0, svgBottomGap self), currentFirstVisibleAA := 0\<rparr>
      else if moveToAA \<noteq> None \<and> the moveToAA \<noteq> currentFirstVisibleAA self
      then self\<lparr>groupTransform := (panOffset env self (the moveToAA), svgBottomGap self),
                 currentFirstVisibleAA := the moveToAA\<rparr>
      else self)"

text \<open>
  \<^verbatim>\<open>_paintFeatures\<close> (lines 356-362): the repaint is logged. The drawing is done by
  the painting helper and by \<^verbatim>\<open>_paintRegularFeatures\<close>, which also writes the indices
  of the category, type, location and feature into every painted feature object; the
  indices of the features in the heap are taken as they are given.
\<close>

definition p_paintFeatures :: "viewer \<Rightarrow> viewer" where
  "p_paintFeatures self = self\<lparr>effects := effects self @ [PaintFeatures]\<rparr>"

text \<open>
  \<^verbatim>\<open>_zoomInOut\<close> (lines 491-529) without the propagation: what the function does to
  \<open>self\<close> after the loop over the type instances.
\<close>

definition zoomInOut_self :: "ftvutils \<Rightarrow> real option \<Rightarrow> bool \<Rightarrow> viewer \<Rightarrow> viewer" where
  "zoomInOut_self env moveToAA triggerEvent self =
     (let s1 =
        (if zoomed self = False
         then (let a = self\<lparr>svgWidthWithMargin :=
                                n_sub env (width (opt self)) (getTitlesWidth env None)\<rparr>;
                   tempWidth =
                     n_add env
                       (n_add env
                          (n_mul env (real (sequenceLength (opt a))) (getMaxPixelAA env))
                          (m_left (margin a)))
                       (m_right (margin a));
                   b = a\<lparr>xScale := scale_linear 1 (n_add env (real (sequenceLength (opt a))) 1)
                                  (m_left (margin a)) (n_sub env tempWidth (m_right (margin a)))\<rparr>;
                   c = b\<lparr>pixelPerAA := n_sub env (scale_apply (rounding env) (xScale b) 2)
                                                (scale_apply (rounding env) (xScale b) 1)\<rparr>;
                   d = c\<lparr>featuresDivWidth := svgWidthWithMargin c,
                          svgWidth := svgWidthWithMargin c, zoomed := True\<rparr>
               in if triggerEvent then trigger zoomIn d else d)
         else (let a = self\<lparr>svgWidthWithMargin :=
                                n_sub env (width (opt self)) (getTitlesWidth env None)\<rparr>;
                   b = p_initScale env a;
                   d = b\<lparr>featuresDivWidth := svgWidthWithMargin b,
                          svgWidth := svgWidthWithMargin b, zoomed := False\<rparr>
               in if triggerEvent then trigger zoomOut d else d));
          s2 = p_paintFeatures s1
      in if moveToAA \<noteq> None
         then translate_self env moveToAA s2
         else s2\<lparr>groupTransform := (0, svgBottomGap s2), currentFirstVisibleAA := 0\<rparr>)"

text \<open>
  The propagation loop of both functions: each element of \<^verbatim>\<open>_instances\<close> in turn
  receives \<^verbatim>\<open>_zoomed\<close> and \<^verbatim>\<open>_currentFirstVisibleAA\<close> of \<open>self\<close> as they are at that
  moment, and then the function itself is applied to it, with no event and no further
  propagation.
\<close>

definition receive :: "viewer \<Rightarrow> viewer \<Rightarrow> viewer" where
  "receive self tinst =
     tinst\<lparr>zoomed := zoomed self, currentFirstVisibleAA := currentFirstVisibleAA self\<rparr>"

definition propagateTo :: "(viewer \<Rightarrow> viewer) \<Rightarrow> nat \<Rightarrow> nat \<Rightarrow> store \<Rightarrow> store" where
  "propagateTo f self i s = upd s i (\<lambda>tinst. f (receive (inst s self) tinst))"

definition propagate :: "(viewer \<Rightarrow> viewer) \<Rightarrow> nat \<Rightarrow> store \<Rightarrow> store" where
  "propagate f self st = fold (propagateTo f self) (instances st) st"

definition p_zoomInOut :: "ftvutils \<Rightarrow> store \<Rightarrow> nat \<Rightarrow> real option \<Rightarrow> bool \<Rightarrow> bool \<Rightarrow> store" where
  "p_zoomInOut env st self moveToAA triggerEvent propagateToTypes =
     (let st1 = (if propagateToTypes = True \<and> length (instances st) \<noteq> 0
                 then propagate (zoomInOut_self env moveToAA False) self st
                 else st)
      in upd st1 self (zoomInOut_self env moveToAA triggerEvent))"

definition p_translate :: "ftvutils \<Rightarrow> store \<Rightarrow> nat \<Rightarrow> real option \<Rightarrow> bool \<Rightarrow> store" where
  "p_translate env st self moveToAA propagateToTypes =
     (let st1 = (if propagateToTypes = True \<and> length (instances st) \<noteq> 0
                 then propagate (translate_self env moveToAA) self st
                 else st)
      in upd st1 self (translate_self env moveToAA))"

text \<open>The public methods \<^verbatim>\<open>zoomInOut\<close> (line 886) and \<^verbatim>\<open>translate\<close> (line 894).\<close>

definition zoomInOut :: "ftvutils \<Rightarrow> store \<Rightarrow> nat \<Rightarrow> real option \<Rightarrow> store" where
  "zoomInOut env st self moveToAA = p_zoomInOut env st self moveToAA True True"

definition translate :: "ftvutils \<Rightarrow> store \<Rightarrow> nat \<Rightarrow> real option \<Rightarrow> store" where
  "translate env st self moveToAA = p_translate env st self moveToAA True"

section \<open>Construction\<close>

text \<open>
  The options object handed to the constructor: \<^verbatim>\<open>sequence\<close> and \<^verbatim>\<open>category\<close> are
  mandatory, every other option may be absent.
\<close>

record given_options =
  g_element :: "container option"
  g_sequence :: string
  g_category :: category
  g_width :: "real option"
  g_darkBackground :: "bool option"
  g_useShapes :: "bool option"
  g_useTooltips :: "bool option"
  g_clickable :: "bool option"
  g_clickableStyle :: "bool option"
  g_collapsible :: "bool option"
  g_ftHeight :: "real option"
  g_transparency :: "real option"
  g_categoryIndex :: "nat option"
  g_typeIndex :: "nat option"

definition orDefault :: "'a option \<Rightarrow> 'a \<Rightarrow> 'a" where
  "orDefault v d = (case v of None \<Rightarrow> d | Some w \<Rightarrow> w)"

text \<open>
  \<^verbatim>\<open>_.extend(_.extend({}, _defaultOptions), options)\<close> with \<^verbatim>\<open>_defaultOptions\<close> of
  lines 86-96, and \<^verbatim>\<open>opt.myArrayIndex\<close>. \<^verbatim>\<open>sequenceLength\<close> is assigned by
  \<^verbatim>\<open>_init\<close>.
\<close>

definition extendDefaults :: "given_options \<Rightarrow> nat \<Rightarrow> options" where
  "extendDefaults g idx =
     \<lparr>element = g_element g,
      width = orDefault (g_width g) 1200,
      darkBackground = orDefault (g_darkBackground g) True,
      useShapes = orDefault (g_useShapes g) True,
      useTooltips = orDefault (g_useTooltips g) False,
      clickable = orDefault (g_clickable g) True,
      clickableStyle = orDefault (g_clickableStyle g) True,
      collapsible = orDefault (g_collapsible g) False,
      ftHeight = orDefault (g_ftHeight g) 10,
      transparency = orDefault (g_transparency g) (1 / 2),
      sequence_opt = g_sequence g,
      category_opt = g_category g,
      categoryIndex = g_categoryIndex g,
      typeIndex = g_typeIndex g,
      myArrayIndex = idx,
      sequenceLength = 0\<rparr>"

text \<open>
  A new object with the fields of the prototype (lines 697-728) and
  \<^verbatim>\<open>_ftPosAndHeight\<close> of lines 115-119. The margin, the scale, the pixels per amino
  acid and the title height have no value before \<^verbatim>\<open>_init\<close> assigns them; the document
  part has none before \<^verbatim>\<open>_initPainting\<close>.
\<close>

definition prototype :: "options \<Rightarrow> viewer" where
  "prototype ops =
     \<lparr>opt = ops,
      ftPosAndHeight = \<lparr>position_yLine = 31, position_hLine = 20, position_y = 10,
                        position_h = None, bridge_y = 31, bridge_h = 15,
                        continuous_y = 31, continuous_h = 10\<rparr>,
      styleView = centered,
      zoomed = False,
      currentFirstVisibleAA = 0,
      currentSelectedFeature = None,
      currentSelectedSVG = None,
      svgWidthWithMargin = 600,
      height = 32,
      sequenceLine = 31,
      gapToBridge = 5,
      gapToShape = 10,
      svgBottomGap = 0,
      margin = \<lparr>m_top = 0, m_right = 0, m_bottom = 0, m_left = 0\<rparr>,
      xScale = scale_linear 0 1 0 1,
      pixelPerAA = 0,
      titleHeight = 0,
      hasBeenOpen = False,
      categoryDivDisplay = None,
      uncollapsedElement = None,
      listener = None,
      effects = [],
      titleText = [],
      rowDisplay = None,
      rowHidden = False,
      featuresDisplay = None,
      featuresHidden = False,
      rowHeight = 0,
      titleDivHeight = 0,
      featuresDivHeight = 0,
      svgHeight = 0,
      featuresDivWidth = 0,
      svgWidth = 0,
      groupTransform = (0, 0)\<rparr>"

text \<open>
  \<^verbatim>\<open>_createContainers\<close> (lines 141-168). The ids of the containers are built from the
  clock (\<^verbatim>\<open>new Date().getTime()\<close>) and the indices of the category and the type, and
  the containers are fetched by \<^verbatim>\<open>document.getElementById\<close>. The model gives every
  instance containers of its own. This is what the code does when the ids differ, as they
  do for the type tracks of one category, which have different type indices, and for
  instances constructed in different milliseconds or with different category indices.
  Instances that the clock gives the same id share the containers of the first of them;
  this case is not covered.
\<close>

definition p_createContainers :: "ftvutils \<Rightarrow> viewer \<Rightarrow> viewer" where
  "p_createContainers env self =
     (let idx = myArrayIndex (opt self);
          s1 = (if element (opt self) = None
                then self\<lparr>opt := (opt self)\<lparr>element := Some (BodyDiv idx)\<rparr>\<rparr>
                else self);
          s2 = s1\<lparr>opt := (opt s1)\<lparr>categoryIndex := Some (orDefault (categoryIndex (opt s1)) 0)\<rparr>\<rparr>;
          s3 = (if getTrackMode env (category_opt (opt s2)) (typeIndex (opt s2)) = category_mode
                then (let a = s2\<lparr>styleView := centered\<rparr>
                      in if collapsible (opt a) = True
                         then a\<lparr>uncollapsedElement := Some (UncollapsedOf idx)\<rparr>
                         else a)
                else s2\<lparr>styleView := nonOverlapping,
                        opt := (opt s2)\<lparr>typeIndex := Some (orDefault (typeIndex (opt s2)) 0)\<rparr>\<rparr>)
      in if isVariantsTrack env (category_opt (opt s3)) then s3\<lparr>styleView := variants\<rparr> else s3)"

text \<open>\<^verbatim>\<open>_categoryContains\<close> (lines 865-877).\<close>

definition categoryContains :: "ftvutils \<Rightarrow> viewer \<Rightarrow> string \<Rightarrow> bool" where
  "categoryContains env self ftClass =
     (if isVariantsTrack env (category_opt (opt self)) then False
      else list_ex (\<lambda>t. list_ex (\<lambda>l. locationType l = ftClass) (locations t))
             (getTrackTypes env (category_opt (opt self))))"

text \<open>
  \<^verbatim>\<open>_calculateAdjustHeight\<close> (lines 743-758): the instance and the returned height.
  The second argument of \<open>calculateTextHeightDIV\<close> tells the class of the measured
  title: \<^verbatim>\<open>categoryTitle\<close> (True) or \<^verbatim>\<open>categoryTitleNoCollapsible\<close> (False).
\<close>

definition calculateAdjustHeight :: "ftvutils \<Rightarrow> viewer \<Rightarrow> real \<Rightarrow> bool \<Rightarrow> viewer \<times> real" where
  "calculateAdjustHeight env self h updateSequenceLine =
     (let cat = category_opt (opt self);
          coll = Some (collapsible (opt self));
          s0 = self\<lparr>titleHeight :=
                 (if getTrackMode env cat None = category_mode
                  then calculateTextHeightDIV env (getTrackTitle env cat coll) True
                         (getTitlesWidth env coll)
                  else calculateTextHeightDIV env (getTrackTitle env cat coll) False
                         (getTitlesWidth env coll))\<rparr>;
          s1 = s0\<lparr>titleHeight := max (getMinimumTitlesHeight env)
                                     (n_add env (titleHeight s0) (getTitlesPadding env))\<rparr>;
          h1 = (if h < titleHeight s1 then titleHeight s1 else h);
          s2 = (if updateSequenceLine = True
                then (let a = (if sequenceLine s1 < titleHeight s1
                               then s1\<lparr>sequenceLine := titleHeight s1\<rparr> else s1)
                      in a\<lparr>height := n_add env (sequenceLine a) (m_bottom (margin a))\<rparr>)
                else s1)
      in (s2, h1))"

text \<open>\<^verbatim>\<open>_initSequenceLine\<close> (lines 220-257).\<close>

definition p_initSequenceLine :: "ftvutils \<Rightarrow> viewer \<Rightarrow> viewer" where
  "p_initSequenceLine env self =
     (let s1 =
        (if useShapes (opt self)
         then (if categoryContains env self (ftLocation_position env)
               then (let a =
                       (if categoryContains env self (ftLocation_continuous env)
                        then (if categoryContains env self (ftLocation_bridge env)
                              then self\<lparr>svgBottomGap := - 1\<rparr>
                              else self\<lparr>gapToShape := gapToBridge self, svgBottomGap := - 1\<rparr>)
                        else (if categoryContains env self (ftLocation_bridge env)
                              then self\<lparr>svgBottomGap := - 1\<rparr>
                              else self\<lparr>gapToShape := gapToBridge self, svgBottomGap := 0\<rparr>))
                     in a\<lparr>sequenceLine :=
                            n_add env
                              (n_add env (n_add env (ftHeight (opt a)) (gapToShape a))
                                 (getMaxShapeSize env))
                              6\<rparr>)
               else if categoryContains env self (ftLocation_bridge env)
               then self\<lparr>sequenceLine := n_add env (n_add env (ftHeight (opt self)) (gapToBridge self)) 4,
                         svgBottomGap := - 1\<rparr>
               else self\<lparr>sequenceLine := n_add env (ftHeight (opt self)) 4, svgBottomGap := - (3 / 2)\<rparr>)
         else (if categoryContains env self (ftLocation_bridge env)
               then self\<lparr>sequenceLine := n_add env (n_add env (ftHeight (opt self)) (gapToBridge self)) 4,
                         svgBottomGap := - 1\<rparr>
               else self\<lparr>sequenceLine := n_add env (ftHeight (opt self)) 4, svgBottomGap := - (3 / 2)\<rparr>))
      in fst (calculateAdjustHeight env s1 (sequenceLine s1) True))"

text \<open>\<^verbatim>\<open>_init\<close> (lines 174-194).\<close>

definition p_init :: "ftvutils \<Rightarrow> viewer \<Rightarrow> viewer" where
  "p_init env self =
     (let s1 = self\<lparr>margin := \<lparr>m_top = 0, m_right = getMarginRight env,
                                m_bottom = 0, m_left = getMarginLeft env\<rparr>\<rparr>;
          s2 = s1\<lparr>opt := (opt s1)\<lparr>sequenceLength := length (sequence_opt (opt s1))\<rparr>\<rparr>;
          s3 = s2\<lparr>svgWidthWithMargin := n_sub env (width (opt s2)) (getTitlesWidth env None)\<rparr>;
          s4 = p_initScale env s3;
          s5 = p_initSequenceLine env s4;
          s6 = s5\<lparr>ftPosAndHeight := (ftPosAndHeight s5)
                    \<lparr>continuous_y := sequenceLine s5, continuous_h := ftHeight (opt s5)\<rparr>\<rparr>;
          s7 = (if useShapes (opt s6)
                then s6\<lparr>ftPosAndHeight := (ftPosAndHeight s6)
                          \<lparr>position_y := n_sub env (sequenceLine s6) (gapToShape s6),
                           position_yLine := sequenceLine s6,
                           position_hLine := n_add env (ftHeight (opt s6)) (gapToShape s6)\<rparr>\<rparr>
                else s6\<lparr>ftPosAndHeight := (ftPosAndHeight s6)
                          \<lparr>position_y := sequenceLine s6,
                           position_h := Some (n_add env (ftHeight (opt s6)) (gapToShape s6))\<rparr>\<rparr>)
      in s7\<lparr>ftPosAndHeight := (ftPosAndHeight s7)
               \<lparr>bridge_y := sequenceLine s7, bridge_h := n_add env (ftHeight (opt s7)) (gapToBridge s7)\<rparr>\<rparr>)"

text \<open>
  \<^verbatim>\<open>_applyHeight\<close> (lines 766-772): the row, then every division in the row (the title
  and the features division), then the features division again, then the SVG.
\<close>

definition applyHeight :: "ftvutils \<Rightarrow> viewer \<Rightarrow> real \<Rightarrow> real \<Rightarrow> viewer" where
  "applyHeight env self h gap =
     (let s1 = self\<lparr>rowHeight := n_add env h (n_mul env gap 2)\<rparr>;
          s2 = s1\<lparr>titleDivHeight :=
                    n_sub env (n_add env h gap) (n_mul env (getTitlesPadding env) 2),
                  featuresDivHeight :=
                    n_sub env (n_add env h gap) (n_mul env (getTitlesPadding env) 2)\<rparr>;
          s3 = s2\<lparr>featuresDivHeight := n_add env h gap\<rparr>
      in s3\<lparr>svgHeight := h\<rparr>)"

text \<open>
  \<^verbatim>\<open>_initCategoryTitle\<close> (lines 286-320), \<^verbatim>\<open>_initFeaturesDiv\<close> (lines 329-350) and
  \<^verbatim>\<open>_initPainting\<close> (lines 263-278). The click handler of the title calls \<open>open\<close> or
  \<open>close\<close> below.
\<close>

definition p_initCategoryTitle :: "ftvutils \<Rightarrow> viewer \<Rightarrow> viewer" where
  "p_initCategoryTitle env self =
     self\<lparr>titleText :=
       (if collapsible (opt self) = True
        then ARROW_RIGHT env @ '' '' @ getTrackTitle env (category_opt (opt self)) None
        else [] @ getTrackTitle env (category_opt (opt self)) None)\<rparr>"

definition p_initFeaturesDiv :: "viewer \<Rightarrow> viewer" where
  "p_initFeaturesDiv self =
     self\<lparr>featuresDivWidth := svgWidthWithMargin self,
          svgWidth := svgWidthWithMargin self,
          groupTransform := (0, svgBottomGap self)\<rparr>"

definition p_initPainting :: "ftvutils \<Rightarrow> viewer \<Rightarrow> viewer" where
  "p_initPainting env self =
     (let s1 = p_initCategoryTitle env self;
          s2 = p_initFeaturesDiv s1;
          s3 = applyHeight env s2 (height s2) 2
      in p_paintFeatures s3)"

text \<open>\<^verbatim>\<open>_constructor\<close> (lines 109-135): the new instance is the last of the array.\<close>

definition newViewer :: "ftvutils \<Rightarrow> given_options \<Rightarrow> nat \<Rightarrow> viewer" where
  "newViewer env g idx =
     (let o1 = extendDefaults g idx;
          o2 = (if clickable o1 = True then o1\<lparr>clickableStyle := True\<rparr> else o1);
          o3 = (if isVariantsTrack env (category_opt o2) then o2\<lparr>useShapes := False\<rparr> else o2);
          o4 = (if getTrackMode env (category_opt o3) None = type_mode
                then o3\<lparr>collapsible := False\<rparr> else o3);
          s = (prototype o4)\<lparr>hasBeenOpen := False\<rparr>
      in p_initPainting env (p_init env (p_createContainers env s)))"

definition p_constructor :: "ftvutils \<Rightarrow> store \<Rightarrow> given_options \<Rightarrow> store" where
  "p_constructor env st g =
     st\<lparr>instanceArray := instanceArray st @ [newViewer env g (length (instanceArray st))]\<rparr>"

section \<open>Opening and closing a category\<close>

text \<open>
  \<^verbatim>\<open>_showHideElements\<close> (lines 683-688) on the features division of the instance, and
  on the rows (\<^verbatim>\<open>div.category\<close>) inside its \<^verbatim>\<open>uncollapsedElement\<close>: these are the rows
  of the instances that were created in that container. Setting the style to
  \<^verbatim>\<open>undefined\<close> removes it.
\<close>

definition showHideFeatures :: "string option \<Rightarrow> bool \<Rightarrow> viewer \<Rightarrow> viewer" where
  "showHideFeatures display hidden self =
     self\<lparr>featuresDisplay := display, featuresHidden := hidden\<rparr>"

definition inContainerOf :: "viewer \<Rightarrow> viewer \<Rightarrow> bool" where
  "inContainerOf self v =
     (uncollapsedElement self \<noteq> None \<and> element (opt v) = uncollapsedElement self)"

definition showHideTypes :: "nat \<Rightarrow> string option \<Rightarrow> bool \<Rightarrow> store \<Rightarrow> store" where
  "showHideTypes self display hidden st =
     st\<lparr>instanceArray :=
          map (\<lambda>v. if inContainerOf (inst st self) v
                   then v\<lparr>rowDisplay := display, rowHidden := hidden\<rparr> else v)
              (instanceArray st)\<rparr>"

text \<open>
  The element found by \<^verbatim>\<open>document.getElementById\<close> for a feature painted by the
  instance with the given array index. For a feature that the instance has not painted
  the code gets \<^verbatim>\<open>null\<close>; the model names the element all the same.
\<close>

definition svgOf :: "store \<Rightarrow> addr \<Rightarrow> nat \<Rightarrow> svgElem" where
  "svgOf st a idx = SvgPath (ftId (heap st ! a)) idx"

text \<open>
  \<^verbatim>\<open>_buildTypeInstances\<close> (lines 608-652): the options of a type instance, one step
  of the loop, and the loop.
\<close>

definition typeOptions :: "viewer \<Rightarrow> nat \<times> category \<Rightarrow> given_options" where
  "typeOptions me pt =
     \<lparr>g_element = uncollapsedElement me,
      g_sequence = sequence_opt (opt me),
      g_category = snd pt,
      g_width = Some (width (opt me)),
      g_darkBackground = Some (darkBackground (opt me)),
      g_useShapes = Some (useShapes (opt me)),
      g_useTooltips = Some (useTooltips (opt me)),
      g_clickable = Some False,
      g_clickableStyle = Some (clickableStyle (opt me)),
      g_collapsible = Some False,
      g_ftHeight = Some (ftHeight (opt me)),
      g_transparency = Some (transparency (opt me)),
      g_categoryIndex = categoryIndex (opt me),
      g_typeIndex = Some (fst pt)\<rparr>"

definition buildTypeInstance :: "ftvutils \<Rightarrow> nat \<Rightarrow> nat \<times> category \<Rightarrow> store \<Rightarrow> store" where
  "buildTypeInstance env self pt st =
     (let posType = fst pt;
          idx = length (instanceArray st);
          st1 = p_constructor env st (typeOptions (inst st self) pt);
          st2 = st1\<lparr>instances := instances st1 @ [idx]\<rparr>;
          st3 = upd st2 idx (\<lambda>v. v\<lparr>listener := Some self\<rparr>);
          st4 = (if zoomed (inst st3 self) = True
                 then p_zoomInOut env
                        (upd st3 idx (\<lambda>v. v\<lparr>zoomed := False, currentFirstVisibleAA := 0\<rparr>))
                        idx (Some (currentFirstVisibleAA (inst st3 self))) False False
                 else upd st3 idx (receive (inst st3 self)))
      in (case currentSelectedFeature (inst st4 self) of
            None \<Rightarrow> st4
          | Some c \<Rightarrow>
              if typeIndex_ft (heap st4 ! c) = Some posType
              then upd st4 self (\<lambda>v. v\<lparr>currentSelectedSVG :=
                     Some (svgOf st4 c (myArrayIndex (opt (inst st4 idx))))\<rparr>)
              else st4))"

definition p_buildTypeInstances :: "ftvutils \<Rightarrow> store \<Rightarrow> nat \<Rightarrow> category list \<Rightarrow> store" where
  "p_buildTypeInstances env st self types =
     fold (buildTypeInstance env self) (zip [0..<length types] types) st"

text \<open>\<^verbatim>\<open>_openCategory\<close> (lines 574-601) and \<^verbatim>\<open>_closeCategory\<close> (lines 658-673).\<close>

definition p_openCategory :: "ftvutils \<Rightarrow> store \<Rightarrow> nat \<Rightarrow> store" where
  "p_openCategory env st self =
     (let st1 = upd st self (showHideFeatures (Some ''none'') True);
          st2 = showHideTypes self (categoryDivDisplay (inst st1 self)) False st1;
          st3 = upd st2 self (\<lambda>v. applyHeight env v (titleHeight v) 0)
      in if hasBeenOpen (inst st3 self) \<noteq> True
         then p_buildTypeInstances env (upd st3 self (\<lambda>v. v\<lparr>hasBeenOpen := True\<rparr>)) self
                (getTypes env (category_opt (opt (inst st3 self))))
         else (case currentSelectedFeature (inst st3 self) of
                 None \<Rightarrow> st3
               | Some c \<Rightarrow>
                   (case typeIndex_ft (heap st3 ! c) of
                      None \<Rightarrow> st3
                    | Some k \<Rightarrow>
                        if k < length (instances st3)
                        then upd st3 self (\<lambda>v. v\<lparr>currentSelectedSVG :=
                               Some (svgOf st3 c (myArrayIndex (opt (inst st3 (instances st3 ! k)))))\<rparr>)
                        else st3)))"

definition p_closeCategory :: "ftvutils \<Rightarrow> store \<Rightarrow> nat \<Rightarrow> store" where
  "p_closeCategory env st self =
     (let st1 = upd st self (\<lambda>v. showHideFeatures (categoryDivDisplay v) False v);
          st2 = showHideTypes self (Some ''none'') True st1;
          st3 = upd st2 self (\<lambda>v. applyHeight env v (height v) 0)
      in (case currentSelectedFeature (inst st3 self) of
            None \<Rightarrow> st3
          | Some c \<Rightarrow> upd st3 self (\<lambda>v. v\<lparr>currentSelectedSVG :=
                        Some (svgOf st3 c (myArrayIndex (opt v)))\<rparr>)))"

text \<open>
  The public methods \<^verbatim>\<open>open\<close> (lines 902-911) and \<^verbatim>\<open>close\<close> (lines 917-926).
  \<^verbatim>\<open>text.charAt(0)\<close> is the string of the first character, or the empty string.
\<close>

definition charAt0 :: "string \<Rightarrow> string" where
  "charAt0 s = take 1 s"

definition open_category :: "ftvutils \<Rightarrow> store \<Rightarrow> nat \<Rightarrow> store" where
  "open_category env st self =
     (if collapsible (opt (inst st self)) = True
      then (if charAt0 (titleText (inst st self)) = ARROW_RIGHT env
            then (let st1 = upd st self (\<lambda>v. v\<lparr>titleText :=
                              ARROW_DOWN env @ '' '' @ getTrackTitle env (category_opt (opt v)) None\<rparr>);
                      st2 = p_openCategory env st1 self
                  in upd st2 self (trigger categoryOpen))
            else st)
      else st)"

definition close_category :: "ftvutils \<Rightarrow> store \<Rightarrow> nat \<Rightarrow> store" where
  "close_category env st self =
     (if collapsible (opt (inst st self)) = True
      then (if charAt0 (titleText (inst st self)) \<noteq> ARROW_RIGHT env
            then (let st1 = upd st self (\<lambda>v. v\<lparr>titleText :=
                              ARROW_RIGHT env @ '' '' @ getTrackTitle env (category_opt (opt v)) None\<rparr>);
                      st2 = p_closeCategory env st1 self
                  in upd st2 self (trigger categoryClose))
            else st)
      else st)"


section \<open>Position of a feature\<close>

text \<open>
  \<^verbatim>\<open>_calculatePosition\<close> (lines 830-857): the feature with the coordinates assigned to
  it. A location type that is none of the three leaves the feature with \<open>x\<close> only.
\<close>

definition calculatePosition :: "ftvutils \<Rightarrow> viewer \<Rightarrow> string \<Rightarrow> feature \<Rightarrow> feature" where
  "calculatePosition env self locType ft =
     (let scaledStart = scale_apply (rounding env) (xScale self) (getStart env ft);
          scaledEnd = scale_apply (rounding env) (xScale self) (getEnd env ft);
          f1 = ft\<lparr>x := Some scaledStart\<rparr>
      in if equalsNoCase env locType (ftLocation_continuous env)
         then f1\<lparr>y := Some (continuous_y (ftPosAndHeight self)),
                 width_ft := Some (n_add env (n_sub env scaledEnd scaledStart) (pixelPerAA self)),
                 height_ft := Some (continuous_h (ftPosAndHeight self))\<rparr>
         else if equalsNoCase env locType (ftLocation_position env)
         then (let f2 = f1\<lparr>y := Some (position_y (ftPosAndHeight self))\<rparr>
               in if useShapes (opt self)
                  then (let f3 = f2\<lparr>xLine := Some (n_add env scaledStart
                                         (n_div env
                                            (n_sub env (n_add env scaledEnd (pixelPerAA self))
                                               scaledStart)
                                            2))\<rparr>;
                            f4 = f3\<lparr>x := xLine f3\<rparr>;
                            f5 = f4\<lparr>yLine := Some (position_yLine (ftPosAndHeight self)),
                                    hLine := Some (position_hLine (ftPosAndHeight self))\<rparr>
                        in f5\<lparr>y := Some (n_sub env (the (yLine f5)) (the (hLine f5)))\<rparr>)
                  else f2\<lparr>y := Some (position_y (ftPosAndHeight self)),
                          width_ft := Some (n_add env (n_sub env scaledEnd scaledStart) (pixelPerAA self)),
                          height_ft := position_h (ftPosAndHeight self)\<rparr>)
         else if equalsNoCase env locType (ftLocation_bridge env)
         then f1\<lparr>y := Some (bridge_y (ftPosAndHeight self)),
                 width_ft := Some (n_add env (n_sub env scaledEnd scaledStart) (pixelPerAA self)),
                 height_ft := Some (bridge_h (ftPosAndHeight self))\<rparr>
         else f1)"


section \<open>Selection of a feature\<close>

text \<open>
  A call of the click handler either returns or raises a \<^verbatim>\<open>TypeError\<close> (a property
  of \<^verbatim>\<open>undefined\<close> is read or written); either way the state it leaves is kept.
\<close>

datatype completion = Returned store | TypeError store

definition setSelected :: "store \<Rightarrow> addr \<Rightarrow> bool \<Rightarrow> store" where
  "setSelected st a b = st\<lparr>heap := (heap st)[a := (heap st ! a)\<lparr>selected := b\<rparr>]\<rparr>"

text \<open>
  The feature of the model that \<^verbatim>\<open>_onInstanceFeatureClick\<close> looks up from the indices
  of the clicked feature (lines 463-472): \<^verbatim>\<open>category.types[typeIndex].locations[locationIndex].features[featureIndex]\<close>
  for a category with \<^verbatim>\<open>types\<close>, \<^verbatim>\<open>category.variants[featureIndex]\<close> for one with
  \<^verbatim>\<open>variants\<close>. The result is \<^term>\<open>None\<close> when the lookup raises or gives
  \<^verbatim>\<open>undefined\<close>: an index is missing or out of range, or the category is a single
  type, which has neither \<^verbatim>\<open>types\<close> nor \<^verbatim>\<open>variants\<close>, so that no branch assigns
  \<^verbatim>\<open>_currentSelectedFeature\<close>.
\<close>

definition nth_opt :: "'a list \<Rightarrow> nat option \<Rightarrow> 'a option" where
  "nth_opt xs i = (case i of None \<Rightarrow> None | Some k \<Rightarrow> if k < length xs then Some (xs ! k) else None)"

definition modelFeature :: "category \<Rightarrow> feature \<Rightarrow> addr option" where
  "modelFeature c f =
     (case c of
        Category _ ts \<Rightarrow>
          (case nth_opt ts (typeIndex_ft f) of
             None \<Rightarrow> None
           | Some t \<Rightarrow>
               (case nth_opt (locations t) (locationIndex f) of
                  None \<Rightarrow> None
                | Some l \<Rightarrow> nth_opt (features l) (featureIndex f)))
      | Variants _ vs \<Rightarrow> nth_opt vs (featureIndex f)
      | Type _ \<Rightarrow> None)"

text \<open>
  \<^verbatim>\<open>_onInstanceFeatureClick\<close> (lines 444-478). \<open>a\<close> is \<^verbatim>\<open>obj.feature\<close> and \<open>svg\<close>
  is \<^verbatim>\<open>obj.svgElem\<close>. In the first branch \<^verbatim>\<open>self._currentSelectedFeature.selected = false\<close>
  raises when there is no current selection; in the second one
  \<^verbatim>\<open>self._currentSelectedFeature.selected = true\<close> (or the lookup before it) raises when
  \<open>modelFeature\<close> gives nothing, after \<^verbatim>\<open>obj.feature.selected = true\<close>.
\<close>

definition p_onInstanceFeatureClick :: "store \<Rightarrow> nat \<Rightarrow> addr \<Rightarrow> svgElem \<Rightarrow> completion" where
  "p_onInstanceFeatureClick st self a svg =
     (if clickable (opt (inst st self)) = True
      then
        (if selected (heap st ! a) = True
            \<or> (case currentSelectedFeature (inst st self) of
                  None \<Rightarrow> False
                | Some c \<Rightarrow> ftId (heap st ! a) = ftId (heap st ! c))
         then
           (let st1 = setSelected st a False
            in (case currentSelectedFeature (inst st1 self) of
                  None \<Rightarrow> TypeError st1
                | Some c \<Rightarrow>
                    Returned (upd (setSelected st1 c False) self
                      (\<lambda>v. trigger (featureUnselected a (Some svg))
                             (v\<lparr>currentSelectedFeature := None, currentSelectedSVG := None\<rparr>)))))
         else
           (let st1 = (case currentSelectedFeature (inst st self) of
                         None \<Rightarrow> st
                       | Some c \<Rightarrow>
                           upd (setSelected st c False) self
                             (\<lambda>v. (trigger (featureUnselected c (currentSelectedSVG v)) v)
                                     \<lparr>currentSelectedFeature := None, currentSelectedSVG := None\<rparr>));
                st2 = setSelected st1 a True
            in (case modelFeature (category_opt (opt (inst st2 self))) (heap st2 ! a) of
                  None \<Rightarrow> TypeError st2
                | Some c \<Rightarrow>
                    Returned (upd (setSelected st2 c True) self
                      (\<lambda>v. trigger (featureSelected c (Some svg))
                             (v\<lparr>currentSelectedFeature := Some c, currentSelectedSVG := Some svg\<rparr>))))))
      else Returned st)"

text \<open>
  \<^verbatim>\<open>_onClickFeature\<close> (lines 785-788), the handler of a click on a painted feature:
  the selection of the instance itself, then the event \<^verbatim>\<open>featureClicked\<close>, on which
  the category that built the instance runs \<^verbatim>\<open>_onInstanceFeatureClick\<close> for itself
  (the handler registered in \<^verbatim>\<open>_buildTypeInstances\<close>, lines 628-630).
\<close>

definition onClickFeature :: "store \<Rightarrow> nat \<Rightarrow> svgElem \<Rightarrow> addr \<Rightarrow> completion" where
  "onClickFeature st self caller a =
     (case p_onInstanceFeatureClick st self a caller of
        TypeError st1 \<Rightarrow> TypeError st1
      | Returned st1 \<Rightarrow>
          (let st2 = upd st1 self (trigger (featureClicked a (Some caller)))
           in (case listener (inst st2 self) of
                 None \<Rightarrow> Returned st2
               | Some cat \<Rightarrow> p_onInstanceFeatureClick st2 cat a caller)))"

section \<open>The features viewer\<close>

text \<open>
  \<^verbatim>\<open>FeaturesViewer.js\<close>. The viewer keeps the sequence, the data, the scale and the
  highlighted region; \<open>fv_trace\<close> logs, latest last, the events given to the dispatcher
  and the calls into the modules \<^verbatim>\<open>ViewerHelper\<close> and \<^verbatim>\<open>ZoomingBehaviour\<close>, which
  are not among the sources. \<open>el_nodes\<close> and \<open>el_text\<close> are the child elements and the
  text of the target element \<^verbatim>\<open>opts.el\<close>.
\<close>

text \<open>
  An argument of \<^verbatim>\<open>highlightRegion\<close>: \<^verbatim>\<open>undefined\<close> (the argument is absent) or a
  number, which is \<^verbatim>\<open>NaN\<close>, an infinity or finite. The comparisons are those of
  JavaScript: \<^verbatim>\<open>undefined\<close> is converted to \<^verbatim>\<open>NaN\<close>, and every comparison with
  \<^verbatim>\<open>NaN\<close> is false. In a condition, \<^verbatim>\<open>undefined\<close>, \<^verbatim>\<open>NaN\<close> and 0 count as false.
\<close>

datatype arg = Undefined | NaN | MinusInfinity | Finite real | PlusInfinity

fun js_less :: "arg \<Rightarrow> arg \<Rightarrow> bool" where
  "js_less (Finite a) (Finite b) = (a < b)"
| "js_less (Finite a) PlusInfinity = True"
| "js_less MinusInfinity (Finite b) = True"
| "js_less MinusInfinity PlusInfinity = True"
| "js_less _ _ = False"

fun js_le :: "arg \<Rightarrow> arg \<Rightarrow> bool" where
  "js_le (Finite a) (Finite b) = (a \<le> b)"
| "js_le (Finite a) PlusInfinity = True"
| "js_le MinusInfinity (Finite b) = True"
| "js_le MinusInfinity PlusInfinity = True"
| "js_le MinusInfinity MinusInfinity = True"
| "js_le PlusInfinity PlusInfinity = True"
| "js_le _ _ = False"

fun truthy :: "arg \<Rightarrow> bool" where
  "truthy Undefined = False"
| "truthy NaN = False"
| "truthy (Finite v) = (v \<noteq> 0)"
| "truthy MinusInfinity = True"
| "truthy PlusInfinity = True"

fun the_number :: "arg \<Rightarrow> real" where
  "the_number (Finite v) = v"
| "the_number _ = 0"

datatype fv_event =
  ready | noDataAvailable | noDataRetrieved
| regionHighlighted arg arg

datatype fv_effect =
  Dispatch fv_event
| deselectFeature_call | zoomOut_call | updateHighlight_call | loadZoom_calls

record 'd fviewer =
  fv_width :: real
  padding_left :: real
  padding_right :: real
  fv_sequence :: string
  maxPos :: nat
  fv_xScale :: linear_scale
  fv_data :: "'d list"
  highlight :: "(arg \<times> arg) option"
  fv_trace :: "fv_effect list"
  el_nodes :: "string list"
  el_text :: string

text \<open>The fields the constructor assigns (lines 344-352), for a target element.\<close>

definition FeaturesViewer_new :: "string list \<Rightarrow> string \<Rightarrow> 'd fviewer" where
  "FeaturesViewer_new nodes txt =
     \<lparr>fv_width = 760, padding_left = 10, padding_right = 10, fv_sequence = [],
      maxPos = 0, fv_xScale = scale_linear 0 1 0 1, fv_data = [], highlight = None,
      fv_trace = [], el_nodes = nodes, el_text = txt\<rparr>"

text \<open>
  \<^verbatim>\<open>loadZoom\<close> (lines 515-535): the sequence, the scale, and then the construction of
  the ruler, the buttons, the amino acid views and the zoom, which is logged. The two
  arithmetic operations are those of doubles.
\<close>

definition loadZoom :: "string \<Rightarrow> 'd fviewer \<Rightarrow> 'd fviewer" where
  "loadZoom d_sequence fv =
     (let fv1 = fv\<lparr>fv_sequence := d_sequence, maxPos := length d_sequence\<rparr>;
          fv2 = fv1\<lparr>fv_xScale := scale_linear 1 (double (real (length d_sequence) + 1))
                                    (padding_left fv1)
                                    (double (fv_width fv1 - padding_right fv1))\<rparr>
      in fv2\<lparr>fv_trace := fv_trace fv2 @ [loadZoom_calls]\<rparr>)"

text \<open>
  \<^verbatim>\<open>highlightRegion\<close> (lines 471-487). The test \<^verbatim>\<open>end ? ... : begin\<close> takes the
  second branch for an \<^verbatim>\<open>end\<close> that is absent, 0 or \<^verbatim>\<open>NaN\<close>. When the condition on
  the clamped values holds they are finite, and the scale is applied to them. The first
  argument is the rounding of the arithmetic of the scale.
\<close>

definition highlightRegion ::
  "(real \<Rightarrow> real) \<Rightarrow> 'd fviewer \<Rightarrow> arg \<Rightarrow> arg \<Rightarrow> 'd fviewer" where
  "highlightRegion rd fv begin0 end0 =
     (let len = Finite (real (length (fv_sequence fv)));
          begin1 = (if js_less begin0 (Finite 1) then Finite 1 else begin0);
          end1 = (if truthy end0
                 then (if js_less len end0 then len else end0)
                 else begin1)
      in if js_le (Finite 1) begin1 \<and> js_le begin1 end1 \<and> js_le end1 len
         then (let fv1 = fv\<lparr>fv_trace := fv_trace fv @ [deselectFeature_call]\<rparr>;
                   fv2 = fv1\<lparr>highlight := Some (begin1, end1)\<rparr>;
                   fv3 = (if scale_apply rd (fv_xScale fv2) (dom0 (fv_xScale fv2))
                               > scale_apply rd (fv_xScale fv2) (the_number begin1)
                            \<or> scale_apply rd (fv_xScale fv2) (the_number end1)
                               > scale_apply rd (fv_xScale fv2) (dom1 (fv_xScale fv2))
                          then fv2\<lparr>fv_trace := fv_trace fv2 @ [zoomOut_call]\<rparr>
                          else fv2);
                   fv4 = fv3\<lparr>fv_trace := fv_trace fv3 @ [updateHighlight_call]\<rparr>
               in fv4\<lparr>fv_trace := fv_trace fv4 @ [Dispatch (regionHighlighted begin1 end1)]\<rparr>)
         else fv)"

text \<open>
  Loading (lines 286-337 and 354-395). Every data source is excluded, or gets a loader
  that is rejected, or gets a loader that is resolved with data. A resolved loader draws
  its groups of features, appends them to \<^verbatim>\<open>fv.data\<close> and dispatches \<^verbatim>\<open>ready\<close>; the
  first one also sets the sequence by \<^verbatim>\<open>loadZoom\<close>. The processing of the features
  (\<^verbatim>\<open>DataLoader\<close>) is not among the sources: an outcome carries the sequence and the
  groups as they are appended. The loaders are listed in the order in which they are
  created. The model covers the loading once the configuration, if one is asked for, has
  been retrieved.
\<close>

datatype loader_state = pending | resolved | rejected

datatype 'd outcome = Excluded | Failed | Loaded string "'d list"

definition initLayout :: "'d fviewer \<Rightarrow> 'd fviewer" where
  "initLayout fv = fv\<lparr>el_text := [], el_nodes := [''up_pftv_container'']\<rparr>"

fun loaderDone :: "'d outcome \<Rightarrow> 'd fviewer \<Rightarrow> 'd fviewer" where
  "loaderDone (Loaded s groups) fv =
     (let fv1 = (if fv_sequence fv = [] then loadZoom s fv else fv);
          fv2 = fv1\<lparr>el_nodes := el_nodes fv1 @ [''up_pftv_category'']\<rparr>;
          fv3 = fv2\<lparr>fv_data := fv_data fv2 @ groups\<rparr>
      in fv3\<lparr>fv_trace := fv_trace fv3 @ [Dispatch ready]\<rparr>)"
| "loaderDone other fv = fv"

fun loaderState :: "'d outcome \<Rightarrow> loader_state list" where
  "loaderState Excluded = []"
| "loaderState Failed = [rejected]"
| "loaderState (Loaded s groups) = [resolved]"

definition loadSources :: "'d outcome list \<Rightarrow> 'd fviewer \<Rightarrow> loader_state list \<times> 'd fviewer" where
  "loadSources outcomes fv =
     (concat (map loaderState outcomes), fold loaderDone outcomes (initLayout fv))"

text \<open>The callback of \<^verbatim>\<open>jQuery.when\<close> on all delegates (lines 379-394).\<close>

definition whenDone :: "loader_state list \<Rightarrow> 'd fviewer \<Rightarrow> 'd fviewer" where
  "whenDone loaders fv =
     (let rejected_loaders = filter (\<lambda>l. l = rejected) loaders
      in if length rejected_loaders = length loaders \<or> length (fv_data fv) = 0
         then (let fv1 = fv\<lparr>el_nodes := []\<rparr>;
                   fv2 = fv1\<lparr>el_nodes := [], el_text := []\<rparr>
               in if length rejected_loaders = length loaders
                  then fv2\<lparr>el_text := ''Sorry, data could not be retrieved at this time, please try again later.'',
                           fv_trace := fv_trace fv2 @ [Dispatch noDataRetrieved]\<rparr>
                  else if length (fv_data fv2) = 0
                  then fv2\<lparr>el_text := ''There are no features available for this protein.'',
                           fv_trace := fv_trace fv2 @ [Dispatch noDataAvailable]\<rparr>
                  else fv2)
         else fv)"

definition load :: "'d outcome list \<Rightarrow> 'd fviewer \<Rightarrow> 'd fviewer" where
  "load outcomes fv =
     (let r = loadSources outcomes fv in whenDone (fst r) (snd r))"


section \<open>Predicates and abbreviations used in the statements\<close>



definition wf_store :: "store \<Rightarrow> bool" where
  "wf_store st =
     (distinct (instances st) \<and>
      (\<forall>i \<in> set (instances st). i < length (instanceArray st)
          \<and> collapsible (opt (inst st i)) = False \<and> clickable (opt (inst st i)) = False))"


definition initialised :: "ftvutils \<Rightarrow> viewer \<Rightarrow> viewer" where
  "initialised env s =
     p_initScale env
       (s\<lparr>margin := \<lparr>m_top = 0, m_right = getMarginRight env, m_bottom = 0, m_left = getMarginLeft env\<rparr>,
          opt := (opt s)\<lparr>sequenceLength := length (sequence_opt (opt s))\<rparr>,
          svgWidthWithMargin := n_sub env (width (opt s)) (getTitlesWidth env None)\<rparr>)"


text \<open>
  The clamped arguments of \<^verbatim>\<open>highlightRegion\<close> in the words of the claim: a number
  is clamped to at least 1, or to at most the length; \<^verbatim>\<open>NaN\<close> and \<^verbatim>\<open>undefined\<close>
  cannot be clamped and stay. \<open>statedEnd\<close> takes the clamped \<^verbatim>\<open>begin\<close> for a missing
  \<^verbatim>\<open>end\<close> only, \<open>clampedEnd\<close> also for an \<^verbatim>\<open>end\<close> that is 0 or \<^verbatim>\<open>NaN\<close>.
\<close>

fun atLeast1 :: "arg \<Rightarrow> arg" where
  "atLeast1 (Finite v) = Finite (max 1 v)"
| "atLeast1 MinusInfinity = Finite 1"
| "atLeast1 other = other"

fun atMost :: "real \<Rightarrow> arg \<Rightarrow> arg" where
  "atMost len (Finite v) = Finite (min v len)"
| "atMost len PlusInfinity = Finite len"
| "atMost len other = other"

definition clampedBegin :: "arg \<Rightarrow> arg" where
  "clampedBegin begin0 = atLeast1 begin0"

definition clampedEnd :: "real \<Rightarrow> arg \<Rightarrow> arg \<Rightarrow> arg" where
  "clampedEnd len begin0 end0 =
     (if end0 = Undefined \<or> end0 = NaN \<or> end0 = Finite 0 then clampedBegin begin0
      else atMost len end0)"

definition statedEnd :: "real \<Rightarrow> arg \<Rightarrow> arg \<Rightarrow> arg" where
  "statedEnd len begin0 end0 =
     (if end0 = Undefined then clampedBegin begin0 else atMost len end0)"

definition frame :: "viewer \<Rightarrow> viewer \<Rightarrow> bool" where
  "frame v w =
     (v\<lparr>rowDisplay := None, rowHidden := False, currentSelectedSVG := None\<rparr>
        = w\<lparr>rowDisplay := None, rowHidden := False, currentSelectedSVG := None\<rparr>)"

definition builtViewer :: "ftvutils \<Rightarrow> store \<Rightarrow> nat \<Rightarrow> nat \<times> category \<Rightarrow> viewer" where
  "builtViewer env st self pt = inst (buildTypeInstance env self pt st) (length (instanceArray st))"

definition isTypeInstance :: "store \<Rightarrow> nat \<Rightarrow> category \<Rightarrow> nat \<Rightarrow> viewer \<Rightarrow> bool" where
  "isTypeInstance st self ty j v =
     (collapsible (opt v) = False \<and> clickable (opt v) = False
      \<and> category_opt (opt v) = ty \<and> myArrayIndex (opt v) = j
      \<and> listener v = Some self \<and> hasBeenOpen v = False
      \<and> rowHidden v = False \<and> rowDisplay v = None
      \<and> element (opt v) =
           (if uncollapsedElement (inst st self) = None then Some (BodyDiv j)
            else uncollapsedElement (inst st self)))"

definition typesBuilt :: "store \<Rightarrow> nat \<Rightarrow> category list \<Rightarrow> store \<Rightarrow> bool" where
  "typesBuilt st self types st' =
     (let n = length (instanceArray st)
      in length (instanceArray st') = n + length types
         \<and> instances st' = instances st @ [n ..< n + length types]
         \<and> heap st' = heap st
         \<and> (\<forall>j < n. frame (inst st' j) (inst st j) \<and> (j \<noteq> self \<longrightarrow> inst st' j = inst st j))
         \<and> (\<forall>j. n \<le> j \<and> j < n + length types \<longrightarrow>
               isTypeInstance st self (types ! (j - n)) j (inst st' j)))"

definition openedViewer :: "ftvutils \<Rightarrow> viewer \<Rightarrow> viewer" where
  "openedViewer env v =
     trigger categoryOpen
       ((applyHeight env
           (showHideFeatures (Some ''none'') True
              (v\<lparr>titleText := ARROW_DOWN env @ '' '' @ getTrackTitle env (category_opt (opt v)) None\<rparr>))
           (titleHeight v) 0)\<lparr>hasBeenOpen := True\<rparr>)"

definition closedViewer :: "ftvutils \<Rightarrow> viewer \<Rightarrow> viewer" where
  "closedViewer env v =
     trigger categoryClose
       (applyHeight env
          (showHideFeatures (categoryDivDisplay v) False
             (v\<lparr>titleText := ARROW_RIGHT env @ '' '' @ getTrackTitle env (category_opt (opt v)) None\<rparr>))
          (height v) 0)"

definition isClosed :: "ftvutils \<Rightarrow> viewer \<Rightarrow> bool" where
  "isClosed env v = (charAt0 (titleText v) = ARROW_RIGHT env)"

definition openPrepared :: "ftvutils \<Rightarrow> store \<Rightarrow> nat \<Rightarrow> store" where
  "openPrepared env st self =
     (let st0 = upd st self (\<lambda>v. v\<lparr>titleText :=
                   ARROW_DOWN env @ '' '' @ getTrackTitle env (category_opt (opt v)) None\<rparr>);
          st1 = upd st0 self (showHideFeatures (Some ''none'') True);
          st2 = showHideTypes self (categoryDivDisplay (inst st1 self)) False st1
      in upd st2 self (\<lambda>v. applyHeight env v (titleHeight v) 0))"

definition openRest :: "ftvutils \<Rightarrow> store \<Rightarrow> nat \<Rightarrow> store" where
  "openRest env st3 self =
     (if hasBeenOpen (inst st3 self) \<noteq> True
      then p_buildTypeInstances env (upd st3 self (\<lambda>v. v\<lparr>hasBeenOpen := True\<rparr>)) self
             (getTypes env (category_opt (opt (inst st3 self))))
      else (case currentSelectedFeature (inst st3 self) of
              None \<Rightarrow> st3
            | Some c \<Rightarrow>
                (case typeIndex_ft (heap st3 ! c) of
                   None \<Rightarrow> st3
                 | Some k \<Rightarrow>
                     if k < length (instances st3)
                     then upd st3 self (\<lambda>v. v\<lparr>currentSelectedSVG :=
                            Some (svgOf st3 c (myArrayIndex (opt (inst st3 (instances st3 ! k)))))\<rparr>)
                     else st3)))"

definition arrows_ok :: "ftvutils \<Rightarrow> bool" where
  "arrows_ok env =
     (length (ARROW_RIGHT env) = 1 \<and> charAt0 (ARROW_DOWN env @ '' '') \<noteq> ARROW_RIGHT env)"

definition modelFeatures :: "category \<Rightarrow> addr list" where
  "modelFeatures c =
     (case c of
        Category _ ts \<Rightarrow> concat (map (\<lambda>t. concat (map features (locations t))) ts)
      | Variants _ vs \<Rightarrow> vs
      | Type t \<Rightarrow> concat (map features (locations t)))"

definition selectionInv :: "store \<Rightarrow> nat \<Rightarrow> bool" where
  "selectionInv st self =
     (let fs = modelFeatures (category_opt (opt (inst st self)))
      in (case currentSelectedFeature (inst st self) of
            None \<Rightarrow> list_all (\<lambda>a. selected (heap st ! a) = False) fs
          | Some c \<Rightarrow> c \<in> set fs \<and> list_all (\<lambda>a. selected (heap st ! a) = (a = c)) fs))"

definition the_store :: "completion \<Rightarrow> store" where
  "the_store r = (case r of Returned st \<Rightarrow> st | TypeError st \<Rightarrow> st)"

definition raised :: "completion \<Rightarrow> bool" where
  "raised r = (case r of Returned st \<Rightarrow> False | TypeError st \<Rightarrow> True)"

section \<open>A sample configuration\<close>

text \<open>
  Values for the constants of the missing modules, a category with two types of one
  feature each, and the stores built from it by the constructor. They are the concrete
  inputs of the examples below. \<open>env_ex\<close> has exact arithmetic, \<open>env_double\<close> the same
  constants and the arithmetic of doubles.
\<close>

definition env_ex :: ftvutils where
  "env_ex =
     \<lparr>getMaxPixelAA = 14,
      getTitlesWidth = (\<lambda>_. 200),
      getMarginLeft = 10,
      getMarginRight = 10,
      getTitlesPadding = 4,
      getMinimumTitlesHeight = 30,
      getMaxShapeSize = 10,
      ARROW_RIGHT = ''>'',
      ARROW_DOWN = ''v'',
      calculateTextHeightDIV = (\<lambda>_ _ _. 20),
      getTrackMode = (\<lambda>c _. case c of Type _ \<Rightarrow> type_mode | _ \<Rightarrow> category_mode),
      isVariantsTrack = (\<lambda>c. case c of Variants _ _ \<Rightarrow> True | _ \<Rightarrow> False),
      getTrackTitle = (\<lambda>c _. case c of Category l _ \<Rightarrow> l | Variants l _ \<Rightarrow> l | Type t \<Rightarrow> label t),
      getTrackTypes = (\<lambda>c. case c of Category _ ts \<Rightarrow> ts | Variants _ _ \<Rightarrow> [] | Type t \<Rightarrow> [t]),
      getTypes = (\<lambda>c. case c of Category _ ts \<Rightarrow> map Type ts | _ \<Rightarrow> []),
      ftLocation_position = ''position'',
      ftLocation_continuous = ''continuous'',
      ftLocation_bridge = ''bridge'',
      equalsNoCase = (\<lambda>a b. a = b),
      getStart = ft_start,
      getEnd = ft_end,
      rounding = (\<lambda>v. v)\<rparr>"


definition type_ex :: "string \<Rightarrow> addr list \<Rightarrow> ftype" where
  "type_ex n fs = \<lparr>type_id = n, label = n, locations = [\<lparr>locationType = ''continuous'', features = fs\<rparr>]\<rparr>"

definition given_ex :: "string \<Rightarrow> category \<Rightarrow> bool \<Rightarrow> given_options" where
  "given_ex s c coll =
     \<lparr>g_element = None, g_sequence = s, g_category = c, g_width = None,
      g_darkBackground = None, g_useShapes = None, g_useTooltips = None,
      g_clickable = None, g_clickableStyle = None, g_collapsible = Some coll,
      g_ftHeight = None, g_transparency = None, g_categoryIndex = None, g_typeIndex = None\<rparr>"

definition feature_ex :: "string \<Rightarrow> real \<Rightarrow> real \<Rightarrow> nat \<Rightarrow> nat \<Rightarrow> nat \<Rightarrow> feature" where
  "feature_ex i b e ti li fi =
     \<lparr>ftId = i, selected = False, ft_start = b, ft_end = e, categoryIndex_ft = Some 0,
      typeIndex_ft = Some ti, locationIndex = Some li, featureIndex = Some fi,
      x = None, y = None, width_ft = None, height_ft = None, xLine = None, yLine = None, hLine = None\<rparr>"

definition store_ex :: "string \<Rightarrow> store" where
  "store_ex s =
     p_constructor env_ex
       \<lparr>instanceArray = [], instances = [],
        heap = [feature_ex ''f0'' 2 4 0 0 0, feature_ex ''f1'' 5 5 1 0 0]\<rparr>
       (given_ex s (Category ''Domains'' [type_ex ''DOMAIN'' [0], type_ex ''REGION'' [1]]) True)"

definition viewer_ex :: viewer where
  "viewer_ex = (inst (store_ex ''MKVLAAGIVG'') 0)\<lparr>svgWidthWithMargin := 1000\<rparr>"

definition opened_ex :: store where
  "opened_ex = open_category env_ex (store_ex ''MKVLAAGIVG'') 0"

definition sequence_ex :: string where
  "sequence_ex = concat (replicate 8 ''MKVLAAGIVG'')"

definition zoomed_ex :: store where
  "zoomed_ex = zoomInOut env_ex (open_category env_ex (store_ex sequence_ex) 0) 0 None"


definition fv_ex :: "nat fviewer" where
  "fv_ex = loadZoom ''MKVLAAGIVG'' (initLayout (FeaturesViewer_new [] ''loading''))"

definition fv0_ex :: "nat fviewer" where
  "fv0_ex = FeaturesViewer_new [] ''loading''"

definition closed_ex :: store where
  "closed_ex = close_category env_ex opened_ex 0"

definition store2_ex :: store where
  "store2_ex =
     p_constructor env_ex opened_ex
       (given_ex ''MKVLAAGIVG'' (Category ''Sites'' [type_ex ''SITE'' [1]]) True)"

definition type_store_ex :: store where
  "type_store_ex =
     p_constructor env_ex
       \<lparr>instanceArray = [], instances = [], heap = [feature_ex ''f0'' 2 4 0 0 0]\<rparr>
       (given_ex ''MKVLAAGIVG'' (Type (type_ex ''DOMAIN'' [0])) False)"




section \<open>What each function leaves unchanged\<close>

lemma initScale_frame [simp]:
  "opt (p_initScale env s) = opt s"
  "ftPosAndHeight (p_initScale env s) = ftPosAndHeight s"
  "styleView (p_initScale env s) = styleView s"
  "zoomed (p_initScale env s) = zoomed s"
  "currentFirstVisibleAA (p_initScale env s) = currentFirstVisibleAA s"
  "currentSelectedFeature (p_initScale env s) = currentSelectedFeature s"
  "currentSelectedSVG (p_initScale env s) = currentSelectedSVG s"
  "height (p_initScale env s) = height s"
  "sequenceLine (p_initScale env s) = sequenceLine s"
  "gapToBridge (p_initScale env s) = gapToBridge s"
  "gapToShape (p_initScale env s) = gapToShape s"
  "svgBottomGap (p_initScale env s) = svgBottomGap s"
  "margin (p_initScale env s) = margin s"
  "titleHeight (p_initScale env s) = titleHeight s"
  "hasBeenOpen (p_initScale env s) = hasBeenOpen s"
  "categoryDivDisplay (p_initScale env s) = categoryDivDisplay s"
  "uncollapsedElement (p_initScale env s) = uncollapsedElement s"
  "listener (p_initScale env s) = listener s"
  "effects (p_initScale env s) = effects s"
  "titleText (p_initScale env s) = titleText s"
  "rowDisplay (p_initScale env s) = rowDisplay s"
  "rowHidden (p_initScale env s) = rowHidden s"
  "featuresDisplay (p_initScale env s) = featuresDisplay s"
  "featuresHidden (p_initScale env s) = featuresHidden s"
  "rowHeight (p_initScale env s) = rowHeight s"
  "titleDivHeight (p_initScale env s) = titleDivHeight s"
  "featuresDivHeight (p_initScale env s) = featuresDivHeight s"
  "svgHeight (p_initScale env s) = svgHeight s"
  "featuresDivWidth (p_initScale env s) = featuresDivWidth s"
  "svgWidth (p_initScale env s) = svgWidth s"
  "groupTransform (p_initScale env s) = groupTransform s"
  by (simp_all add: p_initScale_def Let_def)

lemma translate_self_frame [simp]:
  "opt (translate_self env m s) = opt s"
  "ftPosAndHeight (translate_self env m s) = ftPosAndHeight s"
  "styleView (translate_self env m s) = styleView s"
  "zoomed (translate_self env m s) = zoomed s"
  "currentSelectedFeature (translate_self env m s) = currentSelectedFeature s"
  "currentSelectedSVG (translate_self env m s) = currentSelectedSVG s"
  "svgWidthWithMargin (translate_self env m s) = svgWidthWithMargin s"
  "height (translate_self env m s) = height s"
  "sequenceLine (translate_self env m s) = sequenceLine s"
  "gapToBridge (translate_self env m s) = gapToBridge s"
  "gapToShape (translate_self env m s) = gapToShape s"
  "svgBottomGap (translate_self env m s) = svgBottomGap s"
  "margin (translate_self env m s) = margin s"
  "xScale (translate_self env m s) = xScale s"
  "pixelPerAA (translate_self env m s) = pixelPerAA s"
  "titleHeight (translate_self env m s) = titleHeight s"
  "hasBeenOpen (translate_self env m s) = hasBeenOpen s"
  "categoryDivDisplay (translate_self env m s) = categoryDivDisplay s"
  "uncollapsedElement (translate_self env m s) = uncollapsedElement s"
  "listener (translate_self env m s) = listener s"
  "effects (translate_self env m s) = effects s"
  "titleText (translate_self env m s) = titleText s"
  "rowDisplay (translate_self env m s) = rowDisplay s"
  "rowHidden (translate_self env m s) = rowHidden s"
  "featuresDisplay (translate_self env m s) = featuresDisplay s"
  "featuresHidden (translate_self env m s) = featuresHidden s"
  "rowHeight (translate_self env m s) = rowHeight s"
  "titleDivHeight (translate_self env m s) = titleDivHeight s"
  "featuresDivHeight (translate_self env m s) = featuresDivHeight s"
  "svgHeight (translate_self env m s) = svgHeight s"
  "featuresDivWidth (translate_self env m s) = featuresDivWidth s"
  "svgWidth (translate_self env m s) = svgWidth s"
  by (simp_all add: translate_self_def)

lemma trigger_frame [simp]:
  "opt (trigger e s) = opt s"
  "ftPosAndHeight (trigger e s) = ftPosAndHeight s"
  "styleView (trigger e s) = styleView s"
  "zoomed (trigger e s) = zoomed s"
  "currentFirstVisibleAA (trigger e s) = currentFirstVisibleAA s"
  "currentSelectedFeature (trigger e s) = currentSelectedFeature s"
  "currentSelectedSVG (trigger e s) = currentSelectedSVG s"
  "svgWidthWithMargin (trigger e s) = svgWidthWithMargin s"
  "height (trigger e s) = height s"
  "sequenceLine (trigger e s) = sequenceLine s"
  "gapToBridge (trigger e s) = gapToBridge s"
  "gapToShape (trigger e s) = gapToShape s"
  "svgBottomGap (trigger e s) = svgBottomGap s"
  "margin (trigger e s) = margin s"
  "xScale (trigger e s) = xScale s"
  "pixelPerAA (trigger e s) = pixelPerAA s"
  "titleHeight (trigger e s) = titleHeight s"
  "hasBeenOpen (trigger e s) = hasBeenOpen s"
  "categoryDivDisplay (trigger e s) = categoryDivDisplay s"
  "uncollapsedElement (trigger e s) = uncollapsedElement s"
  "listener (trigger e s) = listener s"
  "titleText (trigger e s) = titleText s"
  "rowDisplay (trigger e s) = rowDisplay s"
  "rowHidden (trigger e s) = rowHidden s"
  "featuresDisplay (trigger e s) = featuresDisplay s"
  "featuresHidden (trigger e s) = featuresHidden s"
  "rowHeight (trigger e s) = rowHeight s"
  "titleDivHeight (trigger e s) = titleDivHeight s"
  "featuresDivHeight (trigger e s) = featuresDivHeight s"
  "svgHeight (trigger e s) = svgHeight s"
  "featuresDivWidth (trigger e s) = featuresDivWidth s"
  "svgWidth (trigger e s) = svgWidth s"
  "groupTransform (trigger e s) = groupTransform s"
  by (simp_all add: trigger_def)

lemma paintFeatures_frame [simp]:
  "opt (p_paintFeatures s) = opt s"
  "ftPosAndHeight (p_paintFeatures s) = ftPosAndHeight s"
  "styleView (p_paintFeatures s) = styleView s"
  "zoomed (p_paintFeatures s) = zoomed s"
  "currentFirstVisibleAA (p_paintFeatures s) = currentFirstVisibleAA s"
  "currentSelectedFeature (p_paintFeatures s) = currentSelectedFeature s"
  "currentSelectedSVG (p_paintFeatures s) = currentSelectedSVG s"
  "svgWidthWithMargin (p_paintFeatures s) = svgWidthWithMargin s"
  "height (p_paintFeatures s) = height s"
  "sequenceLine (p_paintFeatures s) = sequenceLine s"
  "gapToBridge (p_paintFeatures s) = gapToBridge s"
  "gapToShape (p_paintFeatures s) = gapToShape s"
  "svgBottomGap (p_paintFeatures s) = svgBottomGap s"
  "margin (p_paintFeatures s) = margin s"
  "xScale (p_paintFeatures s) = xScale s"
  "pixelPerAA (p_paintFeatures s) = pixelPerAA s"
  "titleHeight (p_paintFeatures s) = titleHeight s"
  "hasBeenOpen (p_paintFeatures s) = hasBeenOpen s"
  "categoryDivDisplay (p_paintFeatures s) = categoryDivDisplay s"
  "uncollapsedElement (p_paintFeatures s) = uncollapsedElement s"
  "listener (p_paintFeatures s) = listener s"
  "titleText (p_paintFeatures s) = titleText s"
  "rowDisplay (p_paintFeatures s) = rowDisplay s"
  "rowHidden (p_paintFeatures s) = rowHidden s"
  "featuresDisplay (p_paintFeatures s) = featuresDisplay s"
  "featuresHidden (p_paintFeatures s) = featuresHidden s"
  "rowHeight (p_paintFeatures s) = rowHeight s"
  "titleDivHeight (p_paintFeatures s) = titleDivHeight s"
  "featuresDivHeight (p_paintFeatures s) = featuresDivHeight s"
  "svgHeight (p_paintFeatures s) = svgHeight s"
  "featuresDivWidth (p_paintFeatures s) = featuresDivWidth s"
  "svgWidth (p_paintFeatures s) = svgWidth s"
  "groupTransform (p_paintFeatures s) = groupTransform s"
  by (simp_all add: p_paintFeatures_def)

lemma receive_frame [simp]:
  "opt (receive v s) = opt s"
  "ftPosAndHeight (receive v s) = ftPosAndHeight s"
  "styleView (receive v s) = styleView s"
  "currentSelectedFeature (receive v s) = currentSelectedFeature s"
  "currentSelectedSVG (receive v s) = currentSelectedSVG s"
  "svgWidthWithMargin (receive v s) = svgWidthWithMargin s"
  "height (receive v s) = height s"
  "sequenceLine (receive v s) = sequenceLine s"
  "gapToBridge (receive v s) = gapToBridge s"
  "gapToShape (receive v s) = gapToShape s"
  "svgBottomGap (receive v s) = svgBottomGap s"
  "margin (receive v s) = margin s"
  "xScale (receive v s) = xScale s"
  "pixelPerAA (receive v s) = pixelPerAA s"
  "titleHeight (receive v s) = titleHeight s"
  "hasBeenOpen (receive v s) = hasBeenOpen s"
  "categoryDivDisplay (receive v s) = categoryDivDisplay s"
  "uncollapsedElement (receive v s) = uncollapsedElement s"
  "listener (receive v s) = listener s"
  "effects (receive v s) = effects s"
  "titleText (receive v s) = titleText s"
  "rowDisplay (receive v s) = rowDisplay s"
  "rowHidden (receive v s) = rowHidden s"
  "featuresDisplay (receive v s) = featuresDisplay s"
  "featuresHidden (receive v s) = featuresHidden s"
  "rowHeight (receive v s) = rowHeight s"
  "titleDivHeight (receive v s) = titleDivHeight s"
  "featuresDivHeight (receive v s) = featuresDivHeight s"
  "svgHeight (receive v s) = svgHeight s"
  "featuresDivWidth (receive v s) = featuresDivWidth s"
  "svgWidth (receive v s) = svgWidth s"
  "groupTransform (receive v s) = groupTransform s"
  by (simp_all add: receive_def)

lemma zoomInOut_self_frame [simp]:
  "opt (zoomInOut_self env m t s) = opt s"
  "ftPosAndHeight (zoomInOut_self env m t s) = ftPosAndHeight s"
  "styleView (zoomInOut_self env m t s) = styleView s"
  "currentSelectedFeature (zoomInOut_self env m t s) = currentSelectedFeature s"
  "currentSelectedSVG (zoomInOut_self env m t s) = currentSelectedSVG s"
  "height (zoomInOut_self env m t s) = height s"
  "sequenceLine (zoomInOut_self env m t s) = sequenceLine s"
  "gapToBridge (zoomInOut_self env m t s) = gapToBridge s"
  "gapToShape (zoomInOut_self env m t s) = gapToShape s"
  "svgBottomGap (zoomInOut_self env m t s) = svgBottomGap s"
  "margin (zoomInOut_self env m t s) = margin s"
  "titleHeight (zoomInOut_self env m t s) = titleHeight s"
  "hasBeenOpen (zoomInOut_self env m t s) = hasBeenOpen s"
  "categoryDivDisplay (zoomInOut_self env m t s) = categoryDivDisplay s"
  "uncollapsedElement (zoomInOut_self env m t s) = uncollapsedElement s"
  "listener (zoomInOut_self env m t s) = listener s"
  "titleText (zoomInOut_self env m t s) = titleText s"
  "rowDisplay (zoomInOut_self env m t s) = rowDisplay s"
  "rowHidden (zoomInOut_self env m t s) = rowHidden s"
  "featuresDisplay (zoomInOut_self env m t s) = featuresDisplay s"
  "featuresHidden (zoomInOut_self env m t s) = featuresHidden s"
  "rowHeight (zoomInOut_self env m t s) = rowHeight s"
  "titleDivHeight (zoomInOut_self env m t s) = titleDivHeight s"
  "featuresDivHeight (zoomInOut_self env m t s) = featuresDivHeight s"
  "svgHeight (zoomInOut_self env m t s) = svgHeight s"
  by (simp_all add: zoomInOut_self_def Let_def)

lemma applyHeight_frame [simp]:
  "opt (applyHeight env s h gap) = opt s"
  "ftPosAndHeight (applyHeight env s h gap) = ftPosAndHeight s"
  "styleView (applyHeight env s h gap) = styleView s"
  "zoomed (applyHeight env s h gap) = zoomed s"
  "currentFirstVisibleAA (applyHeight env s h gap) = currentFirstVisibleAA s"
  "currentSelectedFeature (applyHeight env s h gap) = currentSelectedFeature s"
  "currentSelectedSVG (applyHeight env s h gap) = currentSelectedSVG s"
  "svgWidthWithMargin (applyHeight env s h gap) = svgWidthWithMargin s"
  "height (applyHeight env s h gap) = height s"
  "sequenceLine (applyHeight env s h gap) = sequenceLine s"
  "gapToBridge (applyHeight env s h gap) = gapToBridge s"
  "gapToShape (applyHeight env s h gap) = gapToShape s"
  "svgBottomGap (applyHeight env s h gap) = svgBottomGap s"
  "margin (applyHeight env s h gap) = margin s"
  "xScale (applyHeight env s h gap) = xScale s"
  "pixelPerAA (applyHeight env s h gap) = pixelPerAA s"
  "titleHeight (applyHeight env s h gap) = titleHeight s"
  "hasBeenOpen (applyHeight env s h gap) = hasBeenOpen s"
  "categoryDivDisplay (applyHeight env s h gap) = categoryDivDisplay s"
  "uncollapsedElement (applyHeight env s h gap) = uncollapsedElement s"
  "listener (applyHeight env s h gap) = listener s"
  "effects (applyHeight env s h gap) = effects s"
  "titleText (applyHeight env s h gap) = titleText s"
  "rowDisplay (applyHeight env s h gap) = rowDisplay s"
  "rowHidden (applyHeight env s h gap) = rowHidden s"
  "featuresDisplay (applyHeight env s h gap) = featuresDisplay s"
  "featuresHidden (applyHeight env s h gap) = featuresHidden s"
  "featuresDivWidth (applyHeight env s h gap) = featuresDivWidth s"
  "svgWidth (applyHeight env s h gap) = svgWidth s"
  "groupTransform (applyHeight env s h gap) = groupTransform s"
  by (simp_all add: applyHeight_def Let_def)

lemma showHideFeatures_frame [simp]:
  "opt (showHideFeatures d h s) = opt s"
  "ftPosAndHeight (showHideFeatures d h s) = ftPosAndHeight s"
  "styleView (showHideFeatures d h s) = styleView s"
  "zoomed (showHideFeatures d h s) = zoomed s"
  "currentFirstVisibleAA (showHideFeatures d h s) = currentFirstVisibleAA s"
  "currentSelectedFeature (showHideFeatures d h s) = currentSelectedFeature s"
  "currentSelectedSVG (showHideFeatures d h s) = currentSelectedSVG s"
  "svgWidthWithMargin (showHideFeatures d h s) = svgWidthWithMargin s"
  "height (showHideFeatures d h s) = height s"
  "sequenceLine (showHideFeatures d h s) = sequenceLine s"
  "gapToBridge (showHideFeatures d h s) = gapToBridge s"
  "gapToShape (showHideFeatures d h s) = gapToShape s"
  "svgBottomGap (showHideFeatures d h s) = svgBottomGap s"
  "margin (showHideFeatures d h s) = margin s"
  "xScale (showHideFeatures d h s) = xScale s"
  "pixelPerAA (showHideFeatures d h s) = pixelPerAA s"
  "titleHeight (showHideFeatures d h s) = titleHeight s"
  "hasBeenOpen (showHideFeatures d h s) = hasBeenOpen s"
  "categoryDivDisplay (showHideFeatures d h s) = categoryDivDisplay s"
  "uncollapsedElement (showHideFeatures d h s) = uncollapsedElement s"
  "listener (showHideFeatures d h s) = listener s"
  "effects (showHideFeatures d h s) = effects s"
  "titleText (showHideFeatures d h s) = titleText s"
  "rowDisplay (showHideFeatures d h s) = rowDisplay s"
  "rowHidden (showHideFeatures d h s) = rowHidden s"
  "rowHeight (showHideFeatures d h s) = rowHeight s"
  "titleDivHeight (showHideFeatures d h s) = titleDivHeight s"
  "featuresDivHeight (showHideFeatures d h s) = featuresDivHeight s"
  "svgHeight (showHideFeatures d h s) = svgHeight s"
  "featuresDivWidth (showHideFeatures d h s) = featuresDivWidth s"
  "svgWidth (showHideFeatures d h s) = svgWidth s"
  "groupTransform (showHideFeatures d h s) = groupTransform s"
  by (simp_all add: showHideFeatures_def)

lemma calculateAdjustHeight_frame [simp]:
  "opt (fst (calculateAdjustHeight env s h u)) = opt s"
  "ftPosAndHeight (fst (calculateAdjustHeight env s h u)) = ftPosAndHeight s"
  "styleView (fst (calculateAdjustHeight env s h u)) = styleView s"
  "zoomed (fst (calculateAdjustHeight env s h u)) = zoomed s"
  "currentFirstVisibleAA (fst (calculateAdjustHeight env s h u)) = currentFirstVisibleAA s"
  "currentSelectedFeature (fst (calculateAdjustHeight env s h u)) = currentSelectedFeature s"
  "currentSelectedSVG (fst (calculateAdjustHeight env s h u)) = currentSelectedSVG s"
  "svgWidthWithMargin (fst (calculateAdjustHeight env s h u)) = svgWidthWithMargin s"
  "gapToBridge (fst (calculateAdjustHeight env s h u)) = gapToBridge s"
  "gapToShape (fst (calculateAdjustHeight env s h u)) = gapToShape s"
  "svgBottomGap (fst (calculateAdjustHeight env s h u)) = svgBottomGap s"
  "margin (fst (calculateAdjustHeight env s h u)) = margin s"
  "xScale (fst (calculateAdjustHeight env s h u)) = xScale s"
  "pixelPerAA (fst (calculateAdjustHeight env s h u)) = pixelPerAA s"
  "hasBeenOpen (fst (calculateAdjustHeight env s h u)) = hasBeenOpen s"
  "categoryDivDisplay (fst (calculateAdjustHeight env s h u)) = categoryDivDisplay s"
  "uncollapsedElement (fst (calculateAdjustHeight env s h u)) = uncollapsedElement s"
  "listener (fst (calculateAdjustHeight env s h u)) = listener s"
  "effects (fst (calculateAdjustHeight env s h u)) = effects s"
  "titleText (fst (calculateAdjustHeight env s h u)) = titleText s"
  "rowDisplay (fst (calculateAdjustHeight env s h u)) = rowDisplay s"
  "rowHidden (fst (calculateAdjustHeight env s h u)) = rowHidden s"
  "featuresDisplay (fst (calculateAdjustHeight env s h u)) = featuresDisplay s"
  "featuresHidden (fst (calculateAdjustHeight env s h u)) = featuresHidden s"
  "rowHeight (fst (calculateAdjustHeight env s h u)) = rowHeight s"
  "titleDivHeight (fst (calculateAdjustHeight env s h u)) = titleDivHeight s"
  "featuresDivHeight (fst (calculateAdjustHeight env s h u)) = featuresDivHeight s"
  "svgHeight (fst (calculateAdjustHeight env s h u)) = svgHeight s"
  "featuresDivWidth (fst (calculateAdjustHeight env s h u)) = featuresDivWidth s"
  "svgWidth (fst (calculateAdjustHeight env s h u)) = svgWidth s"
  "groupTransform (fst (calculateAdjustHeight env s h u)) = groupTransform s"
  by (simp_all add: calculateAdjustHeight_def Let_def)

lemma initSequenceLine_frame [simp]:
  "opt (p_initSequenceLine env s) = opt s"
  "ftPosAndHeight (p_initSequenceLine env s) = ftPosAndHeight s"
  "styleView (p_initSequenceLine env s) = styleView s"
  "zoomed (p_initSequenceLine env s) = zoomed s"
  "currentFirstVisibleAA (p_initSequenceLine env s) = currentFirstVisibleAA s"
  "currentSelectedFeature (p_initSequenceLine env s) = currentSelectedFeature s"
  "currentSelectedSVG (p_initSequenceLine env s) = currentSelectedSVG s"
  "svgWidthWithMargin (p_initSequenceLine env s) = svgWidthWithMargin s"
  "gapToBridge (p_initSequenceLine env s) = gapToBridge s"
  "margin (p_initSequenceLine env s) = margin s"
  "xScale (p_initSequenceLine env s) = xScale s"
  "pixelPerAA (p_initSequenceLine env s) = pixelPerAA s"
  "hasBeenOpen (p_initSequenceLine env s) = hasBeenOpen s"
  "categoryDivDisplay (p_initSequenceLine env s) = categoryDivDisplay s"
  "uncollapsedElement (p_initSequenceLine env s) = uncollapsedElement s"
  "listener (p_initSequenceLine env s) = listener s"
  "effects (p_initSequenceLine env s) = effects s"
  "titleText (p_initSequenceLine env s) = titleText s"
  "rowDisplay (p_initSequenceLine env s) = rowDisplay s"
  "rowHidden (p_initSequenceLine env s) = rowHidden s"
  "featuresDisplay (p_initSequenceLine env s) = featuresDisplay s"
  "featuresHidden (p_initSequenceLine env s) = featuresHidden s"
  "rowHeight (p_initSequenceLine env s) = rowHeight s"
  "titleDivHeight (p_initSequenceLine env s) = titleDivHeight s"
  "featuresDivHeight (p_initSequenceLine env s) = featuresDivHeight s"
  "svgHeight (p_initSequenceLine env s) = svgHeight s"
  "featuresDivWidth (p_initSequenceLine env s) = featuresDivWidth s"
  "svgWidth (p_initSequenceLine env s) = svgWidth s"
  "groupTransform (p_initSequenceLine env s) = groupTransform s"
  by (simp_all add: p_initSequenceLine_def Let_def)

lemma createContainers_frame [simp]:
  "ftPosAndHeight (p_createContainers env s) = ftPosAndHeight s"
  "zoomed (p_createContainers env s) = zoomed s"
  "currentFirstVisibleAA (p_createContainers env s) = currentFirstVisibleAA s"
  "currentSelectedFeature (p_createContainers env s) = currentSelectedFeature s"
  "currentSelectedSVG (p_createContainers env s) = currentSelectedSVG s"
  "svgWidthWithMargin (p_createContainers env s) = svgWidthWithMargin s"
  "height (p_createContainers env s) = height s"
  "sequenceLine (p_createContainers env s) = sequenceLine s"
  "gapToBridge (p_createContainers env s) = gapToBridge s"
  "gapToShape (p_createContainers env s) = gapToShape s"
  "svgBottomGap (p_createContainers env s) = svgBottomGap s"
  "margin (p_createContainers env s) = margin s"
  "xScale (p_createContainers env s) = xScale s"
  "pixelPerAA (p_createContainers env s) = pixelPerAA s"
  "titleHeight (p_createContainers env s) = titleHeight s"
  "hasBeenOpen (p_createContainers env s) = hasBeenOpen s"
  "categoryDivDisplay (p_createContainers env s) = categoryDivDisplay s"
  "listener (p_createContainers env s) = listener s"
  "effects (p_createContainers env s) = effects s"
  "titleText (p_createContainers env s) = titleText s"
  "rowDisplay (p_createContainers env s) = rowDisplay s"
  "rowHidden (p_createContainers env s) = rowHidden s"
  "featuresDisplay (p_createContainers env s) = featuresDisplay s"
  "featuresHidden (p_createContainers env s) = featuresHidden s"
  "rowHeight (p_createContainers env s) = rowHeight s"
  "titleDivHeight (p_createContainers env s) = titleDivHeight s"
  "featuresDivHeight (p_createContainers env s) = featuresDivHeight s"
  "svgHeight (p_createContainers env s) = svgHeight s"
  "featuresDivWidth (p_createContainers env s) = featuresDivWidth s"
  "svgWidth (p_createContainers env s) = svgWidth s"
  "groupTransform (p_createContainers env s) = groupTransform s"
  "width (opt (p_createContainers env s)) = width (opt s)"
  "darkBackground (opt (p_createContainers env s)) = darkBackground (opt s)"
  "useShapes (opt (p_createContainers env s)) = useShapes (opt s)"
  "useTooltips (opt (p_createContainers env s)) = useTooltips (opt s)"
  "clickable (opt (p_createContainers env s)) = clickable (opt s)"
  "clickableStyle (opt (p_createContainers env s)) = clickableStyle (opt s)"
  "collapsible (opt (p_createContainers env s)) = collapsible (opt s)"
  "ftHeight (opt (p_createContainers env s)) = ftHeight (opt s)"
  "transparency (opt (p_createContainers env s)) = transparency (opt s)"
  "sequence_opt (opt (p_createContainers env s)) = sequence_opt (opt s)"
  "category_opt (opt (p_createContainers env s)) = category_opt (opt s)"
  "myArrayIndex (opt (p_createContainers env s)) = myArrayIndex (opt s)"
  "sequenceLength (opt (p_createContainers env s)) = sequenceLength (opt s)"
  by (simp_all add: p_createContainers_def Let_def)

lemma init_frame [simp]:
  "styleView (p_init env s) = styleView s"
  "zoomed (p_init env s) = zoomed s"
  "currentFirstVisibleAA (p_init env s) = currentFirstVisibleAA s"
  "currentSelectedFeature (p_init env s) = currentSelectedFeature s"
  "currentSelectedSVG (p_init env s) = currentSelectedSVG s"
  "gapToBridge (p_init env s) = gapToBridge s"
  "hasBeenOpen (p_init env s) = hasBeenOpen s"
  "categoryDivDisplay (p_init env s) = categoryDivDisplay s"
  "uncollapsedElement (p_init env s) = uncollapsedElement s"
  "listener (p_init env s) = listener s"
  "effects (p_init env s) = effects s"
  "titleText (p_init env s) = titleText s"
  "rowDisplay (p_init env s) = rowDisplay s"
  "rowHidden (p_init env s) = rowHidden s"
  "featuresDisplay (p_init env s) = featuresDisplay s"
  "featuresHidden (p_init env s) = featuresHidden s"
  "rowHeight (p_init env s) = rowHeight s"
  "titleDivHeight (p_init env s) = titleDivHeight s"
  "featuresDivHeight (p_init env s) = featuresDivHeight s"
  "svgHeight (p_init env s) = svgHeight s"
  "featuresDivWidth (p_init env s) = featuresDivWidth s"
  "svgWidth (p_init env s) = svgWidth s"
  "groupTransform (p_init env s) = groupTransform s"
  "element (opt (p_init env s)) = element (opt s)"
  "width (opt (p_init env s)) = width (opt s)"
  "darkBackground (opt (p_init env s)) = darkBackground (opt s)"
  "useShapes (opt (p_init env s)) = useShapes (opt s)"
  "useTooltips (opt (p_init env s)) = useTooltips (opt s)"
  "clickable (opt (p_init env s)) = clickable (opt s)"
  "clickableStyle (opt (p_init env s)) = clickableStyle (opt s)"
  "collapsible (opt (p_init env s)) = collapsible (opt s)"
  "ftHeight (opt (p_init env s)) = ftHeight (opt s)"
  "transparency (opt (p_init env s)) = transparency (opt s)"
  "sequence_opt (opt (p_init env s)) = sequence_opt (opt s)"
  "category_opt (opt (p_init env s)) = category_opt (opt s)"
  "categoryIndex (opt (p_init env s)) = categoryIndex (opt s)"
  "typeIndex (opt (p_init env s)) = typeIndex (opt s)"
  "myArrayIndex (opt (p_init env s)) = myArrayIndex (opt s)"
  by (simp_all add: p_init_def Let_def)

lemma initCategoryTitle_frame [simp]:
  "opt (p_initCategoryTitle env s) = opt s"
  "ftPosAndHeight (p_initCategoryTitle env s) = ftPosAndHeight s"
  "styleView (p_initCategoryTitle env s) = styleView s"
  "zoomed (p_initCategoryTitle env s) = zoomed s"
  "currentFirstVisibleAA (p_initCategoryTitle env s) = currentFirstVisibleAA s"
  "currentSelectedFeature (p_initCategoryTitle env s) = currentSelectedFeature s"
  "currentSelectedSVG (p_initCategoryTitle env s) = currentSelectedSVG s"
  "svgWidthWithMargin (p_initCategoryTitle env s) = svgWidthWithMargin s"
  "height (p_initCategoryTitle env s) = height s"
  "sequenceLine (p_initCategoryTitle env s) = sequenceLine s"
  "gapToBridge (p_initCategoryTitle env s) = gapToBridge s"
  "gapToShape (p_initCategoryTitle env s) = gapToShape s"
  "svgBottomGap (p_initCategoryTitle env s) = svgBottomGap s"
  "margin (p_initCategoryTitle env s) = margin s"
  "xScale (p_initCategoryTitle env s) = xScale s"
  "pixelPerAA (p_initCategoryTitle env s) = pixelPerAA s"
  "titleHeight (p_initCategoryTitle env s) = titleHeight s"
  "hasBeenOpen (p_initCategoryTitle env s) = hasBeenOpen s"
  "categoryDivDisplay (p_initCategoryTitle env s) = categoryDivDisplay s"
  "uncollapsedElement (p_initCategoryTitle env s) = uncollapsedElement s"
  "listener (p_initCategoryTitle env s) = listener s"
  "effects (p_initCategoryTitle env s) = effects s"
  "rowDisplay (p_initCategoryTitle env s) = rowDisplay s"
  "rowHidden (p_initCategoryTitle env s) = rowHidden s"
  "featuresDisplay (p_initCategoryTitle env s) = featuresDisplay s"
  "featuresHidden (p_initCategoryTitle env s) = featuresHidden s"
  "rowHeight (p_initCategoryTitle env s) = rowHeight s"
  "titleDivHeight (p_initCategoryTitle env s) = titleDivHeight s"
  "featuresDivHeight (p_initCategoryTitle env s) = featuresDivHeight s"
  "svgHeight (p_initCategoryTitle env s) = svgHeight s"
  "featuresDivWidth (p_initCategoryTitle env s) = featuresDivWidth s"
  "svgWidth (p_initCategoryTitle env s) = svgWidth s"
  "groupTransform (p_initCategoryTitle env s) = groupTransform s"
  by (simp_all add: p_initCategoryTitle_def)

lemma initFeaturesDiv_frame [simp]:
  "opt (p_initFeaturesDiv s) = opt s"
  "ftPosAndHeight (p_initFeaturesDiv s) = ftPosAndHeight s"
  "styleView (p_initFeaturesDiv s) = styleView s"
  "zoomed (p_initFeaturesDiv s) = zoomed s"
  "currentFirstVisibleAA (p_initFeaturesDiv s) = currentFirstVisibleAA s"
  "currentSelectedFeature (p_initFeaturesDiv s) = currentSelectedFeature s"
  "currentSelectedSVG (p_initFeaturesDiv s) = currentSelectedSVG s"
  "svgWidthWithMargin (p_initFeaturesDiv s) = svgWidthWithMargin s"
  "height (p_initFeaturesDiv s) = height s"
  "sequenceLine (p_initFeaturesDiv s) = sequenceLine s"
  "gapToBridge (p_initFeaturesDiv s) = gapToBridge s"
  "gapToShape (p_initFeaturesDiv s) = gapToShape s"
  "svgBottomGap (p_initFeaturesDiv s) = svgBottomGap s"
  "margin (p_initFeaturesDiv s) = margin s"
  "xScale (p_initFeaturesDiv s) = xScale s"
  "pixelPerAA (p_initFeaturesDiv s) = pixelPerAA s"
  "titleHeight (p_initFeaturesDiv s) = titleHeight s"
  "hasBeenOpen (p_initFeaturesDiv s) = hasBeenOpen s"
  "categoryDivDisplay (p_initFeaturesDiv s) = categoryDivDisplay s"
  "uncollapsedElement (p_initFeaturesDiv s) = uncollapsedElement s"
  "listener (p_initFeaturesDiv s) = listener s"
  "effects (p_initFeaturesDiv s) = effects s"
  "titleText (p_initFeaturesDiv s) = titleText s"
  "rowDisplay (p_initFeaturesDiv s) = rowDisplay s"
  "rowHidden (p_initFeaturesDiv s) = rowHidden s"
  "featuresDisplay (p_initFeaturesDiv s) = featuresDisplay s"
  "featuresHidden (p_initFeaturesDiv s) = featuresHidden s"
  "rowHeight (p_initFeaturesDiv s) = rowHeight s"
  "titleDivHeight (p_initFeaturesDiv s) = titleDivHeight s"
  "featuresDivHeight (p_initFeaturesDiv s) = featuresDivHeight s"
  "svgHeight (p_initFeaturesDiv s) = svgHeight s"
  by (simp_all add: p_initFeaturesDiv_def)

lemma initPainting_frame [simp]:
  "opt (p_initPainting env s) = opt s"
  "ftPosAndHeight (p_initPainting env s) = ftPosAndHeight s"
  "styleView (p_initPainting env s) = styleView s"
  "zoomed (p_initPainting env s) = zoomed s"
  "currentFirstVisibleAA (p_initPainting env s) = currentFirstVisibleAA s"
  "currentSelectedFeature (p_initPainting env s) = currentSelectedFeature s"
  "currentSelectedSVG (p_initPainting env s) = currentSelectedSVG s"
  "svgWidthWithMargin (p_initPainting env s) = svgWidthWithMargin s"
  "height (p_initPainting env s) = height s"
  "sequenceLine (p_initPainting env s) = sequenceLine s"
  "gapToBridge (p_initPainting env s) = gapToBridge s"
  "gapToShape (p_initPainting env s) = gapToShape s"
  "svgBottomGap (p_initPainting env s) = svgBottomGap s"
  "margin (p_initPainting env s) = margin s"
  "xScale (p_initPainting env s) = xScale s"
  "pixelPerAA (p_initPainting env s) = pixelPerAA s"
  "titleHeight (p_initPainting env s) = titleHeight s"
  "hasBeenOpen (p_initPainting env s) = hasBeenOpen s"
  "categoryDivDisplay (p_initPainting env s) = categoryDivDisplay s"
  "uncollapsedElement (p_initPainting env s) = uncollapsedElement s"
  "listener (p_initPainting env s) = listener s"
  "rowDisplay (p_initPainting env s) = rowDisplay s"
  "rowHidden (p_initPainting env s) = rowHidden s"
  "featuresDisplay (p_initPainting env s) = featuresDisplay s"
  "featuresHidden (p_initPainting env s) = featuresHidden s"
  by (simp_all add: p_initPainting_def Let_def)

section \<open>Lemmas on the scale, the store and the construction\<close>

lemma double_samples:
  "double 14 = 14" "double (1 / 3) = 6004799503160661 / 2 ^ 54"
  "double (1 / 10) = 3602879701896397 / 2 ^ 55" "double (2 ^ 53 + 1) = 2 ^ 53"
  "double (2 ^ 53 + 3) = 2 ^ 53 + 4" "double (- (5 / 2)) = - (5 / 2)"
  by code_simp+





lemma initScale_pixelPerAA:
  "pixelPerAA (p_initScale env s) =
     n_sub env (scale_apply (rounding env) (xScale (p_initScale env s)) 2)
       (scale_apply (rounding env) (xScale (p_initScale env s)) 1)"
  by (simp add: p_initScale_def Let_def)

lemma initScale_xScale:
  "xScale (p_initScale env s) =
     scale_linear 1 (n_add env (real (sequenceLength (opt s))) 1) (m_left (margin s))
       (n_sub env (svgWidthWithMargin (p_initScale env s)) (m_right (margin s)))"
  by (simp add: p_initScale_def Let_def)








lemma zoomInOut_self_in:
  assumes "zoomed s = False"
  shows "xScale (zoomInOut_self env m t s) =
           scale_linear 1 (n_add env (real (sequenceLength (opt s))) 1) (m_left (margin s))
             (n_sub env
                (n_add env
                   (n_add env (n_mul env (real (sequenceLength (opt s))) (getMaxPixelAA env))
                      (m_left (margin s)))
                   (m_right (margin s)))
                (m_right (margin s)))"
    and "svgWidthWithMargin (zoomInOut_self env m t s) =
           n_sub env (width (opt s)) (getTitlesWidth env None)"
  using assms
  by (simp_all add: zoomInOut_self_def Let_def trigger_def p_paintFeatures_def)

lemma zoomInOut_self_out:
  assumes "zoomed s = True"
  shows "xScale (zoomInOut_self env m t s) =
           xScale (p_initScale env (s\<lparr>svgWidthWithMargin := n_sub env (width (opt s)) (getTitlesWidth env None)\<rparr>))"
    and "svgWidthWithMargin (zoomInOut_self env m t s) =
           svgWidthWithMargin (p_initScale env (s\<lparr>svgWidthWithMargin := n_sub env (width (opt s)) (getTitlesWidth env None)\<rparr>))"
    and "pixelPerAA (zoomInOut_self env m t s) =
           pixelPerAA (p_initScale env (s\<lparr>svgWidthWithMargin := n_sub env (width (opt s)) (getTitlesWidth env None)\<rparr>))"
  using assms
  by (simp_all add: zoomInOut_self_def Let_def trigger_def p_paintFeatures_def)

lemma zoomInOut_self_pixelPerAA:
  "pixelPerAA (zoomInOut_self env m t s) =
     n_sub env (scale_apply (rounding env) (xScale (zoomInOut_self env m t s)) 2)
       (scale_apply (rounding env) (xScale (zoomInOut_self env m t s)) 1)"
proof (cases "zoomed s")
  case True
  then show ?thesis
    by (simp add: zoomInOut_self_out initScale_pixelPerAA [symmetric])
next
  case False
  then show ?thesis
    by (simp add: zoomInOut_self_def Let_def trigger_def p_paintFeatures_def)
qed



lemma upd_fields [simp]:
  "instances (upd st i f) = instances st"
  "heap (upd st i f) = heap st"
  "length (instanceArray (upd st i f)) = length (instanceArray st)"
  by (simp_all add: upd_def)




lemma fold_step_fields [simp]:
  "instances (fold (propagateTo f self) xs st) = instances st"
  "heap (fold (propagateTo f self) xs st) = heap st"
  "length (instanceArray (fold (propagateTo f self) xs st)) = length (instanceArray st)"
  by (induction xs arbitrary: st; simp add: propagateTo_def)+











lemma init_sets [simp]:
  "sequenceLength (opt (p_init env s)) = length (sequence_opt (opt s))"
  "margin (p_init env s) = \<lparr>m_top = 0, m_right = getMarginRight env, m_bottom = 0, m_left = getMarginLeft env\<rparr>"
  by (simp_all add: p_init_def Let_def)

lemma init_scale:
  "xScale (p_init env s) = xScale (initialised env s)"
  "pixelPerAA (p_init env s) = pixelPerAA (initialised env s)"
  "svgWidthWithMargin (p_init env s) = svgWidthWithMargin (initialised env s)"
  by (simp_all add: p_init_def initialised_def Let_def)




lemma zoomInOut_store_shape:
  "instances (zoomInOut env st self m) = instances st"
  "length (instanceArray (zoomInOut env st self m)) = length (instanceArray st)"
  "heap (zoomInOut env st self m) = heap st"
  by (simp_all add: zoomInOut_def p_zoomInOut_def Let_def propagate_def)

lemma translate_store_shape:
  "instances (translate env st self m) = instances st"
  "length (instanceArray (translate env st self m)) = length (instanceArray st)"
  "heap (translate env st self m) = heap st"
  by (simp_all add: translate_def p_translate_def Let_def propagate_def)



lemma init_pixelPerAA:
  "pixelPerAA (p_init env s) =
     n_sub env (scale_apply (rounding env) (xScale (p_init env s)) 2)
       (scale_apply (rounding env) (xScale (p_init env s)) 1)"
  unfolding init_scale initialised_def by (rule initScale_pixelPerAA)

lemma init_xScale:
  "xScale (p_init env s) =
     scale_linear 1 (n_add env (real (length (sequence_opt (opt s)))) 1) (getMarginLeft env)
       (n_sub env (svgWidthWithMargin (p_init env s)) (getMarginRight env))"
  unfolding init_scale initialised_def by (simp add: initScale_xScale)

lemma newViewer_scale:
  "xScale (newViewer env g idx) =
     scale_linear 1 (n_add env (real (length (g_sequence g))) 1) (getMarginLeft env)
       (n_sub env (svgWidthWithMargin (newViewer env g idx)) (getMarginRight env))"
  "pixelPerAA (newViewer env g idx) =
     n_sub env (scale_apply (rounding env) (xScale (newViewer env g idx)) 2)
       (scale_apply (rounding env) (xScale (newViewer env g idx)) 1)"
proof -
  obtain c where n: "newViewer env g idx = p_initPainting env (p_init env c)"
    and q: "sequence_opt (opt c) = g_sequence g"
    by (simp add: newViewer_def Let_def prototype_def extendDefaults_def)
  show "xScale (newViewer env g idx) =
     scale_linear 1 (n_add env (real (length (g_sequence g))) 1) (getMarginLeft env)
       (n_sub env (svgWidthWithMargin (newViewer env g idx)) (getMarginRight env))"
    unfolding n using init_xScale [of env c] q by simp
  show "pixelPerAA (newViewer env g idx) =
     n_sub env (scale_apply (rounding env) (xScale (newViewer env g idx)) 2)
       (scale_apply (rounding env) (xScale (newViewer env g idx)) 1)"
    unfolding n using init_pixelPerAA [of env c] by simp
qed

lemma all_rejected_conv:
  "(length (filter (\<lambda>l. l = rejected) ls) = length ls) = (\<forall>l \<in> set ls. l = rejected)"
proof
  assume e: "length (filter (\<lambda>l. l = rejected) ls) = length ls"
  show "\<forall>l \<in> set ls. l = rejected"
  proof (rule ccontr)
    assume "\<not> (\<forall>l \<in> set ls. l = rejected)"
    then obtain l where "l \<in> set ls" "\<not> l = rejected" by blast
    then have "length (filter (\<lambda>l. l = rejected) ls) < length ls" by (rule length_filter_less)
    with e show False by simp
  qed
next
  assume "\<forall>l \<in> set ls. l = rejected"
  then have "filter (\<lambda>l. l = rejected) ls = ls" by simp
  then show "length (filter (\<lambda>l. l = rejected) ls) = length ls" by simp
qed

lemma loaderState_settled: "pending \<notin> set (concat (map loaderState outcomes))"
proof (induction outcomes)
  case Nil
  then show ?case by simp
next
  case (Cons a outcomes)
  then show ?case by (cases a) simp_all
qed

lemma highlightRegion_begin:
  "(if js_less begin0 (Finite 1) then Finite 1 else begin0) = clampedBegin begin0"
  by (cases begin0) (auto simp: clampedBegin_def max_def)

lemma highlightRegion_end:
  "(if truthy end0 then (if js_less (Finite len) end0 then Finite len else end0)
    else clampedBegin begin0)
     = clampedEnd len begin0 end0"
  by (cases end0) (auto simp: clampedEnd_def min_def)

lemma js_le_finite:
  assumes "js_le (Finite 1) b" "js_le b e" "js_le e (Finite len)"
  shows "\<exists>v w. b = Finite v \<and> e = Finite w \<and> 1 \<le> v \<and> v \<le> w \<and> w \<le> len"
  using assms by (cases b; cases e) auto

lemma frame_refl [simp]: "frame v v"
  by (simp add: frame_def)

lemma frame_sym: "frame v w \<Longrightarrow> frame w v"
  by (simp add: frame_def)

lemma frame_trans: "frame u v \<Longrightarrow> frame v w \<Longrightarrow> frame u w"
  by (simp add: frame_def)

lemma frame_updates [simp]:
  "frame (v\<lparr>rowDisplay := d, rowHidden := h\<rparr>) v"
  "frame (v\<lparr>currentSelectedSVG := e\<rparr>) v"
  by (simp_all add: frame_def)

lemma frame_fields:
  assumes "frame v w"
  shows "opt v = opt w" "featuresDisplay v = featuresDisplay w"
    "featuresHidden v = featuresHidden w" "titleText v = titleText w"
    "rowHeight v = rowHeight w" "titleDivHeight v = titleDivHeight w"
    "featuresDivHeight v = featuresDivHeight w" "svgHeight v = svgHeight w"
    "height v = height w" "titleHeight v = titleHeight w"
    "categoryDivDisplay v = categoryDivDisplay w" "effects v = effects w"
    "hasBeenOpen v = hasBeenOpen w" "uncollapsedElement v = uncollapsedElement w"
    "zoomed v = zoomed w" "currentFirstVisibleAA v = currentFirstVisibleAA w"
    "currentSelectedFeature v = currentSelectedFeature w"
proof -
  let ?c = "\<lambda>u. u\<lparr>rowDisplay := None, rowHidden := False, currentSelectedSVG := None\<rparr>"
  from assms have e: "?c v = ?c w" by (simp add: frame_def)
  have "opt (?c v) = opt (?c w)" using e by simp
  then show "opt v = opt w" by simp
  have "featuresDisplay (?c v) = featuresDisplay (?c w)" using e by simp
  then show "featuresDisplay v = featuresDisplay w" by simp
  have "featuresHidden (?c v) = featuresHidden (?c w)" using e by simp
  then show "featuresHidden v = featuresHidden w" by simp
  have "titleText (?c v) = titleText (?c w)" using e by simp
  then show "titleText v = titleText w" by simp
  have "rowHeight (?c v) = rowHeight (?c w)" using e by simp
  then show "rowHeight v = rowHeight w" by simp
  have "titleDivHeight (?c v) = titleDivHeight (?c w)" using e by simp
  then show "titleDivHeight v = titleDivHeight w" by simp
  have "featuresDivHeight (?c v) = featuresDivHeight (?c w)" using e by simp
  then show "featuresDivHeight v = featuresDivHeight w" by simp
  have "svgHeight (?c v) = svgHeight (?c w)" using e by simp
  then show "svgHeight v = svgHeight w" by simp
  have "height (?c v) = height (?c w)" using e by simp
  then show "height v = height w" by simp
  have "titleHeight (?c v) = titleHeight (?c w)" using e by simp
  then show "titleHeight v = titleHeight w" by simp
  have "categoryDivDisplay (?c v) = categoryDivDisplay (?c w)" using e by simp
  then show "categoryDivDisplay v = categoryDivDisplay w" by simp
  have "effects (?c v) = effects (?c w)" using e by simp
  then show "effects v = effects w" by simp
  have "hasBeenOpen (?c v) = hasBeenOpen (?c w)" using e by simp
  then show "hasBeenOpen v = hasBeenOpen w" by simp
  have "uncollapsedElement (?c v) = uncollapsedElement (?c w)" using e by simp
  then show "uncollapsedElement v = uncollapsedElement w" by simp
  have "zoomed (?c v) = zoomed (?c w)" using e by simp
  then show "zoomed v = zoomed w" by simp
  have "currentFirstVisibleAA (?c v) = currentFirstVisibleAA (?c w)" using e by simp
  then show "currentFirstVisibleAA v = currentFirstVisibleAA w" by simp
  have "currentSelectedFeature (?c v) = currentSelectedFeature (?c w)" using e by simp
  then show "currentSelectedFeature v = currentSelectedFeature w" by simp
qed

lemma frame_cong:
  assumes "frame v w"
    and "\<And>u d h e. f (u\<lparr>rowDisplay := d, rowHidden := h, currentSelectedSVG := e\<rparr>)
            = (f u)\<lparr>rowDisplay := d, rowHidden := h, currentSelectedSVG := e\<rparr>"
  shows "frame (f v) (f w)"
proof -
  let ?c = "\<lambda>u. u\<lparr>rowDisplay := None, rowHidden := False, currentSelectedSVG := None\<rparr>"
  from assms(1) have e: "?c v = ?c w" by (simp add: frame_def)
  have "?c (f v) = f (?c v)" by (simp add: assms(2))
  also have "\<dots> = f (?c w)" by (simp add: e)
  also have "\<dots> = ?c (f w)" by (simp add: assms(2))
  finally show ?thesis by (simp add: frame_def)
qed

lemma showHideTypes_shape [simp]:
  "length (instanceArray (showHideTypes self d h st)) = length (instanceArray st)"
  "instances (showHideTypes self d h st) = instances st"
  "heap (showHideTypes self d h st) = heap st"
  by (simp_all add: showHideTypes_def)

lemma showHideTypes_inst:
  "j < length (instanceArray st) \<Longrightarrow>
     inst (showHideTypes self d h st) j =
       (if inContainerOf (inst st self) (inst st j)
        then (inst st j)\<lparr>rowDisplay := d, rowHidden := h\<rparr> else inst st j)"
  by (simp add: showHideTypes_def inst_def)

lemma showHideTypes_frame:
  "j < length (instanceArray st) \<Longrightarrow> frame (inst (showHideTypes self d h st) j) (inst st j)"
  by (simp add: showHideTypes_inst)

lemma createContainers_element:
  "element (opt (p_createContainers env s)) =
     (if element (opt s) = None then Some (BodyDiv (myArrayIndex (opt s))) else element (opt s))"
  by (simp add: p_createContainers_def Let_def)

lemma newViewer_opt:
  "collapsible (opt (newViewer env g idx)) =
     (if getTrackMode env (g_category g) None = type_mode then False
      else orDefault (g_collapsible g) False)"
  "clickable (opt (newViewer env g idx)) = orDefault (g_clickable g) True"
  "category_opt (opt (newViewer env g idx)) = g_category g"
  "myArrayIndex (opt (newViewer env g idx)) = idx"
  "element (opt (newViewer env g idx)) =
     (if g_element g = None then Some (BodyDiv idx) else g_element g)"
  by (simp_all add: newViewer_def Let_def prototype_def extendDefaults_def
        createContainers_element)

lemma newViewer_fresh:
  "hasBeenOpen (newViewer env g idx) = False"
  "zoomed (newViewer env g idx) = False"
  "currentFirstVisibleAA (newViewer env g idx) = 0"
  "currentSelectedFeature (newViewer env g idx) = None"
  by (simp_all add: newViewer_def Let_def prototype_def)

lemma newViewer_row:
  "rowDisplay (newViewer env g idx) = None"
  "rowHidden (newViewer env g idx) = False"
  by (simp_all add: newViewer_def Let_def prototype_def)

lemma constructor_shape [simp]:
  "length (instanceArray (p_constructor env st g)) = Suc (length (instanceArray st))"
  "instances (p_constructor env st g) = instances st"
  "heap (p_constructor env st g) = heap st"
  by (simp_all add: p_constructor_def)

lemma constructor_inst:
  "j < length (instanceArray st) \<Longrightarrow> inst (p_constructor env st g) j = inst st j"
  "inst (p_constructor env st g) (length (instanceArray st))
     = newViewer env g (length (instanceArray st))"
  by (simp_all add: p_constructor_def inst_def nth_append)

lemma upd_inst:
  "inst (upd st i f) j = (if j = i \<and> i < length (instanceArray st) then f (inst st i) else inst st j)"
  by (cases "i < length (instanceArray st)") (auto simp: upd_def inst_def list_update_beyond)

lemma inst_instances_update [simp]: "inst (st\<lparr>instances := xs\<rparr>) j = inst st j"
  by (simp add: inst_def)

lemma zoomInOut_noprop:
  "p_zoomInOut env st i m t False = upd st i (zoomInOut_self env m t)"
  by (simp add: p_zoomInOut_def)

lemma buildTypeInstance_shape:
  "length (instanceArray (buildTypeInstance env self pt st)) = Suc (length (instanceArray st))"
  "instances (buildTypeInstance env self pt st) = instances st @ [length (instanceArray st)]"
  "heap (buildTypeInstance env self pt st) = heap st"
  by (simp_all add: buildTypeInstance_def Let_def zoomInOut_noprop split: option.split)

lemma buildTypeInstance_old:
  assumes "j < length (instanceArray st)"
  shows "frame (inst (buildTypeInstance env self pt st) j) (inst st j)"
    and "j \<noteq> self \<Longrightarrow> inst (buildTypeInstance env self pt st) j = inst st j"
  using assms
  by (simp_all add: buildTypeInstance_def Let_def zoomInOut_noprop upd_inst constructor_inst
        split: option.split)

lemma builtViewer_eq:
  assumes "self < length (instanceArray st)"
  shows "builtViewer env st self pt =
     (let nv = (newViewer env (typeOptions (inst st self) pt) (length (instanceArray st)))
                 \<lparr>listener := Some self\<rparr>
      in if zoomed (inst st self) = True
         then zoomInOut_self env (Some (currentFirstVisibleAA (inst st self))) False
                (nv\<lparr>zoomed := False, currentFirstVisibleAA := 0\<rparr>)
         else receive (inst st self) nv)"
  using assms
  by (simp add: builtViewer_def buildTypeInstance_def Let_def zoomInOut_noprop upd_inst
        constructor_inst split: option.split)

lemma buildTypeInstance_new:
  assumes "self < length (instanceArray st)"
  shows "collapsible (opt (builtViewer env st self pt)) = False"
    and "clickable (opt (builtViewer env st self pt)) = False"
    and "category_opt (opt (builtViewer env st self pt)) = snd pt"
    and "myArrayIndex (opt (builtViewer env st self pt)) = length (instanceArray st)"
    and "listener (builtViewer env st self pt) = Some self"
    and "rowHidden (builtViewer env st self pt) = False"
    and "rowDisplay (builtViewer env st self pt) = None"
    and "hasBeenOpen (builtViewer env st self pt) = False"
    and "element (opt (builtViewer env st self pt)) =
           (if uncollapsedElement (inst st self) = None
            then Some (BodyDiv (length (instanceArray st)))
            else uncollapsedElement (inst st self))"
  unfolding builtViewer_eq [OF assms] Let_def
  by (simp_all add: newViewer_opt newViewer_row newViewer_fresh orDefault_def typeOptions_def)

lemma zip_upt_snoc:
  "zip [0..<length (ts @ [t])] (ts @ [t]) = zip [0..<length ts] ts @ [(length ts, t)]"
  by simp

lemma buildTypeInstances_snoc:
  "p_buildTypeInstances env st self (ts @ [t]) =
     buildTypeInstance env self (length ts, t) (p_buildTypeInstances env st self ts)"
  unfolding p_buildTypeInstances_def zip_upt_snoc by simp

lemma buildTypeInstances_built:
  assumes "self < length (instanceArray st)"
  shows "typesBuilt st self types (p_buildTypeInstances env st self types)"
proof (induction types rule: rev_induct)
  case Nil
  then show ?case by (auto simp: typesBuilt_def p_buildTypeInstances_def Let_def)
next
  case (snoc t ts)
  let ?n = "length (instanceArray st)"
  let ?s1 = "p_buildTypeInstances env st self ts"
  let ?s2 = "buildTypeInstance env self (length ts, t) ?s1"
  from snoc have l1: "length (instanceArray ?s1) = ?n + length ts"
    and i1: "instances ?s1 = instances st @ [?n ..< ?n + length ts]"
    and h1: "heap ?s1 = heap st"
    and o1: "\<And>j. j < ?n \<Longrightarrow> frame (inst ?s1 j) (inst st j)"
    and o1': "\<And>j. j < ?n \<Longrightarrow> j \<noteq> self \<Longrightarrow> inst ?s1 j = inst st j"
    and n1: "\<And>j. ?n \<le> j \<Longrightarrow> j < ?n + length ts \<Longrightarrow>
               isTypeInstance st self (ts ! (j - ?n)) j (inst ?s1 j)"
    by (simp_all add: typesBuilt_def Let_def)
  from assms l1 have s1: "self < length (instanceArray ?s1)" by simp
  have u: "uncollapsedElement (inst ?s1 self) = uncollapsedElement (inst st self)"
    using frame_fields(14) [OF o1 [OF assms]] .
  have l2: "length (instanceArray ?s2) = ?n + length (ts @ [t])"
    by (simp add: buildTypeInstance_shape l1)
  have i2: "instances ?s2 = instances st @ [?n ..< ?n + length (ts @ [t])]"
    by (simp add: buildTypeInstance_shape l1 i1)
  have h2: "heap ?s2 = heap st" by (simp add: buildTypeInstance_shape h1)
  have o2: "frame (inst ?s2 j) (inst st j) \<and> (j \<noteq> self \<longrightarrow> inst ?s2 j = inst st j)"
    if j: "j < ?n" for j
  proof -
    from j l1 have jl: "j < length (instanceArray ?s1)" by simp
    have "frame (inst ?s2 j) (inst ?s1 j)" by (rule buildTypeInstance_old(1) [OF jl])
    then have a: "frame (inst ?s2 j) (inst st j)" using o1 [OF j] by (rule frame_trans)
    have b: "j \<noteq> self \<longrightarrow> inst ?s2 j = inst st j"
      using buildTypeInstance_old(2) [OF jl] o1' [OF j] by simp
    from a b show ?thesis by simp
  qed
  have n2: "isTypeInstance st self ((ts @ [t]) ! (j - ?n)) j (inst ?s2 j)"
    if j: "?n \<le> j" "j < ?n + length (ts @ [t])" for j
  proof (cases "j < ?n + length ts")
    case True
    with l1 have jl: "j < length (instanceArray ?s1)" by simp
    from j assms have "j \<noteq> self" by simp
    then have "inst ?s2 j = inst ?s1 j" by (rule buildTypeInstance_old(2) [OF jl])
    moreover from True j have "j - ?n < length ts" by arith
    then have "(ts @ [t]) ! (j - ?n) = ts ! (j - ?n)"
      by (simp add: nth_append)
    ultimately show ?thesis using n1 [OF j(1) True] by simp
  next
    case False
    with j have je: "j = ?n + length ts" by simp
    then have e: "inst ?s2 j = builtViewer env ?s1 self (length ts, t)"
      by (simp add: builtViewer_def l1)
    from je have "(ts @ [t]) ! (j - ?n) = t" by simp
    then show ?thesis
      unfolding e isTypeInstance_def
      using buildTypeInstance_new [OF s1, of env "(length ts, t)"] u
      by (simp add: l1 je)
  qed
  show ?case
    unfolding buildTypeInstances_snoc typesBuilt_def Let_def
    using l2 i2 h2 o2 n2 by blast
qed

lemma open_noop:
  "\<not> (collapsible (opt (inst st self)) = True \<and> isClosed env (inst st self)) \<Longrightarrow>
     open_category env st self = st"
  by (auto simp: open_category_def isClosed_def)

lemma close_noop:
  "\<not> (collapsible (opt (inst st self)) = True \<and> \<not> isClosed env (inst st self)) \<Longrightarrow>
     close_category env st self = st"
  by (auto simp: close_category_def isClosed_def)

lemma frame_trigger: "frame v w \<Longrightarrow> frame (trigger e v) (trigger e w)"
  by (rule frame_cong) (simp_all add: trigger_def frame_fields)

lemma openPrepared_shape [simp]:
  "length (instanceArray (openPrepared env st self)) = length (instanceArray st)"
  "instances (openPrepared env st self) = instances st"
  "heap (openPrepared env st self) = heap st"
  by (simp_all add: openPrepared_def Let_def)

lemma frame_rows:
  "frame ((if c then v\<lparr>rowDisplay := d, rowHidden := h\<rparr> else v)) v"
  by simp

lemma openPrepared_self:
  assumes "self < length (instanceArray st)"
  shows "frame (inst (openPrepared env st self) self)
           (applyHeight env
              (showHideFeatures (Some ''none'') True
                 ((inst st self)\<lparr>titleText := ARROW_DOWN env @ '' ''
                     @ getTrackTitle env (category_opt (opt (inst st self))) None\<rparr>))
              (titleHeight (inst st self)) 0)"
proof -
  let ?t = "(inst st self)\<lparr>titleText := ARROW_DOWN env @ '' ''
                     @ getTrackTitle env (category_opt (opt (inst st self))) None\<rparr>"
  let ?a = "showHideFeatures (Some ''none'') True ?t"
  define d where "d = categoryDivDisplay ?a"
  define c where "c = inContainerOf ?a ?a"
  let ?b = "if c then ?a\<lparr>rowDisplay := d, rowHidden := False\<rparr> else ?a"
  have e: "inst (openPrepared env st self) self = applyHeight env ?b (titleHeight ?b) 0"
    using assms
    by (simp add: openPrepared_def Let_def upd_inst showHideTypes_inst d_def c_def)
  have f: "frame ?b ?a" by simp
  have t: "titleHeight ?b = titleHeight (inst st self)" by simp
  have "frame (applyHeight env ?b (titleHeight (inst st self)) 0)
              (applyHeight env ?a (titleHeight (inst st self)) 0)"
    using f by (rule frame_cong) (simp add: applyHeight_def Let_def)
  then show ?thesis unfolding e t .
qed

lemma openPrepared_other:
  assumes "j < length (instanceArray st)" "j \<noteq> self"
  shows "inst (openPrepared env st self) j =
           (if inContainerOf (inst st self) (inst st j)
            then (inst st j)\<lparr>rowDisplay := categoryDivDisplay (inst st self), rowHidden := False\<rparr>
            else inst st j)"
  using assms
  by (simp add: openPrepared_def Let_def upd_inst showHideTypes_inst inContainerOf_def)

lemma open_unfold:
  assumes "collapsible (opt (inst st self)) = True" "isClosed env (inst st self)"
  shows "open_category env st self =
           upd (openRest env (openPrepared env st self) self) self (trigger categoryOpen)"
  using assms
  by (simp add: open_category_def p_openCategory_def openPrepared_def openRest_def Let_def
        isClosed_def)

lemma hasBeenOpen_idem: "hasBeenOpen v = True \<Longrightarrow> v\<lparr>hasBeenOpen := True\<rparr> = v"
  by (cases v) simp

lemma frame_hasBeenOpen: "frame v w \<Longrightarrow> frame (v\<lparr>hasBeenOpen := b\<rparr>) (w\<lparr>hasBeenOpen := b\<rparr>)"
  by (rule frame_cong) simp_all

lemma openRest_again:
  assumes "hasBeenOpen (inst st3 self) = True"
  shows "length (instanceArray (openRest env st3 self)) = length (instanceArray st3)"
    and "instances (openRest env st3 self) = instances st3"
    and "heap (openRest env st3 self) = heap st3"
    and "frame (inst (openRest env st3 self) j) (inst st3 j)"
    and "j \<noteq> self \<Longrightarrow> inst (openRest env st3 self) j = inst st3 j"
  using assms
  by (simp_all add: openRest_def upd_inst split: option.split)

lemma openRest_first:
  assumes "self < length (instanceArray st3)" "hasBeenOpen (inst st3 self) \<noteq> True"
  shows "typesBuilt (upd st3 self (\<lambda>v. v\<lparr>hasBeenOpen := True\<rparr>)) self
           (getTypes env (category_opt (opt (inst st3 self)))) (openRest env st3 self)"
proof -
  have "self < length (instanceArray (upd st3 self (\<lambda>v. v\<lparr>hasBeenOpen := True\<rparr>)))"
    using assms(1) by simp
  then show ?thesis
    using assms(2) by (simp add: openRest_def buildTypeInstances_built)
qed

lemma openRest_self:
  assumes "self < length (instanceArray st3)"
  shows "frame (inst (openRest env st3 self) self) ((inst st3 self)\<lparr>hasBeenOpen := True\<rparr>)"
    and "length (instanceArray st3) \<le> length (instanceArray (openRest env st3 self))"
proof -
  show "frame (inst (openRest env st3 self) self) ((inst st3 self)\<lparr>hasBeenOpen := True\<rparr>)"
  proof (cases "hasBeenOpen (inst st3 self) = True")
    case True
    then show ?thesis
      using openRest_again(4) [OF True, of env self] by (simp add: hasBeenOpen_idem)
  next
    case False
    let ?u = "upd st3 self (\<lambda>v. v\<lparr>hasBeenOpen := True\<rparr>)"
    from openRest_first [OF assms False, of env]
    have "frame (inst (openRest env st3 self) self) (inst ?u self)"
      using assms by (simp add: typesBuilt_def Let_def)
    then show ?thesis using assms by (simp add: upd_inst)
  qed
  show "length (instanceArray st3) \<le> length (instanceArray (openRest env st3 self))"
  proof (cases "hasBeenOpen (inst st3 self) = True")
    case True
    then show ?thesis by (simp add: openRest_again)
  next
    case False
    from openRest_first [OF assms False, of env] show ?thesis
      by (simp add: typesBuilt_def Let_def)
  qed
qed

lemma open_self:
  assumes "self < length (instanceArray st)" "collapsible (opt (inst st self)) = True"
    "isClosed env (inst st self)"
  shows "frame (inst (open_category env st self) self) (openedViewer env (inst st self))"
proof -
  let ?P = "openPrepared env st self"
  let ?R = "openRest env ?P self"
  let ?a = "applyHeight env
              (showHideFeatures (Some ''none'') True
                 ((inst st self)\<lparr>titleText := ARROW_DOWN env @ '' ''
                     @ getTrackTitle env (category_opt (opt (inst st self))) None\<rparr>))
              (titleHeight (inst st self)) 0"
  have p: "self < length (instanceArray ?P)" using assms(1) by simp
  have r: "self < length (instanceArray ?R)" using openRest_self(2) [OF p, of env] p by simp
  have "frame (inst ?R self) ((inst ?P self)\<lparr>hasBeenOpen := True\<rparr>)"
    by (rule openRest_self(1) [OF p])
  moreover have "frame ((inst ?P self)\<lparr>hasBeenOpen := True\<rparr>) (?a\<lparr>hasBeenOpen := True\<rparr>)"
    by (rule frame_hasBeenOpen) (rule openPrepared_self [OF assms(1)])
  ultimately have "frame (inst ?R self) (?a\<lparr>hasBeenOpen := True\<rparr>)" by (rule frame_trans)
  then have "frame (trigger categoryOpen (inst ?R self)) (trigger categoryOpen (?a\<lparr>hasBeenOpen := True\<rparr>))"
    by (rule frame_trigger)
  then show ?thesis
    unfolding open_unfold [OF assms(2,3)] openedViewer_def using r by (simp add: upd_inst)
qed

lemma close_unfold:
  assumes "collapsible (opt (inst st self)) = True" "\<not> isClosed env (inst st self)"
  shows "close_category env st self =
     upd (p_closeCategory env
            (upd st self (\<lambda>v. v\<lparr>titleText :=
                ARROW_RIGHT env @ '' '' @ getTrackTitle env (category_opt (opt v)) None\<rparr>)) self)
         self (trigger categoryClose)"
  using assms by (simp add: close_category_def Let_def isClosed_def)

lemma closeCategory_shape [simp]:
  "length (instanceArray (p_closeCategory env st self)) = length (instanceArray st)"
  "instances (p_closeCategory env st self) = instances st"
  "heap (p_closeCategory env st self) = heap st"
  by (simp_all add: p_closeCategory_def Let_def split: option.split)

lemma closeCategory_self:
  assumes "self < length (instanceArray st)"
  shows "frame (inst (p_closeCategory env st self) self)
           (applyHeight env (showHideFeatures (categoryDivDisplay (inst st self)) False (inst st self))
              (height (inst st self)) 0)"
proof -
  let ?a = "showHideFeatures (categoryDivDisplay (inst st self)) False (inst st self)"
  define c where "c = inContainerOf ?a ?a"
  let ?b = "if c then ?a\<lparr>rowDisplay := Some ''none'', rowHidden := True\<rparr> else ?a"
  let ?st3 = "upd (showHideTypes self (Some ''none'') True
                 (upd st self (\<lambda>v. showHideFeatures (categoryDivDisplay v) False v)))
               self (\<lambda>v. applyHeight env v (height v) 0)"
  have e: "inst ?st3 self = applyHeight env ?b (height ?b) 0"
    using assms by (simp add: upd_inst showHideTypes_inst c_def)
  have f: "frame ?b ?a" by simp
  have t: "height ?b = height (inst st self)" by simp
  have "frame (applyHeight env ?b (height (inst st self)) 0)
              (applyHeight env ?a (height (inst st self)) 0)"
    using f by (rule frame_cong) (simp add: applyHeight_def Let_def)
  then have g: "frame (inst ?st3 self) (applyHeight env ?a (height (inst st self)) 0)"
    unfolding e t .
  have "frame (inst (p_closeCategory env st self) self) (inst ?st3 self)"
    by (simp add: p_closeCategory_def Let_def upd_inst split: option.split)
  then show ?thesis using g by (rule frame_trans)
qed

lemma closeCategory_other:
  assumes "j < length (instanceArray st)" "j \<noteq> self"
  shows "inst (p_closeCategory env st self) j =
           (if inContainerOf (inst st self) (inst st j)
            then (inst st j)\<lparr>rowDisplay := Some ''none'', rowHidden := True\<rparr>
            else inst st j)"
  using assms
  by (simp add: p_closeCategory_def Let_def upd_inst showHideTypes_inst inContainerOf_def
        split: option.split)

lemma close_shape:
  "length (instanceArray (close_category env st self)) = length (instanceArray st)"
  "instances (close_category env st self) = instances st"
  "heap (close_category env st self) = heap st"
  by (simp_all add: close_category_def Let_def)

lemma close_self:
  assumes "self < length (instanceArray st)" "collapsible (opt (inst st self)) = True"
    "\<not> isClosed env (inst st self)"
  shows "frame (inst (close_category env st self) self) (closedViewer env (inst st self))"
proof -
  let ?t = "upd st self (\<lambda>v. v\<lparr>titleText :=
                ARROW_RIGHT env @ '' '' @ getTrackTitle env (category_opt (opt v)) None\<rparr>)"
  have l: "self < length (instanceArray ?t)" using assms(1) by simp
  have "frame (inst (p_closeCategory env ?t self) self)
           (applyHeight env (showHideFeatures (categoryDivDisplay (inst ?t self)) False (inst ?t self))
              (height (inst ?t self)) 0)"
    by (rule closeCategory_self [OF l])
  then have "frame (trigger categoryClose (inst (p_closeCategory env ?t self) self))
     (trigger categoryClose
           (applyHeight env (showHideFeatures (categoryDivDisplay (inst ?t self)) False (inst ?t self))
              (height (inst ?t self)) 0))"
    by (rule frame_trigger)
  then show ?thesis
    unfolding close_unfold [OF assms(2,3)] closedViewer_def
    using assms(1) by (simp add: upd_inst)
qed

lemma close_other:
  assumes "j < length (instanceArray st)" "j \<noteq> self"
    "collapsible (opt (inst st self)) = True" "\<not> isClosed env (inst st self)"
  shows "inst (close_category env st self) j =
           (if inContainerOf (inst st self) (inst st j)
            then (inst st j)\<lparr>rowDisplay := Some ''none'', rowHidden := True\<rparr>
            else inst st j)"
proof -
  let ?t = "upd st self (\<lambda>v. v\<lparr>titleText :=
                ARROW_RIGHT env @ '' '' @ getTrackTitle env (category_opt (opt v)) None\<rparr>)"
  have l: "j < length (instanceArray ?t)" using assms(1) by simp
  have "inContainerOf (inst ?t self) (inst ?t j) = inContainerOf (inst st self) (inst st j)"
    using assms(2) by (simp add: upd_inst inContainerOf_def)
  then show ?thesis
    unfolding close_unfold [OF assms(3,4)]
    using assms(2) closeCategory_other [OF l assms(2), of env]
    by (simp add: upd_inst)
qed

lemma openedViewer_fields:
  "featuresDisplay (openedViewer env v) = Some ''none''"
  "featuresHidden (openedViewer env v) = True"
  "titleText (openedViewer env v) = ARROW_DOWN env @ '' '' @ getTrackTitle env (category_opt (opt v)) None"
  "effects (openedViewer env v) = effects v @ [Trigger categoryOpen]"
  "hasBeenOpen (openedViewer env v) = True"
  "rowHeight (openedViewer env v) = n_add env (titleHeight v) (n_mul env 0 2)"
  "titleDivHeight (openedViewer env v) =
     n_sub env (n_add env (titleHeight v) 0) (n_mul env (getTitlesPadding env) 2)"
  "featuresDivHeight (openedViewer env v) = n_add env (titleHeight v) 0"
  "svgHeight (openedViewer env v) = titleHeight v"
  "height (openedViewer env v) = height v"
  "opt (openedViewer env v) = opt v"
  "categoryDivDisplay (openedViewer env v) = categoryDivDisplay v"
  "uncollapsedElement (openedViewer env v) = uncollapsedElement v"
  by (simp_all add: openedViewer_def trigger_def applyHeight_def showHideFeatures_def Let_def)

lemma closedViewer_fields:
  "featuresDisplay (closedViewer env v) = categoryDivDisplay v"
  "featuresHidden (closedViewer env v) = False"
  "titleText (closedViewer env v) = ARROW_RIGHT env @ '' '' @ getTrackTitle env (category_opt (opt v)) None"
  "effects (closedViewer env v) = effects v @ [Trigger categoryClose]"
  "hasBeenOpen (closedViewer env v) = hasBeenOpen v"
  "rowHeight (closedViewer env v) = n_add env (height v) (n_mul env 0 2)"
  "titleDivHeight (closedViewer env v) =
     n_sub env (n_add env (height v) 0) (n_mul env (getTitlesPadding env) 2)"
  "featuresDivHeight (closedViewer env v) = n_add env (height v) 0"
  "svgHeight (closedViewer env v) = height v"
  "height (closedViewer env v) = height v"
  "opt (closedViewer env v) = opt v"
  "categoryDivDisplay (closedViewer env v) = categoryDivDisplay v"
  "uncollapsedElement (closedViewer env v) = uncollapsedElement v"
  by (simp_all add: closedViewer_def trigger_def applyHeight_def showHideFeatures_def Let_def)

lemma openPrepared_self_fields:
  assumes "self < length (instanceArray st)"
  shows "opt (inst (openPrepared env st self) self) = opt (inst st self)"
    and "hasBeenOpen (inst (openPrepared env st self) self) = hasBeenOpen (inst st self)"
    and "uncollapsedElement (inst (openPrepared env st self) self) = uncollapsedElement (inst st self)"
  using frame_fields(1,13,14) [OF openPrepared_self [OF assms, of env]] by simp_all

lemma openRest_other:
  assumes "self < length (instanceArray st3)" "j < length (instanceArray st3)" "j \<noteq> self"
  shows "inst (openRest env st3 self) j = inst st3 j"
proof (cases "hasBeenOpen (inst st3 self) = True")
  case True
  then show ?thesis using assms(3) by (simp add: openRest_again)
next
  case False
  from openRest_first [OF assms(1) False, of env] assms(2,3)
  have "inst (openRest env st3 self) j = inst (upd st3 self (\<lambda>v. v\<lparr>hasBeenOpen := True\<rparr>)) j"
    by (simp add: typesBuilt_def Let_def)
  then show ?thesis using assms(3) by (simp add: upd_inst)
qed

lemma open_other:
  assumes "self < length (instanceArray st)" "j < length (instanceArray st)" "j \<noteq> self"
    "collapsible (opt (inst st self)) = True" "isClosed env (inst st self)"
  shows "inst (open_category env st self) j =
           (if inContainerOf (inst st self) (inst st j)
            then (inst st j)\<lparr>rowDisplay := categoryDivDisplay (inst st self), rowHidden := False\<rparr>
            else inst st j)"
proof -
  let ?P = "openPrepared env st self"
  have "inst (open_category env st self) j = inst (openRest env ?P self) j"
    unfolding open_unfold [OF assms(4,5)] using assms(3) by (simp add: upd_inst)
  also have "\<dots> = inst ?P j"
    using assms(1,2,3) by (simp add: openRest_other)
  finally show ?thesis using openPrepared_other [OF assms(2,3), of env] by simp
qed

lemma isTypeInstance_cong:
  "uncollapsedElement (inst st self) = uncollapsedElement (inst st' self) \<Longrightarrow>
     isTypeInstance st self ty j v = isTypeInstance st' self ty j v"
  by (simp add: isTypeInstance_def)

lemma open_first:
  assumes "self < length (instanceArray st)" "collapsible (opt (inst st self)) = True"
    "isClosed env (inst st self)" "hasBeenOpen (inst st self) \<noteq> True"
  shows "length (instanceArray (open_category env st self)) =
           length (instanceArray st) + length (getTypes env (category_opt (opt (inst st self))))"
    and "instances (open_category env st self) =
           instances st @ [length (instanceArray st) ..<
              length (instanceArray st) + length (getTypes env (category_opt (opt (inst st self))))]"
    and "heap (open_category env st self) = heap st"
    and "\<And>j. length (instanceArray st) \<le> j \<Longrightarrow>
           j < length (instanceArray st) + length (getTypes env (category_opt (opt (inst st self)))) \<Longrightarrow>
           isTypeInstance st self
             (getTypes env (category_opt (opt (inst st self))) ! (j - length (instanceArray st))) j
             (inst (open_category env st self) j)"
proof -
  let ?P = "openPrepared env st self"
  let ?U = "upd ?P self (\<lambda>v. v\<lparr>hasBeenOpen := True\<rparr>)"
  let ?R = "openRest env ?P self"
  let ?ts = "getTypes env (category_opt (opt (inst st self)))"
  have p: "self < length (instanceArray ?P)" using assms(1) by simp
  have h: "hasBeenOpen (inst ?P self) \<noteq> True"
    using assms(4) openPrepared_self_fields(2) [OF assms(1), of env] by simp
  have tb: "typesBuilt ?U self ?ts ?R"
    using openRest_first [OF p h, of env] openPrepared_self_fields(1) [OF assms(1), of env]
    by simp
  have u: "uncollapsedElement (inst ?U self) = uncollapsedElement (inst st self)"
    using p openPrepared_self_fields(3) [OF assms(1), of env] by (simp add: upd_inst)
  have o: "open_category env st self = upd ?R self (trigger categoryOpen)"
    by (rule open_unfold [OF assms(2,3)])
  from tb show "length (instanceArray (open_category env st self)) =
           length (instanceArray st) + length ?ts"
    unfolding o by (simp add: typesBuilt_def Let_def)
  from tb show "instances (open_category env st self) =
           instances st @ [length (instanceArray st) ..< length (instanceArray st) + length ?ts]"
    unfolding o by (simp add: typesBuilt_def Let_def)
  from tb show "heap (open_category env st self) = heap st"
    unfolding o by (simp add: typesBuilt_def Let_def)
  fix j assume j: "length (instanceArray st) \<le> j" "j < length (instanceArray st) + length ?ts"
  with assms(1) have ne: "j \<noteq> self" by simp
  from tb j have "isTypeInstance ?U self (?ts ! (j - length (instanceArray st))) j (inst ?R j)"
    by (simp add: typesBuilt_def Let_def)
  then have "isTypeInstance st self (?ts ! (j - length (instanceArray st))) j (inst ?R j)"
    using isTypeInstance_cong [OF u] by simp
  then show "isTypeInstance st self (?ts ! (j - length (instanceArray st))) j
             (inst (open_category env st self) j)"
    unfolding o using ne by (simp add: upd_inst)
qed

lemma open_again:
  assumes "self < length (instanceArray st)" "hasBeenOpen (inst st self) = True"
  shows "length (instanceArray (open_category env st self)) = length (instanceArray st)"
    and "instances (open_category env st self) = instances st"
    and "heap (open_category env st self) = heap st"
proof -
  let ?P = "openPrepared env st self"
  have h: "hasBeenOpen (inst ?P self) = True"
    using assms(2) openPrepared_self_fields(2) [OF assms(1), of env] by simp
  have e: "collapsible (opt (inst st self)) = True \<and> isClosed env (inst st self) \<Longrightarrow>
     open_category env st self = upd (openRest env ?P self) self (trigger categoryOpen)"
    using open_unfold by blast
  show "length (instanceArray (open_category env st self)) = length (instanceArray st)"
    using e open_noop [of st self env] openRest_again(1) [OF h, of env] by (cases "collapsible (opt (inst st self)) = True \<and> isClosed env (inst st self)") auto
  show "instances (open_category env st self) = instances st"
    using e open_noop [of st self env] openRest_again(2) [OF h, of env] by (cases "collapsible (opt (inst st self)) = True \<and> isClosed env (inst st self)") auto
  show "heap (open_category env st self) = heap st"
    using e open_noop [of st self env] openRest_again(3) [OF h, of env] by (cases "collapsible (opt (inst st self)) = True \<and> isClosed env (inst st self)") auto
qed

lemma isClosed_after:
  assumes "arrows_ok env"
  shows "\<not> isClosed env (openedViewer env v)" and "isClosed env (closedViewer env v)"
proof -
  from assms have a: "length (ARROW_RIGHT env) = 1"
    and b: "take 1 (ARROW_DOWN env @ '' '') \<noteq> ARROW_RIGHT env"
    by (simp_all add: arrows_ok_def charAt0_def)
  have t: "take 1 (ARROW_DOWN env @ '' '' @ t) = take 1 (ARROW_DOWN env @ '' '')" for t
    by (cases "ARROW_DOWN env") simp_all
  show "\<not> isClosed env (openedViewer env v)"
    unfolding isClosed_def openedViewer_fields charAt0_def t by (rule b)
  from a show "isClosed env (closedViewer env v)"
    by (simp add: isClosed_def closedViewer_fields charAt0_def)
qed

lemma isClosed_frame: "frame v w \<Longrightarrow> isClosed env v = isClosed env w"
  by (simp add: isClosed_def frame_fields)

lemma open_opt:
  assumes "self < length (instanceArray st)" "j < length (instanceArray st)"
  shows "opt (inst (open_category env st self) j) = opt (inst st j)"
proof (cases "collapsible (opt (inst st self)) = True \<and> isClosed env (inst st self)")
  case False
  then show ?thesis by (simp add: open_noop)
next
  case True
  then have c: "collapsible (opt (inst st self)) = True" and k: "isClosed env (inst st self)"
    by simp_all
  show ?thesis
  proof (cases "j = self")
    case True
    then show ?thesis
      using frame_fields(1) [OF open_self [OF assms(1) c k]] by (simp add: openedViewer_fields)
  next
    case False
    then show ?thesis using open_other [OF assms False c k] by simp
  qed
qed

lemma close_opt:
  assumes "self < length (instanceArray st)" "j < length (instanceArray st)"
  shows "opt (inst (close_category env st self) j) = opt (inst st j)"
proof (cases "collapsible (opt (inst st self)) = True \<and> \<not> isClosed env (inst st self)")
  case False
  then show ?thesis by (simp add: close_noop)
next
  case True
  then have c: "collapsible (opt (inst st self)) = True" and k: "\<not> isClosed env (inst st self)"
    by simp_all
  show ?thesis
  proof (cases "j = self")
    case True
    then show ?thesis
      using frame_fields(1) [OF close_self [OF assms(1) c k]] by (simp add: closedViewer_fields)
  next
    case False
    then show ?thesis using close_other [OF assms(2) False c k] by simp
  qed
qed

lemma fold_propagate_opt:
  assumes "\<And>v w. opt (f (receive v w)) = opt w"
  shows "opt (inst (fold (propagateTo f self) xs st) j) = opt (inst st j)"
proof (induction xs arbitrary: st)
  case Nil
  then show ?case by simp
next
  case (Cons a xs)
  have "opt (inst (propagateTo f self a st) j) = opt (inst st j)"
    by (simp add: propagateTo_def upd_inst assms)
  then show ?case using Cons.IH [of "propagateTo f self a st"] by simp
qed

lemma zoomInOut_opt: "opt (inst (zoomInOut env st self m) j) = opt (inst st j)"
proof -
  have "\<And>j. opt (inst (propagate (zoomInOut_self env m False) self st) j) = opt (inst st j)"
    unfolding propagate_def by (rule fold_propagate_opt) simp
  then show ?thesis by (simp add: zoomInOut_def p_zoomInOut_def upd_inst)
qed

lemma translate_opt: "opt (inst (translate env st self m) j) = opt (inst st j)"
proof -
  have "\<And>j. opt (inst (propagate (translate_self env m) self st) j) = opt (inst st j)"
    unfolding propagate_def by (rule fold_propagate_opt) simp
  then show ?thesis by (simp add: translate_def p_translate_def upd_inst)
qed

lemma wf_store_same:
  assumes "wf_store st" "instances st' = instances st"
    "length (instanceArray st') = length (instanceArray st)"
    "\<And>j. j < length (instanceArray st) \<Longrightarrow> opt (inst st' j) = opt (inst st j)"
  shows "wf_store st'"
  using assms by (auto simp: wf_store_def)

lemma wf_store_open:
  assumes "wf_store st" "self < length (instanceArray st)"
  shows "wf_store (open_category env st self)"
proof (cases "collapsible (opt (inst st self)) = True \<and> isClosed env (inst st self)
               \<and> hasBeenOpen (inst st self) \<noteq> True")
  case False
  then consider "\<not> (collapsible (opt (inst st self)) = True \<and> isClosed env (inst st self))"
    | "hasBeenOpen (inst st self) = True" by blast
  then show ?thesis
  proof cases
    case 1
    then show ?thesis using assms(1) by (simp add: open_noop)
  next
    case 2
    show ?thesis
      using assms(1) open_again(2,1) [OF assms(2) 2, of env] open_opt [OF assms(2), of _ env]
      by (rule wf_store_same)
  qed
next
  case True
  then have c: "collapsible (opt (inst st self)) = True" and k: "isClosed env (inst st self)"
    and h: "hasBeenOpen (inst st self) \<noteq> True" by simp_all
  let ?n = "length (instanceArray st)"
  let ?ts = "getTypes env (category_opt (opt (inst st self)))"
  let ?st' = "open_category env st self"
  note f = open_first [OF assms(2) c k h]
  from assms(1) have d: "distinct (instances st)"
    and old: "\<And>i. i \<in> set (instances st) \<Longrightarrow> i < ?n \<and> collapsible (opt (inst st i)) = False
                \<and> clickable (opt (inst st i)) = False"
    by (auto simp: wf_store_def)
  have d': "distinct (instances ?st')"
    unfolding f(2) using d by (auto dest: old)
  have all: "i < length (instanceArray ?st') \<and> collapsible (opt (inst ?st' i)) = False
                \<and> clickable (opt (inst ?st' i)) = False" if i: "i \<in> set (instances ?st')" for i
  proof (cases "i \<in> set (instances st)")
    case True
    with old [OF True] open_opt [OF assms(2), of i env] f(1) show ?thesis by simp
  next
    case False
    with i have r: "?n \<le> i" "i < ?n + length ?ts" unfolding f(2) by auto
    from f(4) [OF r] r f(1) show ?thesis by (simp add: isTypeInstance_def)
  qed
  show ?thesis unfolding wf_store_def using d' all by blast
qed

lemma setSelected_fields [simp]:
  "instanceArray (setSelected st a b) = instanceArray st"
  "instances (setSelected st a b) = instances st"
  "heap (setSelected st a b) = (heap st)[a := (heap st ! a)\<lparr>selected := b\<rparr>]"
  "inst (setSelected st a b) i = inst st i"
  by (simp_all add: setSelected_def inst_def)

lemma modelFeature_selected [simp]:
  "modelFeature c (f\<lparr>selected := b\<rparr>) = modelFeature c f"
  by (simp add: modelFeature_def split: category.splits option.splits)

lemma nth_opt_mem:
  assumes "nth_opt xs i = Some e"
  shows "e \<in> set xs"
proof -
  from assms obtain k where "k < length xs" "e = xs ! k"
    by (auto simp: nth_opt_def split: option.splits if_splits)
  then show ?thesis by simp
qed

lemma modelFeature_mem:
  assumes "modelFeature c f = Some a"
  shows "a \<in> set (modelFeatures c)"
proof (cases c)
  case (Category l ts)
  with assms obtain t lo where t: "nth_opt ts (typeIndex_ft f) = Some t"
    and lo: "nth_opt (locations t) (locationIndex f) = Some lo"
    and a: "nth_opt (features lo) (featureIndex f) = Some a"
    by (auto simp: modelFeature_def split: option.splits)
  from nth_opt_mem [OF t] nth_opt_mem [OF lo] nth_opt_mem [OF a] Category
  show ?thesis by (auto simp: modelFeatures_def)
next
  case (Variants l vs)
  with assms show ?thesis by (auto simp: modelFeature_def modelFeatures_def dest: nth_opt_mem)
next
  case (Type t)
  with assms show ?thesis by (simp add: modelFeature_def)
qed

lemma click_keeps_selection:
  assumes s: "self < length (instanceArray st)"
    and inv: "selectionInv st self"
    and ok: "\<forall>b \<in> set (modelFeatures (category_opt (opt (inst st self)))). b < length (heap st)"
    and a: "modelFeature (category_opt (opt (inst st self))) (heap st ! a) = Some a"
  shows "\<not> raised (p_onInstanceFeatureClick st self a svg)
    \<and> selectionInv (the_store (p_onInstanceFeatureClick st self a svg)) self"
proof -
  let ?fs = "modelFeatures (category_opt (opt (inst st self)))"
  from modelFeature_mem [OF a] have m: "a \<in> set ?fs" .
  with ok have la: "a < length (heap st)" by simp
  show ?thesis
  proof (cases "clickable (opt (inst st self)) = True")
    case False
    with inv show ?thesis by (simp add: p_onInstanceFeatureClick_def raised_def the_store_def)
  next
    case True
    note c = True
    show ?thesis
    proof (cases "currentSelectedFeature (inst st self)")
      case None
      with inv m have "selected (heap st ! a) = False"
        by (simp add: selectionInv_def list_all_iff Let_def)
      with None c s a la inv ok m show ?thesis
        by (auto simp: p_onInstanceFeatureClick_def raised_def the_store_def Let_def
              selectionInv_def list_all_iff upd_inst trigger_def nth_list_update)
    next
      case (Some k)
      with inv have k: "k \<in> set ?fs" and sel: "\<forall>b \<in> set ?fs. selected (heap st ! b) = (b = k)"
        by (simp_all add: selectionInv_def list_all_iff Let_def)
      from k ok have lk: "k < length (heap st)" by simp
      show ?thesis
      proof (cases "selected (heap st ! a) = True \<or> ftId (heap st ! a) = ftId (heap st ! k)")
        case True
        with Some c s la lk sel k ok show ?thesis
          by (auto simp: p_onInstanceFeatureClick_def raised_def the_store_def Let_def
                selectionInv_def list_all_iff upd_inst trigger_def nth_list_update)
      next
        case False
        with sel m have ne: "a \<noteq> k" by auto
        with False Some c s la lk sel k ok a m show ?thesis
          by (auto simp: p_onInstanceFeatureClick_def raised_def the_store_def Let_def
                selectionInv_def list_all_iff upd_inst trigger_def nth_list_update)
      qed
    qed
  qed
qed

lemma click_selects:
  assumes s: "self < length (instanceArray st)"
    and c: "clickable (opt (inst st self)) = True"
    and inv: "selectionInv st self"
    and ok: "\<forall>b \<in> set (modelFeatures (category_opt (opt (inst st self)))). b < length (heap st)"
    and a: "modelFeature (category_opt (opt (inst st self))) (heap st ! a) = Some a"
  shows "(case currentSelectedFeature (inst st self) of
            None \<Rightarrow> False
          | Some k \<Rightarrow> ftId (heap st ! a) = ftId (heap st ! k)) \<Longrightarrow>
         currentSelectedFeature (inst (the_store (p_onInstanceFeatureClick st self a svg)) self) = None
         \<and> effects (inst (the_store (p_onInstanceFeatureClick st self a svg)) self)
             = effects (inst st self) @ [Trigger (featureUnselected a (Some svg))]"
    and "\<not> (case currentSelectedFeature (inst st self) of
            None \<Rightarrow> False
          | Some k \<Rightarrow> ftId (heap st ! a) = ftId (heap st ! k)) \<Longrightarrow>
         currentSelectedFeature (inst (the_store (p_onInstanceFeatureClick st self a svg)) self) = Some a
         \<and> selected (heap (the_store (p_onInstanceFeatureClick st self a svg)) ! a) = True
         \<and> effects (inst (the_store (p_onInstanceFeatureClick st self a svg)) self)
             = effects (inst st self)
               @ (case currentSelectedFeature (inst st self) of
                    None \<Rightarrow> []
                  | Some k \<Rightarrow> [Trigger (featureUnselected k (currentSelectedSVG (inst st self)))])
               @ [Trigger (featureSelected a (Some svg))]"
proof -
  let ?fs = "modelFeatures (category_opt (opt (inst st self)))"
  from modelFeature_mem [OF a] have m: "a \<in> set ?fs" .
  with ok have la: "a < length (heap st)" by simp
  {
    assume "case currentSelectedFeature (inst st self) of
            None \<Rightarrow> False
          | Some k \<Rightarrow> ftId (heap st ! a) = ftId (heap st ! k)"
    then obtain k where k: "currentSelectedFeature (inst st self) = Some k"
      and f: "ftId (heap st ! a) = ftId (heap st ! k)"
      by (auto split: option.splits)
    with c s show "currentSelectedFeature (inst (the_store (p_onInstanceFeatureClick st self a svg)) self) = None
         \<and> effects (inst (the_store (p_onInstanceFeatureClick st self a svg)) self)
             = effects (inst st self) @ [Trigger (featureUnselected a (Some svg))]"
      by (simp add: p_onInstanceFeatureClick_def the_store_def Let_def upd_inst trigger_def)
  }
  {
    assume n: "\<not> (case currentSelectedFeature (inst st self) of
            None \<Rightarrow> False
          | Some k \<Rightarrow> ftId (heap st ! a) = ftId (heap st ! k))"
    have u: "selected (heap st ! a) = False"
    proof (cases "currentSelectedFeature (inst st self)")
      case None
      with inv m show ?thesis by (simp add: selectionInv_def list_all_iff Let_def)
    next
      case (Some k)
      with n have "a \<noteq> k" by auto
      with Some inv m show ?thesis by (simp add: selectionInv_def list_all_iff Let_def)
    qed
    show "currentSelectedFeature (inst (the_store (p_onInstanceFeatureClick st self a svg)) self) = Some a
         \<and> selected (heap (the_store (p_onInstanceFeatureClick st self a svg)) ! a) = True
         \<and> effects (inst (the_store (p_onInstanceFeatureClick st self a svg)) self)
             = effects (inst st self)
               @ (case currentSelectedFeature (inst st self) of
                    None \<Rightarrow> []
                  | Some k \<Rightarrow> [Trigger (featureUnselected k (currentSelectedSVG (inst st self)))])
               @ [Trigger (featureSelected a (Some svg))]"
    proof (cases "currentSelectedFeature (inst st self)")
      case None
      with u c s a la show ?thesis
        by (simp add: p_onInstanceFeatureClick_def the_store_def Let_def upd_inst trigger_def)
    next
      case (Some k)
      with n have "a \<noteq> k" "ftId (heap st ! a) \<noteq> ftId (heap st ! k)" by auto
      with Some u c s a la show ?thesis
        by (simp add: p_onInstanceFeatureClick_def the_store_def Let_def upd_inst trigger_def)
    qed
  }
qed






subsection \<open>C10: the pixels per amino acid and the cap\<close>




subsection \<open>C5: zooming toggles between the overview and the detailed view\<close>




subsection \<open>C1: zooming a category zooms its type instances\<close>



subsection \<open>C3: translating a category\<close>




subsection \<open>C2: the scale and the geometry of a feature\<close>

text \<open>
  Claim C2, as amended. The features are placed with the linear scale of the instance,
  which has the domain \<open>[1, sequenceLength + 1]\<close>. After \<^verbatim>\<open>_initScale\<close>, so for a newly
  constructed instance and after zooming out, its range is
  \<open>[margin.left, svgWidthWithMargin - margin.right]\<close>. After zooming in its range is
  \<open>[margin.left, sequenceLength * maxPixelAA + margin.left + margin.right - margin.right]\<close>,
  while \<^verbatim>\<open>_svgWidthWithMargin\<close> is the width of the visible area. (The scale of
  \<^verbatim>\<open>loadZoom\<close> has the same domain, over the padding of the features viewer.)
  \<open>pixelPerAA\<close> is \<open>xScale(2) - xScale(1)\<close> after \<^verbatim>\<open>_initScale\<close>, after construction and
  after every \<^verbatim>\<open>_zoomInOut\<close>. For a feature of a continuous location
  \<^verbatim>\<open>_calculatePosition\<close> gives \<open>x = xScale(start)\<close> and
  \<open>width = xScale(end) - xScale(start) + pixelPerAA\<close>; for a feature of a single position
  drawn with shapes it gives the midpoint
  \<open>x = xScale(start) + ((xScale(end) + pixelPerAA) - xScale(start)) / 2\<close>. Every operation
  is the operation of the program, with its rounding.
\<close>

theorem feature_placement:
  "xScale (p_initScale env s) =
      scale_linear 1 (n_add env (real (sequenceLength (opt s))) 1) (m_left (margin s))
        (n_sub env (svgWidthWithMargin (p_initScale env s)) (m_right (margin s)))
   \<and> pixelPerAA (p_initScale env s) =
       n_sub env (scale_apply (rounding env) (xScale (p_initScale env s)) 2)
         (scale_apply (rounding env) (xScale (p_initScale env s)) 1)
   \<and> xScale (newViewer env g idx) =
       scale_linear 1 (n_add env (real (length (g_sequence g))) 1) (getMarginLeft env)
         (n_sub env (svgWidthWithMargin (newViewer env g idx)) (getMarginRight env))
   \<and> pixelPerAA (newViewer env g idx) =
       n_sub env (scale_apply (rounding env) (xScale (newViewer env g idx)) 2)
         (scale_apply (rounding env) (xScale (newViewer env g idx)) 1)
   \<and> (zoomed s = True \<longrightarrow>
        xScale (zoomInOut_self env m t s) =
          scale_linear 1 (n_add env (real (sequenceLength (opt s))) 1) (m_left (margin s))
            (n_sub env (svgWidthWithMargin (zoomInOut_self env m t s)) (m_right (margin s))))
   \<and> (zoomed s = False \<longrightarrow>
        xScale (zoomInOut_self env m t s) =
          scale_linear 1 (n_add env (real (sequenceLength (opt s))) 1) (m_left (margin s))
            (n_sub env
               (n_add env
                  (n_add env (n_mul env (real (sequenceLength (opt s))) (getMaxPixelAA env))
                     (m_left (margin s)))
                  (m_right (margin s)))
               (m_right (margin s)))
        \<and> svgWidthWithMargin (zoomInOut_self env m t s) =
            n_sub env (width (opt s)) (getTitlesWidth env None))
   \<and> pixelPerAA (zoomInOut_self env m t s) =
       n_sub env (scale_apply (rounding env) (xScale (zoomInOut_self env m t s)) 2)
         (scale_apply (rounding env) (xScale (zoomInOut_self env m t s)) 1)
   \<and> fv_xScale (loadZoom sq fv) =
       scale_linear 1 (double (real (length sq) + 1)) (padding_left fv)
         (double (fv_width fv - padding_right fv))
   \<and> (equalsNoCase env locType (ftLocation_continuous env) \<longrightarrow>
        x (calculatePosition env self locType ft)
          = Some (scale_apply (rounding env) (xScale self) (getStart env ft))
        \<and> width_ft (calculatePosition env self locType ft)
          = Some (n_add env
                    (n_sub env (scale_apply (rounding env) (xScale self) (getEnd env ft))
                       (scale_apply (rounding env) (xScale self) (getStart env ft)))
                    (pixelPerAA self)))
   \<and> (\<not> equalsNoCase env locType (ftLocation_continuous env)
        \<and> equalsNoCase env locType (ftLocation_position env) \<and> useShapes (opt self) \<longrightarrow>
        x (calculatePosition env self locType ft)
          = Some (n_add env (scale_apply (rounding env) (xScale self) (getStart env ft))
                    (n_div env
                       (n_sub env
                          (n_add env (scale_apply (rounding env) (xScale self) (getEnd env ft))
                             (pixelPerAA self))
                          (scale_apply (rounding env) (xScale self) (getStart env ft)))
                       2)))"
proof (intro conjI impI)
  show "xScale (p_initScale env s) =
      scale_linear 1 (n_add env (real (sequenceLength (opt s))) 1) (m_left (margin s))
        (n_sub env (svgWidthWithMargin (p_initScale env s)) (m_right (margin s)))"
    by (rule initScale_xScale)
  show "pixelPerAA (p_initScale env s) =
       n_sub env (scale_apply (rounding env) (xScale (p_initScale env s)) 2)
         (scale_apply (rounding env) (xScale (p_initScale env s)) 1)"
    by (rule initScale_pixelPerAA)
  show "xScale (newViewer env g idx) =
       scale_linear 1 (n_add env (real (length (g_sequence g))) 1) (getMarginLeft env)
         (n_sub env (svgWidthWithMargin (newViewer env g idx)) (getMarginRight env))"
    by (rule newViewer_scale)
  show "pixelPerAA (newViewer env g idx) =
       n_sub env (scale_apply (rounding env) (xScale (newViewer env g idx)) 2)
         (scale_apply (rounding env) (xScale (newViewer env g idx)) 1)"
    by (rule newViewer_scale)
  show "pixelPerAA (zoomInOut_self env m t s) =
       n_sub env (scale_apply (rounding env) (xScale (zoomInOut_self env m t s)) 2)
         (scale_apply (rounding env) (xScale (zoomInOut_self env m t s)) 1)"
    by (rule zoomInOut_self_pixelPerAA)
  show "fv_xScale (loadZoom sq fv) =
       scale_linear 1 (double (real (length sq) + 1)) (padding_left fv)
         (double (fv_width fv - padding_right fv))"
    by (simp add: loadZoom_def Let_def)
next
  assume z: "zoomed s = True"
  show "xScale (zoomInOut_self env m t s) =
          scale_linear 1 (n_add env (real (sequenceLength (opt s))) 1) (m_left (margin s))
            (n_sub env (svgWidthWithMargin (zoomInOut_self env m t s)) (m_right (margin s)))"
    unfolding zoomInOut_self_out [OF z] by (simp add: initScale_xScale)
next
  assume z: "zoomed s = False"
  show "xScale (zoomInOut_self env m t s) =
          scale_linear 1 (n_add env (real (sequenceLength (opt s))) 1) (m_left (margin s))
            (n_sub env
               (n_add env
                  (n_add env (n_mul env (real (sequenceLength (opt s))) (getMaxPixelAA env))
                     (m_left (margin s)))
                  (m_right (margin s)))
               (m_right (margin s)))"
    by (rule zoomInOut_self_in(1) [OF z])
  show "svgWidthWithMargin (zoomInOut_self env m t s) =
            n_sub env (width (opt s)) (getTitlesWidth env None)"
    by (rule zoomInOut_self_in(2) [OF z])
next
  assume c: "equalsNoCase env locType (ftLocation_continuous env)"
  then show "x (calculatePosition env self locType ft)
          = Some (scale_apply (rounding env) (xScale self) (getStart env ft))"
    by (simp add: calculatePosition_def Let_def)
  from c show "width_ft (calculatePosition env self locType ft)
          = Some (n_add env
                    (n_sub env (scale_apply (rounding env) (xScale self) (getEnd env ft))
                       (scale_apply (rounding env) (xScale self) (getStart env ft)))
                    (pixelPerAA self))"
    by (simp add: calculatePosition_def Let_def)
next
  assume "\<not> equalsNoCase env locType (ftLocation_continuous env)
        \<and> equalsNoCase env locType (ftLocation_position env) \<and> useShapes (opt self)"
  then show "x (calculatePosition env self locType ft)
          = Some (n_add env (scale_apply (rounding env) (xScale self) (getStart env ft))
                    (n_div env
                       (n_sub env
                          (n_add env (scale_apply (rounding env) (xScale self) (getEnd env ft))
                             (pixelPerAA self))
                          (scale_apply (rounding env) (xScale self) (getStart env ft)))
                       2))"
    by (simp add: calculatePosition_def Let_def)
qed

theorem feature_placement_witness:
  "zoomed (inst zoomed_ex 0) = True
   \<and> xScale (zoomInOut_self env_ex None True (inst zoomed_ex 0)) = scale_linear 1 81 10 990
   \<and> zoomed viewer_ex = False
   \<and> xScale (zoomInOut_self env_ex None True viewer_ex) = scale_linear 1 11 10 150
   \<and> svgWidthWithMargin (zoomInOut_self env_ex None True viewer_ex) = 1000
   \<and> equalsNoCase env_ex ''continuous'' (ftLocation_continuous env_ex)
   \<and> x (calculatePosition env_ex (inst (store_ex ''MKVLAAGIVG'') 0) ''continuous''
          (heap (store_ex ''MKVLAAGIVG'') ! 0)) = Some 24
   \<and> width_ft (calculatePosition env_ex (inst (store_ex ''MKVLAAGIVG'') 0) ''continuous''
          (heap (store_ex ''MKVLAAGIVG'') ! 0)) = Some 42
   \<and> \<not> equalsNoCase env_ex ''position'' (ftLocation_continuous env_ex)
   \<and> equalsNoCase env_ex ''position'' (ftLocation_position env_ex)
   \<and> useShapes (opt (inst (store_ex ''MKVLAAGIVG'') 0))
   \<and> x (calculatePosition env_ex (inst (store_ex ''MKVLAAGIVG'') 0) ''position''
          (heap (store_ex ''MKVLAAGIVG'') ! 1)) = Some 73"
proof -
  let ?v = "inst (store_ex ''MKVLAAGIVG'') 0"
  let ?f0 = "heap (store_ex ''MKVLAAGIVG'') ! 0"
  let ?f1 = "heap (store_ex ''MKVLAAGIVG'') ! 1"
  let ?z = "inst zoomed_ex 0"
  have z1: "zoomed ?z = True" by code_simp
  have z2: "zoomed viewer_ex = False" by code_simp
  have h1: "equalsNoCase env_ex ''continuous'' (ftLocation_continuous env_ex)" by code_simp
  have h2: "\<not> equalsNoCase env_ex ''position'' (ftLocation_continuous env_ex)
    \<and> equalsNoCase env_ex ''position'' (ftLocation_position env_ex) \<and> useShapes (opt ?v)"
    by code_simp
  have w1: "scale_linear 1 (n_add env_ex (real (sequenceLength (opt ?z))) 1) (m_left (margin ?z))
            (n_sub env_ex (svgWidthWithMargin (zoomInOut_self env_ex None True ?z)) (m_right (margin ?z)))
          = scale_linear 1 81 10 990" by code_simp
  have w2: "scale_linear 1 (n_add env_ex (real (sequenceLength (opt viewer_ex))) 1)
            (m_left (margin viewer_ex))
            (n_sub env_ex
               (n_add env_ex
                  (n_add env_ex
                     (n_mul env_ex (real (sequenceLength (opt viewer_ex))) (getMaxPixelAA env_ex))
                     (m_left (margin viewer_ex)))
                  (m_right (margin viewer_ex)))
               (m_right (margin viewer_ex))) = scale_linear 1 11 10 150
        \<and> n_sub env_ex (width (opt viewer_ex)) (getTitlesWidth env_ex None) = 1000" by code_simp
  have v2: "Some (scale_apply (rounding env_ex) (xScale ?v) (getStart env_ex ?f0)) = Some 24"
    by code_simp
  have v3: "Some (n_add env_ex
                    (n_sub env_ex (scale_apply (rounding env_ex) (xScale ?v) (getEnd env_ex ?f0))
                       (scale_apply (rounding env_ex) (xScale ?v) (getStart env_ex ?f0)))
                    (pixelPerAA ?v)) = Some 42"
    by code_simp
  have v4: "Some (n_add env_ex (scale_apply (rounding env_ex) (xScale ?v) (getStart env_ex ?f1))
                    (n_div env_ex
                       (n_sub env_ex
                          (n_add env_ex (scale_apply (rounding env_ex) (xScale ?v) (getEnd env_ex ?f1))
                             (pixelPerAA ?v))
                          (scale_apply (rounding env_ex) (xScale ?v) (getStart env_ex ?f1)))
                       2)) = Some 73"
    by code_simp
  note a = feature_placement [where env = env_ex and self = ?v and locType = "''continuous''"
      and ft = ?f0 and s = ?z and m = None and t = True]
  note b = feature_placement [where env = env_ex and self = ?v and locType = "''position''"
      and ft = ?f1 and s = viewer_ex and m = None and t = True]
  from a z1 w1 have a0: "xScale (zoomInOut_self env_ex None True ?z) = scale_linear 1 81 10 990"
    by metis
  from b z2 w2 have b0: "xScale (zoomInOut_self env_ex None True viewer_ex) = scale_linear 1 11 10 150
      \<and> svgWidthWithMargin (zoomInOut_self env_ex None True viewer_ex) = 1000" by metis
  from a h1 v2 v3 have a2: "x (calculatePosition env_ex ?v ''continuous'' ?f0) = Some 24
     \<and> width_ft (calculatePosition env_ex ?v ''continuous'' ?f0) = Some 42" by metis
  from b h2 v4 have b1: "x (calculatePosition env_ex ?v ''position'' ?f1) = Some 73" by metis
  from a0 b0 a2 b1 z1 z2 h1 h2 show ?thesis by blast
qed

text \<open>
  The claim as stated gives the scale the range
  \<open>[margin.left, svgWidthWithMargin - margin.right]\<close>. For a category of 80 amino acids
  that has been zoomed in, the features are painted with the scale onto \<open>[10, 1130]\<close>,
  while \<open>svgWidthWithMargin - margin.right\<close> is 990.
\<close>

theorem feature_placement_counterexample:
  "zoomed (inst zoomed_ex 0) = True
   \<and> sequenceLength (opt (inst zoomed_ex 0)) = 80
   \<and> xScale (inst zoomed_ex 0) = scale_linear 1 81 10 1130
   \<and> svgWidthWithMargin (inst zoomed_ex 0) - m_right (margin (inst zoomed_ex 0)) = 990
   \<and> effects (inst zoomed_ex 0) =
       effects (inst (open_category env_ex (store_ex sequence_ex) 0) 0) @ [Trigger zoomIn, PaintFeatures]
   \<and> xScale (inst zoomed_ex 0) \<noteq>
       scale_linear 1 (real (sequenceLength (opt (inst zoomed_ex 0))) + 1)
         (m_left (margin (inst zoomed_ex 0)))
         (svgWidthWithMargin (inst zoomed_ex 0) - m_right (margin (inst zoomed_ex 0)))"
  by code_simp

subsection \<open>C7: what the page shows when loading has finished\<close>

text \<open>
  Claim C7. When all loaders are settled (none is pending then) and the callback of the
  delegates runs: if every loader is rejected, the target element is emptied, shows
  "Sorry, data could not be retrieved at this time, please try again later." and
  \<^verbatim>\<open>noDataRetrieved\<close> is dispatched; if a loader is resolved but \<^verbatim>\<open>fv.data\<close> is empty,
  the element is emptied, shows "There are no features available for this protein." and
  \<^verbatim>\<open>noDataAvailable\<close> is dispatched; if neither holds, the viewer and the rendered
  content are left as they are.
\<close>

theorem load_finished:
  "(let r = loadSources outcomes fv; loaders = fst r; fv1 = snd r; fv2 = load outcomes fv
    in pending \<notin> set loaders
       \<and> ((\<forall>l \<in> set loaders. l = rejected) \<longrightarrow>
             el_nodes fv2 = []
             \<and> el_text fv2 = ''Sorry, data could not be retrieved at this time, please try again later.''
             \<and> fv_trace fv2 = fv_trace fv1 @ [Dispatch noDataRetrieved])
       \<and> ((\<exists>l \<in> set loaders. l = resolved) \<and> fv_data fv1 = [] \<longrightarrow>
             el_nodes fv2 = []
             \<and> el_text fv2 = ''There are no features available for this protein.''
             \<and> fv_trace fv2 = fv_trace fv1 @ [Dispatch noDataAvailable])
       \<and> (\<not> (\<forall>l \<in> set loaders. l = rejected)
            \<and> \<not> ((\<exists>l \<in> set loaders. l = resolved) \<and> fv_data fv1 = []) \<longrightarrow>
             fv2 = fv1))"
proof -
  define loaders where "loaders = fst (loadSources outcomes fv)"
  define fv1 where "fv1 = snd (loadSources outcomes fv)"
  have fv2: "load outcomes fv = whenDone loaders fv1"
    by (simp add: load_def Let_def loaders_def fv1_def)
  have np: "pending \<notin> set loaders"
    unfolding loaders_def loadSources_def by (simp add: loaderState_settled del: set_concat)
  have a: "(\<forall>l \<in> set loaders. l = rejected) \<longrightarrow>
             el_nodes (whenDone loaders fv1) = []
             \<and> el_text (whenDone loaders fv1) = ''Sorry, data could not be retrieved at this time, please try again later.''
             \<and> fv_trace (whenDone loaders fv1) = fv_trace fv1 @ [Dispatch noDataRetrieved]"
    by (simp add: whenDone_def Let_def all_rejected_conv)
  have b: "(\<exists>l \<in> set loaders. l = resolved) \<and> fv_data fv1 = [] \<longrightarrow>
             el_nodes (whenDone loaders fv1) = []
             \<and> el_text (whenDone loaders fv1) = ''There are no features available for this protein.''
             \<and> fv_trace (whenDone loaders fv1) = fv_trace fv1 @ [Dispatch noDataAvailable]"
    by (auto simp: whenDone_def Let_def all_rejected_conv)
  have c: "\<not> (\<forall>l \<in> set loaders. l = rejected)
            \<and> \<not> ((\<exists>l \<in> set loaders. l = resolved) \<and> fv_data fv1 = []) \<longrightarrow>
             whenDone loaders fv1 = fv1"
  proof
    assume h: "\<not> (\<forall>l \<in> set loaders. l = rejected)
            \<and> \<not> ((\<exists>l \<in> set loaders. l = resolved) \<and> fv_data fv1 = [])"
    then obtain l where l: "l \<in> set loaders" "l \<noteq> rejected" by blast
    with np have "l = resolved" by (cases l) auto
    with l h have d: "length (fv_data fv1) \<noteq> 0" by auto
    from h have "length (filter (\<lambda>l. l = rejected) loaders) \<noteq> length loaders"
      by (simp only: all_rejected_conv) simp
    with d show "whenDone loaders fv1 = fv1"
      by (simp add: whenDone_def Let_def)
  qed
  show ?thesis
    unfolding Let_def fv2 loaders_def [symmetric] fv1_def [symmetric]
    using np a b c by blast
qed

theorem load_finished_witness:
  "fst (loadSources [Failed, Failed] fv0_ex) = [rejected, rejected]
   \<and> el_nodes (load [Failed, Failed] fv0_ex) = []
   \<and> el_text (load [Failed, Failed] fv0_ex)
       = ''Sorry, data could not be retrieved at this time, please try again later.''
   \<and> fv_trace (load [Failed, Failed] fv0_ex) = [Dispatch noDataRetrieved]
   \<and> fst (loadSources [Loaded ''MK'' [], Failed] fv0_ex) = [resolved, rejected]
   \<and> fv_data (snd (loadSources [Loaded ''MK'' [], Failed] fv0_ex)) = []
   \<and> el_nodes (load [Loaded ''MK'' [], Failed] fv0_ex) = []
   \<and> el_text (load [Loaded ''MK'' [], Failed] fv0_ex)
       = ''There are no features available for this protein.''
   \<and> fv_trace (load [Loaded ''MK'' [], Failed] fv0_ex)
       = [loadZoom_calls, Dispatch ready, Dispatch noDataAvailable]
   \<and> fst (loadSources [Loaded ''MK'' [7], Failed] fv0_ex) = [resolved, rejected]
   \<and> fv_data (snd (loadSources [Loaded ''MK'' [7], Failed] fv0_ex)) = [7]
   \<and> load [Loaded ''MK'' [7], Failed] fv0_ex = snd (loadSources [Loaded ''MK'' [7], Failed] fv0_ex)
   \<and> el_nodes (load [Loaded ''MK'' [7], Failed] fv0_ex) = [''up_pftv_container'', ''up_pftv_category'']"
proof -
  let ?A = "[Failed, Failed] :: nat outcome list"
  let ?B = "[Loaded ''MK'' [], Failed] :: nat outcome list"
  let ?C = "[Loaded ''MK'' [7], Failed] :: nat outcome list"
  have a1: "fst (loadSources ?A fv0_ex) = [rejected, rejected]" by code_simp
  have a2: "fv_trace (snd (loadSources ?A fv0_ex)) = []" by code_simp
  have b1: "fst (loadSources ?B fv0_ex) = [resolved, rejected]" by code_simp
  have b2: "fv_data (snd (loadSources ?B fv0_ex)) = []" by code_simp
  have b3: "fv_trace (snd (loadSources ?B fv0_ex)) = [loadZoom_calls, Dispatch ready]" by code_simp
  have c1: "fst (loadSources ?C fv0_ex) = [resolved, rejected]" by code_simp
  have c2: "fv_data (snd (loadSources ?C fv0_ex)) = [7]" by code_simp
  have c3: "el_nodes (snd (loadSources ?C fv0_ex)) = [''up_pftv_container'', ''up_pftv_category'']"
    by code_simp
  have a: "el_nodes (load ?A fv0_ex) = []
     \<and> el_text (load ?A fv0_ex)
         = ''Sorry, data could not be retrieved at this time, please try again later.''
     \<and> fv_trace (load ?A fv0_ex) = [Dispatch noDataRetrieved]"
    using load_finished [of ?A fv0_ex] unfolding Let_def a1 a2 by simp
  have b: "el_nodes (load ?B fv0_ex) = []
     \<and> el_text (load ?B fv0_ex) = ''There are no features available for this protein.''
     \<and> fv_trace (load ?B fv0_ex) = [loadZoom_calls, Dispatch ready, Dispatch noDataAvailable]"
    using load_finished [of ?B fv0_ex] unfolding Let_def b1 b2 b3 by simp
  have c: "load ?C fv0_ex = snd (loadSources ?C fv0_ex)"
    using load_finished [of ?C fv0_ex] unfolding Let_def c1 c2 by simp
  from a b c a1 b1 b2 c1 c2 c3 show ?thesis by simp
qed

subsection \<open>C9: highlighting a region\<close>

text \<open>
  Claim C9, as amended. \<^verbatim>\<open>highlightRegion(begin, end)\<close> clamps \<^verbatim>\<open>begin\<close> to at least 1
  (\<open>clampedBegin\<close>) and \<^verbatim>\<open>end\<close> to at most the length of the sequence, where an
  \<^verbatim>\<open>end\<close> that is absent, 0 or \<^verbatim>\<open>NaN\<close> is replaced by the clamped \<^verbatim>\<open>begin\<close>
  (\<open>clampedEnd\<close>). Exactly when \<open>1 \<le> begin \<le> end \<le> length\<close> holds for the clamped
  values, which are finite numbers then, the selection is dropped, the highlight is
  stored and \<^verbatim>\<open>regionHighlighted\<close> is dispatched with the clamped values (after a zoom
  out if the region is outside the domain of the scale, and the update of the
  highlight); nothing else of the viewer changes. Otherwise the viewer is unchanged:
  nothing is called and nothing is dispatched. This holds for every argument, a finite
  number, an infinity, \<^verbatim>\<open>NaN\<close> or \<^verbatim>\<open>undefined\<close>, and whatever the rounding of the
  arithmetic of the scale.
\<close>

theorem highlightRegion_clamps:
  "(let len = real (length (fv_sequence fv));
        b = clampedBegin begin0;
        e = clampedEnd len begin0 end0;
        r = highlightRegion rd fv begin0 end0
    in (js_le (Finite 1) b \<and> js_le b e \<and> js_le e (Finite len) \<longrightarrow>
          (\<exists>v w. b = Finite v \<and> e = Finite w \<and> 1 \<le> v \<and> v \<le> w \<and> w \<le> len)
          \<and> highlight r = Some (b, e)
          \<and> (\<exists>z. fv_trace r = fv_trace fv @ [deselectFeature_call] @ z
                      @ [updateHighlight_call, Dispatch (regionHighlighted b e)]
                 \<and> (z = [] \<or> z = [zoomOut_call]))
          \<and> r\<lparr>highlight := highlight fv, fv_trace := fv_trace fv\<rparr> = fv)
       \<and> (\<not> (js_le (Finite 1) b \<and> js_le b e \<and> js_le e (Finite len)) \<longrightarrow> r = fv)
       \<and> (\<forall>v. begin0 = Finite v \<longrightarrow> b = Finite (max 1 v))
       \<and> (begin0 = MinusInfinity \<longrightarrow> b = Finite 1)
       \<and> (begin0 = PlusInfinity \<or> begin0 = NaN \<or> begin0 = Undefined \<longrightarrow> b = begin0)
       \<and> (end0 = Undefined \<or> end0 = NaN \<or> end0 = Finite 0 \<longrightarrow> e = b)
       \<and> (\<forall>v. end0 = Finite v \<and> v \<noteq> 0 \<longrightarrow> e = Finite (min v len))
       \<and> (end0 = PlusInfinity \<longrightarrow> e = Finite len)
       \<and> (end0 = MinusInfinity \<longrightarrow> e = MinusInfinity))"
proof -
  define len where "len = real (length (fv_sequence fv))"
  define b where "b = clampedBegin begin0"
  define e where "e = clampedEnd len begin0 end0"
  have r: "highlightRegion rd fv begin0 end0 =
     (if js_le (Finite 1) b \<and> js_le b e \<and> js_le e (Finite len)
         then (let fv1 = fv\<lparr>fv_trace := fv_trace fv @ [deselectFeature_call]\<rparr>;
                   fv2 = fv1\<lparr>highlight := Some (b, e)\<rparr>;
                   fv3 = (if scale_apply rd (fv_xScale fv2) (dom0 (fv_xScale fv2))
                               > scale_apply rd (fv_xScale fv2) (the_number b)
                            \<or> scale_apply rd (fv_xScale fv2) (the_number e)
                               > scale_apply rd (fv_xScale fv2) (dom1 (fv_xScale fv2))
                          then fv2\<lparr>fv_trace := fv_trace fv2 @ [zoomOut_call]\<rparr>
                          else fv2);
                   fv4 = fv3\<lparr>fv_trace := fv_trace fv3 @ [updateHighlight_call]\<rparr>
               in fv4\<lparr>fv_trace := fv_trace fv4 @ [Dispatch (regionHighlighted b e)]\<rparr>)
         else fv)"
    by (simp only: highlightRegion_def Let_def highlightRegion_begin highlightRegion_end
          b_def e_def len_def)
  have p0: "js_le (Finite 1) b \<and> js_le b e \<and> js_le e (Finite len) \<longrightarrow>
          (\<exists>v w. b = Finite v \<and> e = Finite w \<and> 1 \<le> v \<and> v \<le> w \<and> w \<le> len)"
    using js_le_finite [of b e len] by blast
  have p1: "js_le (Finite 1) b \<and> js_le b e \<and> js_le e (Finite len) \<longrightarrow>
          highlight (highlightRegion rd fv begin0 end0) = Some (b, e)
          \<and> (\<exists>z. fv_trace (highlightRegion rd fv begin0 end0) = fv_trace fv @ [deselectFeature_call] @ z
                      @ [updateHighlight_call, Dispatch (regionHighlighted b e)]
                 \<and> (z = [] \<or> z = [zoomOut_call]))
          \<and> (highlightRegion rd fv begin0 end0)\<lparr>highlight := highlight fv, fv_trace := fv_trace fv\<rparr> = fv"
    unfolding r by (simp add: Let_def)
  have p2: "\<not> (js_le (Finite 1) b \<and> js_le b e \<and> js_le e (Finite len)) \<longrightarrow>
              highlightRegion rd fv begin0 end0 = fv"
    unfolding r by simp
  have p3: "(\<forall>v. begin0 = Finite v \<longrightarrow> b = Finite (max 1 v))
       \<and> (begin0 = MinusInfinity \<longrightarrow> b = Finite 1)
       \<and> (begin0 = PlusInfinity \<or> begin0 = NaN \<or> begin0 = Undefined \<longrightarrow> b = begin0)"
    by (auto simp: b_def clampedBegin_def)
  have p4: "(end0 = Undefined \<or> end0 = NaN \<or> end0 = Finite 0 \<longrightarrow> e = b)"
    by (auto simp: e_def b_def clampedEnd_def)
  have p5: "(\<forall>v. end0 = Finite v \<and> v \<noteq> 0 \<longrightarrow> e = Finite (min v len))
       \<and> (end0 = PlusInfinity \<longrightarrow> e = Finite len)
       \<and> (end0 = MinusInfinity \<longrightarrow> e = MinusInfinity)"
    by (auto simp: e_def clampedEnd_def)
  show ?thesis
    unfolding Let_def len_def [symmetric] b_def [symmetric] e_def [symmetric]
    using p0 p1 p2 p3 p4 p5 by blast
qed

theorem highlightRegion_clamps_witness:
  "js_le (Finite 1) (clampedBegin (Finite (- 3)))
   \<and> js_le (clampedBegin (Finite (- 3))) (clampedEnd 10 (Finite (- 3)) (Finite 25))
   \<and> js_le (clampedEnd 10 (Finite (- 3)) (Finite 25)) (Finite 10)
   \<and> clampedBegin (Finite (- 3)) = Finite 1
   \<and> clampedEnd 10 (Finite (- 3)) (Finite 25) = Finite 10
   \<and> highlight (highlightRegion double fv_ex (Finite (- 3)) (Finite 25)) = Some (Finite 1, Finite 10)
   \<and> \<not> (js_le (Finite 1) (clampedBegin (Finite 12))
          \<and> js_le (clampedBegin (Finite 12)) (clampedEnd 10 (Finite 12) Undefined)
          \<and> js_le (clampedEnd 10 (Finite 12) Undefined) (Finite 10))
   \<and> highlightRegion double fv_ex (Finite 12) Undefined = fv_ex
   \<and> clampedEnd 10 (Finite 5) NaN = clampedBegin (Finite 5)
   \<and> highlight (highlightRegion double fv_ex (Finite 5) NaN) = Some (Finite 5, Finite 5)
   \<and> clampedEnd 10 MinusInfinity PlusInfinity = Finite 10
   \<and> highlight (highlightRegion double fv_ex MinusInfinity PlusInfinity) = Some (Finite 1, Finite 10)
   \<and> highlightRegion double fv_ex NaN (Finite 4) = fv_ex
   \<and> highlightRegion double fv_ex Undefined Undefined = fv_ex"
proof -
  have l: "real (length (fv_sequence fv_ex)) = 10" by code_simp
  have h1: "js_le (Finite 1) (clampedBegin (Finite (- 3)))
   \<and> js_le (clampedBegin (Finite (- 3))) (clampedEnd 10 (Finite (- 3)) (Finite 25))
   \<and> js_le (clampedEnd 10 (Finite (- 3)) (Finite 25)) (Finite 10)" by code_simp
  have v1: "clampedBegin (Finite (- 3)) = Finite 1
   \<and> clampedEnd 10 (Finite (- 3)) (Finite 25) = Finite 10" by code_simp
  have h2: "\<not> (js_le (Finite 1) (clampedBegin (Finite 12))
          \<and> js_le (clampedBegin (Finite 12)) (clampedEnd 10 (Finite 12) Undefined)
          \<and> js_le (clampedEnd 10 (Finite 12) Undefined) (Finite 10))" by code_simp
  have h3: "js_le (Finite 1) (clampedBegin (Finite 5))
          \<and> js_le (clampedBegin (Finite 5)) (clampedEnd 10 (Finite 5) NaN)
          \<and> js_le (clampedEnd 10 (Finite 5) NaN) (Finite 10)" by code_simp
  have v3: "clampedBegin (Finite 5) = Finite 5 \<and> clampedEnd 10 (Finite 5) NaN = Finite 5"
    by code_simp
  have h4: "js_le (Finite 1) (clampedBegin MinusInfinity)
          \<and> js_le (clampedBegin MinusInfinity) (clampedEnd 10 MinusInfinity PlusInfinity)
          \<and> js_le (clampedEnd 10 MinusInfinity PlusInfinity) (Finite 10)" by code_simp
  have v4: "clampedBegin MinusInfinity = Finite 1
          \<and> clampedEnd 10 MinusInfinity PlusInfinity = Finite 10" by code_simp
  have h5: "\<not> (js_le (Finite 1) (clampedBegin NaN)
          \<and> js_le (clampedBegin NaN) (clampedEnd 10 NaN (Finite 4))
          \<and> js_le (clampedEnd 10 NaN (Finite 4)) (Finite 10))" by code_simp
  have h6: "\<not> (js_le (Finite 1) (clampedBegin Undefined)
          \<and> js_le (clampedBegin Undefined) (clampedEnd 10 Undefined Undefined)
          \<and> js_le (clampedEnd 10 Undefined Undefined) (Finite 10))" by code_simp
  have a: "highlight (highlightRegion double fv_ex (Finite (- 3)) (Finite 25)) = Some (Finite 1, Finite 10)"
    using highlightRegion_clamps [of fv_ex "Finite (- 3)" "Finite 25" double] h1 v1
    unfolding Let_def l by simp
  have b: "highlightRegion double fv_ex (Finite 12) Undefined = fv_ex"
    using highlightRegion_clamps [of fv_ex "Finite 12" Undefined double] h2 unfolding Let_def l by blast
  have c: "highlight (highlightRegion double fv_ex (Finite 5) NaN) = Some (Finite 5, Finite 5)"
    using highlightRegion_clamps [of fv_ex "Finite 5" NaN double] h3 v3 unfolding Let_def l by simp
  have d: "highlight (highlightRegion double fv_ex MinusInfinity PlusInfinity) = Some (Finite 1, Finite 10)"
    using highlightRegion_clamps [of fv_ex MinusInfinity PlusInfinity double] h4 v4
    unfolding Let_def l by simp
  have e: "highlightRegion double fv_ex NaN (Finite 4) = fv_ex"
    using highlightRegion_clamps [of fv_ex NaN "Finite 4" double] h5 unfolding Let_def l by blast
  have f: "highlightRegion double fv_ex Undefined Undefined = fv_ex"
    using highlightRegion_clamps [of fv_ex Undefined Undefined double] h6 unfolding Let_def l by blast
  from a b c d e f h1 v1 h2 v3 v4 show ?thesis by simp
qed

text \<open>
  The claim as stated takes only a missing \<^verbatim>\<open>end\<close> for the clamped \<^verbatim>\<open>begin\<close>
  (\<open>statedEnd\<close>). For \<^verbatim>\<open>highlightRegion(5, 0)\<close> and for \<^verbatim>\<open>highlightRegion(5, NaN)\<close> on a
  sequence of 10 amino acids the stated condition, \<open>1 \<le> 5 \<le> 0 \<le> 10\<close> and
  \<open>1 \<le> 5 \<le> NaN \<le> 10\<close>, is false, so nothing should change; the code stores the
  highlight \<open>(5, 5)\<close> and dispatches the event.
\<close>

theorem highlightRegion_clamps_counterexample:
  "\<not> (js_le (Finite 1) (clampedBegin (Finite 5))
       \<and> js_le (clampedBegin (Finite 5)) (statedEnd 10 (Finite 5) (Finite 0))
       \<and> js_le (statedEnd 10 (Finite 5) (Finite 0)) (Finite 10))
   \<and> \<not> (js_le (Finite 1) (clampedBegin (Finite 5))
       \<and> js_le (clampedBegin (Finite 5)) (statedEnd 10 (Finite 5) NaN)
       \<and> js_le (statedEnd 10 (Finite 5) NaN) (Finite 10))
   \<and> real (length (fv_sequence fv_ex)) = 10
   \<and> highlight fv_ex = None
   \<and> highlight (highlightRegion (\<lambda>v. v) fv_ex (Finite 5) (Finite 0)) = Some (Finite 5, Finite 5)
   \<and> fv_trace (highlightRegion (\<lambda>v. v) fv_ex (Finite 5) (Finite 0)) =
       fv_trace fv_ex @ [deselectFeature_call, updateHighlight_call,
                         Dispatch (regionHighlighted (Finite 5) (Finite 5))]
   \<and> highlight (highlightRegion (\<lambda>v. v) fv_ex (Finite 5) NaN) = Some (Finite 5, Finite 5)
   \<and> fv_trace (highlightRegion (\<lambda>v. v) fv_ex (Finite 5) NaN) =
       fv_trace fv_ex @ [deselectFeature_call, updateHighlight_call,
                         Dispatch (regionHighlighted (Finite 5) (Finite 5))]"
  by code_simp

subsection \<open>C4: opening and closing a category\<close>

text \<open>
  Claim C4, at a newly constructed collapsible category. The category of the sample
  configuration is painted closed: the title starts with the right arrow, and
  \<^verbatim>\<open>_initPainting\<close> applies \<^verbatim>\<open>_height\<close> = 30 with gap 2, so that the row is 34 pixels
  high and the division of the features 32. \<^verbatim>\<open>open()\<close> hides the overview features,
  builds the two type tracks, visible, in the container of the types, puts the down arrow
  in the title and triggers \<^verbatim>\<open>categoryOpen\<close>. \<^verbatim>\<open>close()\<close> then shows the overview
  features again, hides the rows of the type tracks, puts the right arrow back and
  triggers \<^verbatim>\<open>categoryClose\<close>; but where it is meant to recover the height
  (\<^verbatim>\<open>_closeCategory\<close>, "recover height") it applies \<^verbatim>\<open>_height\<close> with gap 0: the row is
  then 30 pixels high and the division of the features 30, not 34 and 32 as before
  \<^verbatim>\<open>open()\<close>. The collapsed display state is restored, the height of the category is
  not.
\<close>

theorem open_close_heights:
  "collapsible (opt (inst (store_ex ''MKVLAAGIVG'') 0)) = True
   \<and> isClosed env_ex (inst (store_ex ''MKVLAAGIVG'') 0)
   \<and> titleText (inst (store_ex ''MKVLAAGIVG'') 0) = ''> Domains''
   \<and> featuresDisplay (inst (store_ex ''MKVLAAGIVG'') 0) = None
   \<and> featuresHidden (inst (store_ex ''MKVLAAGIVG'') 0) = False
   \<and> height (inst (store_ex ''MKVLAAGIVG'') 0) = 30
   \<and> rowHeight (inst (store_ex ''MKVLAAGIVG'') 0) = 34
   \<and> titleDivHeight (inst (store_ex ''MKVLAAGIVG'') 0) = 24
   \<and> featuresDivHeight (inst (store_ex ''MKVLAAGIVG'') 0) = 32
   \<and> opened_ex = open_category env_ex (store_ex ''MKVLAAGIVG'') 0
   \<and> titleText (inst opened_ex 0) = ''v Domains''
   \<and> featuresDisplay (inst opened_ex 0) = Some ''none''
   \<and> featuresHidden (inst opened_ex 0) = True
   \<and> length (instanceArray opened_ex) = 3
   \<and> rowHidden (inst opened_ex 1) = False \<and> rowHidden (inst opened_ex 2) = False
   \<and> effects (inst opened_ex 0) =
        effects (inst (store_ex ''MKVLAAGIVG'') 0) @ [Trigger categoryOpen]
   \<and> open_category env_ex opened_ex 0 = opened_ex
   \<and> close_category env_ex (store_ex ''MKVLAAGIVG'') 0 = store_ex ''MKVLAAGIVG''
   \<and> closed_ex = close_category env_ex opened_ex 0
   \<and> isClosed env_ex (inst closed_ex 0)
   \<and> titleText (inst closed_ex 0) = ''> Domains''
   \<and> featuresDisplay (inst closed_ex 0) = None
   \<and> featuresHidden (inst closed_ex 0) = False
   \<and> rowDisplay (inst closed_ex 1) = Some ''none'' \<and> rowHidden (inst closed_ex 1) = True
   \<and> rowDisplay (inst closed_ex 2) = Some ''none'' \<and> rowHidden (inst closed_ex 2) = True
   \<and> effects (inst closed_ex 0) =
        effects (inst (store_ex ''MKVLAAGIVG'') 0) @ [Trigger categoryOpen, Trigger categoryClose]
   \<and> height (inst closed_ex 0) = 30
   \<and> rowHeight (inst closed_ex 0) = 30
   \<and> titleDivHeight (inst closed_ex 0) = 22
   \<and> featuresDivHeight (inst closed_ex 0) = 30"
  by code_simp

subsection \<open>C6: two levels\<close>

text \<open>
  Claim C6. The hierarchy of categories and types has two levels. An instance constructed
  over a category in type track mode has \<^verbatim>\<open>opt.collapsible\<close> false whatever option was
  given. \<^verbatim>\<open>_buildTypeInstances\<close> appends one instance for each type, in order, with
  collapsible false and clickable false (\<open>typesBuilt\<close>), and so does the first
  \<^verbatim>\<open>open()\<close> of a closed collapsible category for the types of its category. An
  instance that is not collapsible is left as it is by \<^verbatim>\<open>open()\<close> and \<^verbatim>\<open>close()\<close>, so
  it builds no instances of its own; this holds for every element of \<^verbatim>\<open>_instances\<close> in
  every store reached from the empty one, since the empty store satisfies \<open>wf_store\<close>
  and the constructor, \<^verbatim>\<open>open()\<close>, \<^verbatim>\<open>close()\<close>, \<^verbatim>\<open>zoomInOut()\<close> and
  \<^verbatim>\<open>translate()\<close> preserve it.
\<close>

theorem two_levels:
  "(getTrackMode env (g_category g) None = type_mode \<longrightarrow>
      collapsible (opt (newViewer env g idx)) = False)
   \<and> (self < length (instanceArray st) \<longrightarrow>
        typesBuilt st self types (p_buildTypeInstances env st self types))
   \<and> (self < length (instanceArray st) \<and> collapsible (opt (inst st self)) = True
        \<and> isClosed env (inst st self) \<and> hasBeenOpen (inst st self) \<noteq> True \<longrightarrow>
        (let st' = open_category env st self; n = length (instanceArray st);
             types = getTypes env (category_opt (opt (inst st self)))
         in length (instanceArray st') = n + length types
            \<and> instances st' = instances st @ [n ..< n + length types]
            \<and> (\<forall>j. n \<le> j \<and> j < n + length types \<longrightarrow>
                  collapsible (opt (inst st' j)) = False \<and> clickable (opt (inst st' j)) = False
                  \<and> category_opt (opt (inst st' j)) = types ! (j - n)
                  \<and> hasBeenOpen (inst st' j) = False)))
   \<and> (collapsible (opt (inst st i)) = False \<longrightarrow>
        open_category env st i = st \<and> close_category env st i = st)
   \<and> (wf_store st \<and> i \<in> set (instances st) \<longrightarrow> open_category env st i = st)
   \<and> (wf_store st \<and> self < length (instanceArray st) \<longrightarrow>
        wf_store (open_category env st self) \<and> wf_store (close_category env st self))
   \<and> (wf_store st \<longrightarrow>
        wf_store (p_constructor env st g) \<and> wf_store (zoomInOut env st self m)
        \<and> wf_store (translate env st self m))
   \<and> wf_store \<lparr>instanceArray = [], instances = [], heap = h\<rparr>"
proof (intro conjI impI)
  show "collapsible (opt (newViewer env g idx)) = False"
    if "getTrackMode env (g_category g) None = type_mode"
    using that by (simp add: newViewer_opt)
  show "typesBuilt st self types (p_buildTypeInstances env st self types)"
    if "self < length (instanceArray st)"
    using that by (rule buildTypeInstances_built)
  show "open_category env st i = st" if "collapsible (opt (inst st i)) = False"
    using that by (simp add: open_noop)
  show "close_category env st i = st" if "collapsible (opt (inst st i)) = False"
    using that by (simp add: close_noop)
  show "open_category env st i = st" if "wf_store st \<and> i \<in> set (instances st)"
    using that by (auto simp: wf_store_def open_noop)
  show "wf_store (open_category env st self)"
    if "wf_store st \<and> self < length (instanceArray st)"
    using that by (simp add: wf_store_open)
  show "wf_store (close_category env st self)"
    if w: "wf_store st \<and> self < length (instanceArray st)"
  proof -
    from w have a: "wf_store st" and b: "self < length (instanceArray st)" by simp_all
    show ?thesis
      using a close_shape(2,1) [of env st self] close_opt [OF b, of _ env] by (rule wf_store_same)
  qed
  show "wf_store (p_constructor env st g)" if a: "wf_store st"
    using a by (auto simp: wf_store_def constructor_inst)
  show "wf_store (zoomInOut env st self m)" if a: "wf_store st"
    using a zoomInOut_store_shape(1,2) [of env st self m] zoomInOut_opt [of env st self m]
    by (rule wf_store_same)
  show "wf_store (translate env st self m)" if a: "wf_store st"
    using a translate_store_shape(1,2) [of env st self m] translate_opt [of env st self m]
    by (rule wf_store_same)
  show "wf_store \<lparr>instanceArray = [], instances = [], heap = h\<rparr>"
    by (simp add: wf_store_def)
next
  assume a: "self < length (instanceArray st) \<and> collapsible (opt (inst st self)) = True
        \<and> isClosed env (inst st self) \<and> hasBeenOpen (inst st self) \<noteq> True"
  then have s: "self < length (instanceArray st)" and c: "collapsible (opt (inst st self)) = True"
    and k: "isClosed env (inst st self)" and h: "hasBeenOpen (inst st self) \<noteq> True" by simp_all
  note f = open_first [OF s c k h]
  show "let st' = open_category env st self; n = length (instanceArray st);
             types = getTypes env (category_opt (opt (inst st self)))
         in length (instanceArray st') = n + length types
            \<and> instances st' = instances st @ [n ..< n + length types]
            \<and> (\<forall>j. n \<le> j \<and> j < n + length types \<longrightarrow>
                  collapsible (opt (inst st' j)) = False \<and> clickable (opt (inst st' j)) = False
                  \<and> category_opt (opt (inst st' j)) = types ! (j - n)
                  \<and> hasBeenOpen (inst st' j) = False)"
    unfolding Let_def using f(1,2) f(4) by (simp add: isTypeInstance_def)
qed

theorem two_levels_witness:
  "getTrackMode env_ex (g_category (given_ex ''MKVLAAGIVG'' (Type (type_ex ''DOMAIN'' [0])) True)) None
      = type_mode
   \<and> collapsible (opt (newViewer env_ex (given_ex ''MKVLAAGIVG'' (Type (type_ex ''DOMAIN'' [0])) True) 0))
      = False
   \<and> 3 < length (instanceArray store2_ex)
   \<and> typesBuilt store2_ex 3 [Type (type_ex ''SITE'' [1])]
        (p_buildTypeInstances env_ex store2_ex 3 [Type (type_ex ''SITE'' [1])])
   \<and> collapsible (opt (inst store2_ex 3)) = True
   \<and> isClosed env_ex (inst store2_ex 3)
   \<and> hasBeenOpen (inst store2_ex 3) \<noteq> True
   \<and> length (instanceArray store2_ex) = 4
   \<and> getTypes env_ex (category_opt (opt (inst store2_ex 3))) = [Type (type_ex ''SITE'' [1])]
   \<and> length (instanceArray (open_category env_ex store2_ex 3)) = 5
   \<and> instances store2_ex = [1, 2]
   \<and> instances (open_category env_ex store2_ex 3) = [1, 2, 4]
   \<and> collapsible (opt (inst (open_category env_ex store2_ex 3) 4)) = False
   \<and> clickable (opt (inst (open_category env_ex store2_ex 3) 4)) = False
   \<and> category_opt (opt (inst (open_category env_ex store2_ex 3) 4)) = Type (type_ex ''SITE'' [1])
   \<and> collapsible (opt (inst store2_ex 1)) = False
   \<and> open_category env_ex store2_ex 1 = store2_ex
   \<and> close_category env_ex store2_ex 1 = store2_ex
   \<and> wf_store store2_ex
   \<and> 1 \<in> set (instances store2_ex)
   \<and> wf_store (open_category env_ex store2_ex 3)
   \<and> wf_store (close_category env_ex store2_ex 3)
   \<and> wf_store (p_constructor env_ex store2_ex
         (given_ex ''MKVLAAGIVG'' (Type (type_ex ''DOMAIN'' [0])) True))
   \<and> wf_store (zoomInOut env_ex store2_ex 3 None)
   \<and> wf_store (translate env_ex store2_ex 3 None)"
proof -
  let ?g = "given_ex ''MKVLAAGIVG'' (Type (type_ex ''DOMAIN'' [0])) True"
  let ?ts = "[Type (type_ex ''SITE'' [1])]"
  have h1: "getTrackMode env_ex (g_category ?g) None = type_mode" by code_simp
  have h2: "3 < length (instanceArray store2_ex)" by code_simp
  have h3: "collapsible (opt (inst store2_ex 3)) = True" by code_simp
  have h4: "isClosed env_ex (inst store2_ex 3)" by code_simp
  have h5: "hasBeenOpen (inst store2_ex 3) \<noteq> True" by code_simp
  have h6: "collapsible (opt (inst store2_ex 1)) = False" by code_simp
  have h7: "wf_store store2_ex" by code_simp
  have h8: "1 \<in> set (instances store2_ex)" by code_simp
  have n: "length (instanceArray store2_ex) = 4" by code_simp
  have ts: "getTypes env_ex (category_opt (opt (inst store2_ex 3))) = ?ts" by code_simp
  have i: "instances store2_ex = [1, 2]" by code_simp
  have u: "[4 ..< 5] = [4::nat]" by code_simp
  note t = two_levels [of env_ex ?g 0 3 store2_ex ?ts 1 None]
  from t h2 h3 h4 h5 have "let st' = open_category env_ex store2_ex 3; n = length (instanceArray store2_ex);
             types = getTypes env_ex (category_opt (opt (inst store2_ex 3)))
         in length (instanceArray st') = n + length types
            \<and> instances st' = instances store2_ex @ [n ..< n + length types]
            \<and> (\<forall>j. n \<le> j \<and> j < n + length types \<longrightarrow>
                  collapsible (opt (inst st' j)) = False \<and> clickable (opt (inst st' j)) = False
                  \<and> category_opt (opt (inst st' j)) = types ! (j - n)
                  \<and> hasBeenOpen (inst st' j) = False)"
    by blast
  then have o: "length (instanceArray (open_category env_ex store2_ex 3)) = 4 + length ?ts
     \<and> instances (open_category env_ex store2_ex 3) = instances store2_ex @ [4 ..< 4 + length ?ts]
     \<and> (\<forall>j. 4 \<le> j \<and> j < 4 + length ?ts \<longrightarrow>
           collapsible (opt (inst (open_category env_ex store2_ex 3) j)) = False
           \<and> clickable (opt (inst (open_category env_ex store2_ex 3) j)) = False
           \<and> category_opt (opt (inst (open_category env_ex store2_ex 3) j)) = ?ts ! (j - 4)
           \<and> hasBeenOpen (inst (open_category env_ex store2_ex 3) j) = False)"
    unfolding Let_def n ts .
  then have o1: "length (instanceArray (open_category env_ex store2_ex 3)) = 5"
    and o2: "instances (open_category env_ex store2_ex 3) = [1, 2, 4]"
    by (simp_all add: i u)
  from o have o3: "collapsible (opt (inst (open_category env_ex store2_ex 3) 4)) = False
           \<and> clickable (opt (inst (open_category env_ex store2_ex 3) 4)) = False
           \<and> category_opt (opt (inst (open_category env_ex store2_ex 3) 4)) = Type (type_ex ''SITE'' [1])"
    by simp
  from t h1 h2 h3 h4 h5 h6 h7 h8 n ts i o1 o2 o3 show ?thesis by blast
qed

subsection \<open>C8: selection of a feature\<close>

text \<open>
  Claim C8, at a track of a single type. The claim is about every clickable instance, and
  the comment of \<^verbatim>\<open>_onInstanceFeatureClick\<close> takes the instance to be a category or
  a type whose model holds the clicked feature. An instance constructed for a single type
  is clickable by default, and its category has neither \<^verbatim>\<open>types\<close> nor \<^verbatim>\<open>variants\<close>:
  with nothing selected (\<open>selectionInv\<close> holds), a click on its feature marks the
  feature selected and then raises a \<^verbatim>\<open>TypeError\<close> at
  \<^verbatim>\<open>self._currentSelectedFeature.selected = true\<close>. A feature of the model is then
  selected while \<^verbatim>\<open>_currentSelectedFeature\<close> is undefined, no event has been triggered,
  and the invariant is lost. The same click on the category of the sample configuration,
  which has \<^verbatim>\<open>types\<close>, selects the feature, triggers \<^verbatim>\<open>featureSelected\<close> and
  \<^verbatim>\<open>featureClicked\<close> and keeps the invariant; the lemmas \<open>click_keeps_selection\<close>
  and \<open>click_selects\<close> show the behaviour of the claim for every instance whose lookup
  finds the clicked feature.
\<close>

theorem click_on_type_track:
  "clickable (opt (inst type_store_ex 0)) = True
   \<and> category_opt (opt (inst type_store_ex 0)) = Type (type_ex ''DOMAIN'' [0])
   \<and> modelFeatures (category_opt (opt (inst type_store_ex 0))) = [0]
   \<and> selectionInv type_store_ex 0
   \<and> raised (onClickFeature type_store_ex 0 (SvgPath ''f0'' 0) 0)
   \<and> selected (heap (the_store (onClickFeature type_store_ex 0 (SvgPath ''f0'' 0) 0)) ! 0) = True
   \<and> currentSelectedFeature (inst (the_store (onClickFeature type_store_ex 0 (SvgPath ''f0'' 0) 0)) 0) = None
   \<and> effects (inst (the_store (onClickFeature type_store_ex 0 (SvgPath ''f0'' 0) 0)) 0)
        = effects (inst type_store_ex 0)
   \<and> \<not> selectionInv (the_store (onClickFeature type_store_ex 0 (SvgPath ''f0'' 0) 0)) 0
   \<and> selectionInv (store_ex ''MKVLAAGIVG'') 0
   \<and> \<not> raised (onClickFeature (store_ex ''MKVLAAGIVG'') 0 (SvgPath ''f0'' 0) 0)
   \<and> currentSelectedFeature (inst (the_store (onClickFeature (store_ex ''MKVLAAGIVG'') 0 (SvgPath ''f0'' 0) 0)) 0)
        = Some 0
   \<and> effects (inst (the_store (onClickFeature (store_ex ''MKVLAAGIVG'') 0 (SvgPath ''f0'' 0) 0)) 0)
        = effects (inst (store_ex ''MKVLAAGIVG'') 0)
          @ [Trigger (featureSelected 0 (Some (SvgPath ''f0'' 0))),
             Trigger (featureClicked 0 (Some (SvgPath ''f0'' 0)))]
   \<and> selectionInv (the_store (onClickFeature (store_ex ''MKVLAAGIVG'') 0 (SvgPath ''f0'' 0) 0)) 0"
  by code_simp

end
